theory Spec2Isabelle
  imports Main "HOL-Library.Word" "HOL-Library.Sublist"
begin

unbundle bit_operations_syntax

section \<open>Machine types, errors and the observable calls\<close>

type_synonym byte = "8 word"
type_synonym u64 = "64 word"
type_synonym i64 = "64 word"

text \<open>The error codes of \<^verbatim>\<open>grub_err_t\<close> that luks2.c names; any other code is \<open>GRUB_ERR_OTHER\<close>.\<close>

datatype grub_err =
    GRUB_ERR_NONE
  | GRUB_ERR_OUT_OF_MEMORY
  | GRUB_ERR_BAD_ARGUMENT
  | GRUB_ERR_FILE_NOT_FOUND
  | GRUB_ERR_BAD_SIGNATURE
  | GRUB_ERR_ACCESS_DENIED
  | GRUB_ERR_IO
  | GRUB_ERR_OUT_OF_RANGE
  | GRUB_ERR_OTHER nat

text \<open>The global error state: \<^verbatim>\<open>grub_errno\<close> and \<^verbatim>\<open>grub_errmsg\<close>.\<close>

record errst =
  grub_errno :: grub_err
  grub_errmsg :: string

definition grub_error :: "grub_err \<Rightarrow> string \<Rightarrow> errst \<Rightarrow> grub_err \<times> errst" where
  "grub_error n msg e = (n, e\<lparr>grub_errno := n, grub_errmsg := msg\<rparr>)"

text \<open>
  \<^verbatim>\<open>luks2_derror (n, ...)\<close> expands to \<^verbatim>\<open>grub_derror ("luks2", n, ...)\<close>, whose definition
  is outside luks2.c. It is taken to record the error as \<^verbatim>\<open>grub_error\<close> does and to return
  the code; the message is the format string (arguments are not substituted, conversion
  specifiers are written \<open>%d\<close> and \<open>%s\<close>, inner quotation marks are left out).
\<close>

definition luks2_derror :: "grub_err \<Rightarrow> string \<Rightarrow> errst \<Rightarrow> grub_err \<times> errst" where
  "luks2_derror n msg e = grub_error n msg e"

definition set_errno :: "grub_err option \<Rightarrow> errst \<Rightarrow> errst" where
  "set_errno eo e = (case eo of None \<Rightarrow> e | Some n \<Rightarrow> e\<lparr>grub_errno := n\<rparr>)"

text \<open>
  The lines the trial loop prints for a keyslot (\<^verbatim>\<open>grub_dprintf\<close> and \<^verbatim>\<open>grub_printf_\<close>),
  and the calls luks2.c makes to its collaborators, in the order they happen.
\<close>

datatype slot_msg =
    Failed_to_get | Ignoring | Trying | Decryption_failed | Could_not_open | Slot_opened

datatype event =
    EvFileSeek u64
  | EvFileRead u64 u64
  | EvDiskRead u64 u64
  | EvZalloc u64
  | EvMalloc u64
  | EvFree "byte list"
  | EvJsonParse "byte list" u64
  | EvJsonFree
  | EvPasswordGet
  | EvPbkdf2 "byte list" u64
  | EvSetCipher string string
  | EvSetKey "byte list" u64
  | EvDecrypt "byte list" u64 u64 nat
  | EvAFMerge "byte list" u64 u64
  | EvSlot slot_msg nat

section \<open>Devices and detached header files\<close>

text \<open>
  A source disk and an optional detached header file (\<^verbatim>\<open>hdr_file\<close>, \<open>None\<close> for NULL) carry
  their read primitives. \<open>disk_read off len\<close> is \<^verbatim>\<open>grub_disk_read (disk, 0, off, len, buf)\<close>:
  the returned code and the buffer afterwards. \<open>file_seek off\<close> tells whether
  \<^verbatim>\<open>grub_file_seek\<close> returned -1 and which \<^verbatim>\<open>grub_errno\<close> it set, if any;
  \<open>file_read pos len\<close> is \<^verbatim>\<open>grub_file_read\<close> at position \<open>pos\<close>: the count returned, the
  buffer afterwards and the \<^verbatim>\<open>grub_errno\<close> it set, if any.
\<close>

record grub_disk =
  disk_read :: "u64 \<Rightarrow> u64 \<Rightarrow> grub_err \<times> byte list"
  disk_size :: u64
  disk_log_sector_size :: "32 word"
  disk_partition :: "string option"

record grub_file =
  file_seek :: "u64 \<Rightarrow> bool \<times> grub_err option"
  file_read :: "u64 \<Rightarrow> u64 \<Rightarrow> u64 \<times> byte list \<times> grub_err option"

text \<open>
  The block \<^verbatim>\<open>if (hdr_file) { seek; read } else ret = grub_disk_read (...)\<close>, which luks2.c
  writes out at lines 323-332, 342-351, 501-510 and 583-593. \<open>ret\<close> keeps its value when the
  file is read in full; \<open>buf\<close> is the buffer before the block.
\<close>

definition read_block ::
  "grub_disk \<Rightarrow> grub_file option \<Rightarrow> u64 \<Rightarrow> u64 \<Rightarrow> grub_err \<Rightarrow> byte list \<Rightarrow> errst
     \<Rightarrow> grub_err \<times> byte list \<times> errst \<times> event list" where
  "read_block source hdr_file off len ret buf e =
     (case hdr_file of
        Some f \<Rightarrow>
          (case file_seek f off of
             (True, eo) \<Rightarrow>
               (let e1 = set_errno eo e in (grub_errno e1, buf, e1, [EvFileSeek off]))
           | (False, eo) \<Rightarrow>
               (case file_read f off len of
                  (n, buf', eo') \<Rightarrow>
                    (let e2 = set_errno eo' (set_errno eo e)
                     in (if n \<noteq> len then grub_errno e2 else ret, buf', e2,
                         [EvFileSeek off, EvFileRead off len]))))
      | None \<Rightarrow>
          (case disk_read source off len of
             (r, buf') \<Rightarrow>
               (r, buf', if r = GRUB_ERR_NONE then e else e\<lparr>grub_errno := r\<rparr>,
                [EvDiskRead off len])))"

section \<open>The binary header\<close>

text \<open>
  \<^verbatim>\<open>struct grub_luks2_header\<close> is packed, so a header is the 4096 bytes as read and a field
  is the bytes at its offset: magic at 0, version at 6, hdr_size at 8, seqid at 16,
  uuid at 168, hdr_offset at 256. The multi-byte fields are stored big-endian.
\<close>

definition LUKS_MAGIC_1ST :: "byte list" where
  "LUKS_MAGIC_1ST = [0x4C, 0x55, 0x4B, 0x53, 0xBA, 0xBE]"

definition LUKS_MAGIC_2ND :: "byte list" where
  "LUKS_MAGIC_2ND = [0x53, 0x4B, 0x55, 0x4C, 0xBA, 0xBE]"

definition sizeof_header :: u64 where
  "sizeof_header = 4096"

definition hdr_magic :: "byte list \<Rightarrow> byte list" where
  "hdr_magic h = take 6 h"

definition hdr_version :: "byte list \<Rightarrow> byte list" where
  "hdr_version h = take 2 (drop 6 h)"

definition hdr_hdr_size :: "byte list \<Rightarrow> byte list" where
  "hdr_hdr_size h = take 8 (drop 8 h)"

definition hdr_seqid :: "byte list \<Rightarrow> byte list" where
  "hdr_seqid h = take 8 (drop 16 h)"

definition hdr_uuid :: "byte list \<Rightarrow> byte list" where
  "hdr_uuid h = take 40 (drop 168 h)"

definition hdr_hdr_offset :: "byte list \<Rightarrow> byte list" where
  "hdr_hdr_offset h = take 8 (drop 256 h)"

definition grub_be_to_cpu16 :: "byte list \<Rightarrow> 16 word" where
  "grub_be_to_cpu16 bs = foldl (\<lambda>acc b. push_bit 8 acc OR ucast b) 0 bs"

definition grub_be_to_cpu64 :: "byte list \<Rightarrow> u64" where
  "grub_be_to_cpu64 bs = foldl (\<lambda>acc b. push_bit 8 acc OR ucast b) 0 bs"

text \<open>
  \<^verbatim>\<open>luks2_read_header\<close> (lines 316-365). \<open>primary\<close> and \<open>secondary\<close> are uninitialised
  locals; their bytes before the read are \<open>[]\<close> here.
\<close>

definition luks2_read_header ::
  "grub_disk \<Rightarrow> grub_file option \<Rightarrow> byte list \<Rightarrow> errst
     \<Rightarrow> grub_err \<times> byte list \<times> errst \<times> event list" where
  "luks2_read_header disk hdr_file outhdr e =
     (case read_block disk hdr_file 0 sizeof_header GRUB_ERR_NONE [] e of
        (ret, primary, e1, ev1) \<Rightarrow>
          if ret \<noteq> GRUB_ERR_NONE then (ret, outhdr, e1, ev1)
          else if hdr_magic primary \<noteq> LUKS_MAGIC_1ST
                  \<or> grub_be_to_cpu16 (hdr_version primary) \<noteq> 2 then
            (case grub_error GRUB_ERR_BAD_SIGNATURE ''Bad primary signature'' e1 of
               (r, e2) \<Rightarrow> (r, outhdr, e2, ev1))
          else
            (case read_block disk hdr_file (grub_be_to_cpu64 (hdr_hdr_size primary))
                    sizeof_header ret [] e1 of
               (ret2, secondary, e2, ev2) \<Rightarrow>
                 if ret2 \<noteq> GRUB_ERR_NONE then (ret2, outhdr, e2, ev1 @ ev2)
                 else if hdr_magic secondary \<noteq> LUKS_MAGIC_2ND
                         \<or> grub_be_to_cpu16 (hdr_version secondary) \<noteq> 2 then
                   (case grub_error GRUB_ERR_BAD_SIGNATURE ''Bad secondary signature'' e2 of
                      (r, e3) \<Rightarrow> (r, outhdr, e3, ev1 @ ev2))
                 else
                   (let header =
                          (if grub_be_to_cpu64 (hdr_seqid primary)
                                < grub_be_to_cpu64 (hdr_seqid secondary)
                           then secondary else primary)
                    in (GRUB_ERR_NONE, header, e2, ev1 @ ev2))))"

section \<open>JSON navigation\<close>

text \<open>
  Modelled from the spec: the JSON values and the navigation calls of json.h
  (\<^verbatim>\<open>grub_json_getvalue\<close>, \<^verbatim>\<open>getstring\<close>, \<^verbatim>\<open>getint64\<close>, \<^verbatim>\<open>getuint64\<close>,
  \<^verbatim>\<open>getchild\<close>, \<^verbatim>\<open>getsize\<close>), which luks2.c calls and does not define. An object is the
  list of its members in document order. A cursor (\<^verbatim>\<open>grub_json_t\<close>) stands on a value or,
  as child \<open>i\<close> of an object, on the (key, value) pair at position \<open>i\<close>; the pair reads as
  its key string and has the value as its only child. A getter returns \<open>None\<close> where the C
  call returns an error code, and then writes nothing.
\<close>

datatype json =
    JObject "(string \<times> json) list"
  | JArray "json list"
  | JString string
  | JPrimitive string

datatype grub_json = Value json | Pair string json

datatype grub_json_type =
    GRUB_JSON_OBJECT | GRUB_JSON_ARRAY | GRUB_JSON_STRING | GRUB_JSON_PRIMITIVE

fun grub_json_gettype :: "grub_json \<Rightarrow> grub_json_type" where
  "grub_json_gettype (Value (JObject kvs)) = GRUB_JSON_OBJECT"
| "grub_json_gettype (Value (JArray xs)) = GRUB_JSON_ARRAY"
| "grub_json_gettype (Value (JString s)) = GRUB_JSON_STRING"
| "grub_json_gettype (Value (JPrimitive s)) = GRUB_JSON_PRIMITIVE"
| "grub_json_gettype (Pair k v) = GRUB_JSON_STRING"

fun token_text :: "grub_json \<Rightarrow> string" where
  "token_text (Value (JString s)) = s"
| "token_text (Value (JPrimitive s)) = s"
| "token_text (Pair k v) = k"
| "token_text (Value v) = []"

fun grub_json_getsize :: "grub_json \<Rightarrow> nat option" where
  "grub_json_getsize (Value (JObject kvs)) = Some (length kvs)"
| "grub_json_getsize (Value (JArray xs)) = Some (length xs)"
| "grub_json_getsize (Value v) = Some 0"
| "grub_json_getsize (Pair k v) = Some 1"

fun grub_json_getchild :: "grub_json \<Rightarrow> nat \<Rightarrow> grub_json option" where
  "grub_json_getchild (Value (JObject kvs)) n =
     (if n < length kvs then Some (Pair (fst (kvs ! n)) (snd (kvs ! n))) else None)"
| "grub_json_getchild (Value (JArray xs)) n =
     (if n < length xs then Some (Value (xs ! n)) else None)"
| "grub_json_getchild (Value v) n = None"
| "grub_json_getchild (Pair k v) n = (if n = 0 then Some (Value v) else None)"

definition grub_json_getvalue :: "grub_json \<Rightarrow> string \<Rightarrow> grub_json option" where
  "grub_json_getvalue parent key =
     (case parent of
        Value (JObject kvs) \<Rightarrow> map_option Value (map_of kvs key)
      | _ \<Rightarrow> None)"

text \<open>The key argument of the typed getters may be NULL (\<open>None\<close>): the cursor itself is read.\<close>

definition get_value :: "grub_json \<Rightarrow> string option \<Rightarrow> (grub_json_type \<times> string) option" where
  "get_value parent key =
     (case key of
        None \<Rightarrow> Some (grub_json_gettype parent, token_text parent)
      | Some k \<Rightarrow>
          map_option (\<lambda>c. (grub_json_gettype c, token_text c)) (grub_json_getvalue parent k))"

definition is_digit :: "char \<Rightarrow> bool" where
  "is_digit c = (48 \<le> (of_char c :: nat) \<and> (of_char c :: nat) \<le> 57)"

definition dec_value :: "string \<Rightarrow> int" where
  "dec_value s = foldl (\<lambda>a c. 10 * a + (of_char c - 48)) 0 (takeWhile is_digit s)"

text \<open>Decimal conversion of the leading digits, saturating as \<^verbatim>\<open>grub_strtoull\<close> and
  \<^verbatim>\<open>grub_strtol\<close> do.\<close>

definition grub_strtoull :: "string \<Rightarrow> u64" where
  "grub_strtoull s = (let n = dec_value s in if 2 ^ 64 \<le> n then - 1 else word_of_int n)"

definition grub_strtol :: "string \<Rightarrow> i64" where
  "grub_strtol s =
     (case s of
        c # r \<Rightarrow>
          (if c = CHR ''-''
           then (let n = dec_value r in if 2 ^ 63 \<le> n then push_bit 63 1 else - word_of_int n)
           else (let n = dec_value s in if 2 ^ 63 \<le> n then push_bit 63 1 - 1 else word_of_int n))
      | [] \<Rightarrow> 0)"

definition grub_json_getstring :: "grub_json \<Rightarrow> string option \<Rightarrow> string option" where
  "grub_json_getstring parent key =
     (case get_value parent key of
        Some (t, s) \<Rightarrow> if t = GRUB_JSON_STRING then Some s else None
      | None \<Rightarrow> None)"

definition grub_json_getuint64 :: "grub_json \<Rightarrow> string option \<Rightarrow> u64 option" where
  "grub_json_getuint64 parent key =
     (case get_value parent key of
        Some (t, s) \<Rightarrow>
          if t = GRUB_JSON_STRING \<or> t = GRUB_JSON_PRIMITIVE then Some (grub_strtoull s) else None
      | None \<Rightarrow> None)"

definition grub_json_getint64 :: "grub_json \<Rightarrow> string option \<Rightarrow> i64 option" where
  "grub_json_getint64 parent key =
     (case get_value parent key of
        Some (t, s) \<Rightarrow>
          if t = GRUB_JSON_STRING \<or> t = GRUB_JSON_PRIMITIVE then Some (grub_strtol s) else None
      | None \<Rightarrow> None)"

section \<open>Keyslots, segments and digests\<close>

datatype grub_luks2_kdf_type = LUKS2_KDF_TYPE_ARGON2I | LUKS2_KDF_TYPE_PBKDF2

text \<open>
  The union \<^verbatim>\<open>kdf.u\<close>, as the three 8-byte words it occupies where a pointer has 64 bits:
  \<^verbatim>\<open>argon2i.time\<close> and \<^verbatim>\<open>pbkdf2.hash\<close> share word 0, \<^verbatim>\<open>argon2i.memory\<close> and
  \<^verbatim>\<open>pbkdf2.iterations\<close> share word 1, and \<^verbatim>\<open>argon2i.cpus\<close> is word 2, which no member of
  \<^verbatim>\<open>pbkdf2\<close> overlaps. A store into a member replaces its word and leaves the other words
  as they are. Word 0 holds either an integer or a pointer to a string.
\<close>

datatype kdf_word = W_int i64 | W_ptr string

record kdf_union =
  u_word0 :: kdf_word
  u_word1 :: i64
  u_word2 :: i64

definition set_argon2i_time :: "i64 \<Rightarrow> kdf_union \<Rightarrow> kdf_union" where
  "set_argon2i_time v u = u\<lparr>u_word0 := W_int v\<rparr>"

definition set_argon2i_memory :: "i64 \<Rightarrow> kdf_union \<Rightarrow> kdf_union" where
  "set_argon2i_memory v u = u\<lparr>u_word1 := v\<rparr>"

definition set_argon2i_cpus :: "i64 \<Rightarrow> kdf_union \<Rightarrow> kdf_union" where
  "set_argon2i_cpus v u = u\<lparr>u_word2 := v\<rparr>"

definition set_pbkdf2_hash :: "string \<Rightarrow> kdf_union \<Rightarrow> kdf_union" where
  "set_pbkdf2_hash v u = u\<lparr>u_word0 := W_ptr v\<rparr>"

definition set_pbkdf2_iterations :: "i64 \<Rightarrow> kdf_union \<Rightarrow> kdf_union" where
  "set_pbkdf2_iterations v u = u\<lparr>u_word1 := v\<rparr>"

text \<open>
  The reads of \<^verbatim>\<open>pbkdf2.hash\<close> and \<^verbatim>\<open>pbkdf2.iterations\<close>. luks2.c reads them only in
  \<^verbatim>\<open>luks2_decrypt_key\<close>, for a keyslot whose \<^verbatim>\<open>kdf.type\<close> is PBKDF2, and such a keyslot
  comes from a parse that stored a string pointer in word 0. An integer in word 0 is not
  the address of a string; it is read as the empty string here.
\<close>

definition pbkdf2_hash :: "kdf_union \<Rightarrow> string" where
  "pbkdf2_hash u = (case u_word0 u of W_ptr h \<Rightarrow> h | W_int t \<Rightarrow> [])"

definition pbkdf2_iterations :: "kdf_union \<Rightarrow> i64" where
  "pbkdf2_iterations u = u_word1 u"

record grub_luks2_keyslot =
  ks_key_size :: i64
  ks_priority :: i64
  area_encryption :: string
  area_offset :: u64
  area_size :: u64
  area_key_size :: i64
  af_hash :: string
  af_stripes :: i64
  kdf_type :: grub_luks2_kdf_type
  kdf_salt :: string
  kdf_u :: kdf_union

record grub_luks2_segment =
  seg_offset :: u64
  seg_size :: string
  seg_encryption :: string
  seg_sector_size :: i64

record grub_luks2_digest =
  dg_keyslots :: u64
  dg_segments :: u64
  dg_salt :: string
  dg_digest :: string
  dg_hash :: string
  dg_iterations :: i64

section \<open>Parsing one structure\<close>

text \<open>
  A getter that stores through a pointer into the output record: \<open>put r upd out\<close> is
  (failed, record afterwards). \<open>or_else\<close> is C's \<^verbatim>\<open>||\<close> over such calls: the second runs
  only when the first did not fail.
\<close>

definition put :: "'a option \<Rightarrow> ('a \<Rightarrow> 'o \<Rightarrow> 'o) \<Rightarrow> 'o \<Rightarrow> bool \<times> 'o" where
  "put r upd out = (case r of None \<Rightarrow> (True, out) | Some v \<Rightarrow> (False, upd v out))"

definition or_else :: "bool \<times> 'o \<Rightarrow> ('o \<Rightarrow> bool \<times> 'o) \<Rightarrow> bool \<times> 'o" where
  "or_else r f = (case r of (True, out) \<Rightarrow> (True, out) | (False, out) \<Rightarrow> f out)"

text \<open>\<^verbatim>\<open>return luks2_derror (n, msg)\<close> from a function with the output record \<open>out\<close>.\<close>

definition return_derror :: "grub_err \<Rightarrow> string \<Rightarrow> 'o \<Rightarrow> errst \<Rightarrow> grub_err \<times> 'o \<times> errst" where
  "return_derror n msg out e = (case luks2_derror n msg e of (r, e') \<Rightarrow> (r, out, e'))"

text \<open>\<^verbatim>\<open>luks2_parse_keyslot\<close>, lines 179-188: the anti-forensic parameters.\<close>

definition luks2_parse_keyslot_af ::
  "grub_luks2_keyslot \<Rightarrow> grub_json \<Rightarrow> errst \<Rightarrow> grub_err \<times> grub_luks2_keyslot \<times> errst" where
  "luks2_parse_keyslot_af out keyslot e =
     (case grub_json_getvalue keyslot ''af'' of
        None \<Rightarrow> return_derror GRUB_ERR_BAD_ARGUMENT ''missing or invalid area'' out e
      | Some af \<Rightarrow>
          (case grub_json_getstring af (Some ''type'') of
             None \<Rightarrow> return_derror GRUB_ERR_BAD_ARGUMENT ''missing or invalid area'' out e
           | Some type \<Rightarrow>
               if type \<noteq> ''luks1'' then
                 return_derror GRUB_ERR_BAD_ARGUMENT ''Unsupported AF type %s'' out e
               else
                 (case or_else
                         (put (grub_json_getint64 af (Some ''stripes''))
                            (\<lambda>v x. x\<lparr>af_stripes := v\<rparr>) out)
                         (put (grub_json_getstring af (Some ''hash''))
                            (\<lambda>v x. x\<lparr>af_hash := v\<rparr>)) of
                    (True, out1) \<Rightarrow>
                      return_derror GRUB_ERR_BAD_ARGUMENT ''Missing AF parameters'' out1 e
                  | (False, out1) \<Rightarrow> (GRUB_ERR_NONE, out1, e))))"

text \<open>\<^verbatim>\<open>luks2_parse_keyslot\<close>, lines 157-177: the key derivation function, then the rest.\<close>

definition luks2_parse_keyslot_kdf ::
  "grub_luks2_keyslot \<Rightarrow> grub_json \<Rightarrow> errst \<Rightarrow> grub_err \<times> grub_luks2_keyslot \<times> errst" where
  "luks2_parse_keyslot_kdf out keyslot e =
     (case grub_json_getvalue keyslot ''kdf'' of
        None \<Rightarrow> return_derror GRUB_ERR_BAD_ARGUMENT ''Missing or invalid KDF'' out e
      | Some kdf \<Rightarrow>
          (case grub_json_getstring kdf (Some ''type'') of
             None \<Rightarrow> return_derror GRUB_ERR_BAD_ARGUMENT ''Missing or invalid KDF'' out e
           | Some type \<Rightarrow>
               (case put (grub_json_getstring kdf (Some ''salt''))
                       (\<lambda>v x. x\<lparr>kdf_salt := v\<rparr>) out of
                  (True, out1) \<Rightarrow>
                    return_derror GRUB_ERR_BAD_ARGUMENT ''Missing or invalid KDF'' out1 e
                | (False, out1) \<Rightarrow>
                    if type = ''argon2i'' \<or> type = ''argon2id'' then
                      (case or_else (or_else
                              (put (grub_json_getint64 kdf (Some ''time''))
                                 (\<lambda>v x. x\<lparr>kdf_u := set_argon2i_time v (kdf_u x)\<rparr>)
                                 (out1\<lparr>kdf_type := LUKS2_KDF_TYPE_ARGON2I\<rparr>))
                              (put (grub_json_getint64 kdf (Some ''memory''))
                                 (\<lambda>v x. x\<lparr>kdf_u := set_argon2i_memory v (kdf_u x)\<rparr>)))
                              (put (grub_json_getint64 kdf (Some ''cpus''))
                                 (\<lambda>v x. x\<lparr>kdf_u := set_argon2i_cpus v (kdf_u x)\<rparr>)) of
                         (True, out2) \<Rightarrow>
                           return_derror GRUB_ERR_BAD_ARGUMENT ''Missing Argon2i parameters'' out2 e
                       | (False, out2) \<Rightarrow> luks2_parse_keyslot_af out2 keyslot e)
                    else if type = ''pbkdf2'' then
                      (case or_else
                              (put (grub_json_getstring kdf (Some ''hash''))
                                 (\<lambda>v x. x\<lparr>kdf_u := set_pbkdf2_hash v (kdf_u x)\<rparr>)
                                 (out1\<lparr>kdf_type := LUKS2_KDF_TYPE_PBKDF2\<rparr>))
                              (put (grub_json_getint64 kdf (Some ''iterations''))
                                 (\<lambda>v x. x\<lparr>kdf_u := set_pbkdf2_iterations v (kdf_u x)\<rparr>)) of
                         (True, out2) \<Rightarrow>
                           return_derror GRUB_ERR_BAD_ARGUMENT ''Missing PBKDF2 parameters'' out2 e
                       | (False, out2) \<Rightarrow> luks2_parse_keyslot_af out2 keyslot e)
                    else
                      return_derror GRUB_ERR_BAD_ARGUMENT ''Unsupported KDF type %s'' out1 e)))"

text \<open>\<^verbatim>\<open>luks2_parse_keyslot\<close>, lines 146-155: the key area, then the rest.\<close>

definition luks2_parse_keyslot_area ::
  "grub_luks2_keyslot \<Rightarrow> grub_json \<Rightarrow> errst \<Rightarrow> grub_err \<times> grub_luks2_keyslot \<times> errst" where
  "luks2_parse_keyslot_area out keyslot e =
     (case grub_json_getvalue keyslot ''area'' of
        None \<Rightarrow> return_derror GRUB_ERR_BAD_ARGUMENT ''Missing or invalid key area'' out e
      | Some area \<Rightarrow>
          (case grub_json_getstring area (Some ''type'') of
             None \<Rightarrow> return_derror GRUB_ERR_BAD_ARGUMENT ''Missing or invalid key area'' out e
           | Some type \<Rightarrow>
               if type \<noteq> ''raw'' then
                 return_derror GRUB_ERR_BAD_ARGUMENT ''Unsupported key area type: %s'' out e
               else
                 (case or_else (or_else (or_else
                         (put (grub_json_getuint64 area (Some ''offset''))
                            (\<lambda>v x. x\<lparr>area_offset := v\<rparr>) out)
                         (put (grub_json_getuint64 area (Some ''size''))
                            (\<lambda>v x. x\<lparr>area_size := v\<rparr>)))
                         (put (grub_json_getstring area (Some ''encryption''))
                            (\<lambda>v x. x\<lparr>area_encryption := v\<rparr>)))
                         (put (grub_json_getint64 area (Some ''key_size''))
                            (\<lambda>v x. x\<lparr>area_key_size := v\<rparr>)) of
                    (True, out1) \<Rightarrow>
                      return_derror GRUB_ERR_BAD_ARGUMENT ''Missing key area information'' out1 e
                  | (False, out1) \<Rightarrow> luks2_parse_keyslot_kdf out1 keyslot e)))"

text \<open>\<^verbatim>\<open>luks2_parse_keyslot\<close> (lines 131-189), from its first statement.\<close>

definition luks2_parse_keyslot ::
  "grub_luks2_keyslot \<Rightarrow> grub_json \<Rightarrow> errst \<Rightarrow> grub_err \<times> grub_luks2_keyslot \<times> errst" where
  "luks2_parse_keyslot out keyslot e =
     (case grub_json_getstring keyslot (Some ''type'') of
        None \<Rightarrow> return_derror GRUB_ERR_BAD_ARGUMENT ''Missing or invalid keyslot'' out e
      | Some type \<Rightarrow>
          if type \<noteq> ''luks2'' then
            return_derror GRUB_ERR_BAD_ARGUMENT ''Unsupported keyslot type %s'' out e
          else
            (case put (grub_json_getint64 keyslot (Some ''key_size''))
                    (\<lambda>v x. x\<lparr>ks_key_size := v\<rparr>) out of
               (True, out1) \<Rightarrow>
                 return_derror GRUB_ERR_BAD_ARGUMENT ''Missing keyslot information'' out1 e
             | (False, out1) \<Rightarrow>
                 (case put (grub_json_getint64 keyslot (Some ''priority''))
                         (\<lambda>v x. x\<lparr>ks_priority := v\<rparr>) out1 of
                    (True, out2) \<Rightarrow>
                      luks2_parse_keyslot_area (out2\<lparr>ks_priority := 1\<rparr>) keyslot e
                  | (False, out2) \<Rightarrow> luks2_parse_keyslot_area out2 keyslot e)))"

text \<open>\<^verbatim>\<open>luks2_parse_segment\<close> (lines 191-208).\<close>

definition luks2_parse_segment ::
  "grub_luks2_segment \<Rightarrow> grub_json \<Rightarrow> errst \<Rightarrow> grub_err \<times> grub_luks2_segment \<times> errst" where
  "luks2_parse_segment out segment e =
     (case grub_json_getstring segment (Some ''type'') of
        None \<Rightarrow> return_derror GRUB_ERR_BAD_ARGUMENT ''Invalid segment type'' out e
      | Some type \<Rightarrow>
          if type \<noteq> ''crypt'' then
            return_derror GRUB_ERR_BAD_ARGUMENT ''Unsupported segment type %s'' out e
          else
            (case or_else (or_else (or_else
                    (put (grub_json_getuint64 segment (Some ''offset''))
                       (\<lambda>v x. x\<lparr>seg_offset := v\<rparr>) out)
                    (put (grub_json_getstring segment (Some ''size''))
                       (\<lambda>v x. x\<lparr>seg_size := v\<rparr>)))
                    (put (grub_json_getstring segment (Some ''encryption''))
                       (\<lambda>v x. x\<lparr>seg_encryption := v\<rparr>)))
                    (put (grub_json_getint64 segment (Some ''sector_size''))
                       (\<lambda>v x. x\<lparr>seg_sector_size := v\<rparr>)) of
               (True, out1) \<Rightarrow>
                 return_derror GRUB_ERR_BAD_ARGUMENT ''Missing segment parameters'' out1 e
             | (False, out1) \<Rightarrow> (GRUB_ERR_NONE, out1, e)))"

text \<open>
  The expression \<^verbatim>\<open>(1 << bit)\<close> of lines 241, 254, 288 and 306, as it reaches a 64-bit
  mask. The constant 1 is an \<^verbatim>\<open>int\<close>, so the shift is done on 32 bits and its \<^verbatim>\<open>int\<close>
  result is sign-extended to 64 bits. For \<open>bit = 31\<close> the result is \<^verbatim>\<open>INT_MIN\<close> (the
  compiler defines signed left shift so). For \<open>bit \<ge> 32\<close> ISO C leaves the shift
  undefined; the x86 shift instruction takes the count modulo 32, which is what is written
  here.
\<close>

definition shl_int_1 :: "u64 \<Rightarrow> u64" where
  "shl_int_1 b = scast (push_bit (unat b mod 32) (1 :: 32 word))"

text \<open>
  The loops of lines 236-242 and 249-255: \<open>i\<close> is the index, the third argument counts the
  iterations left (\<open>size - i\<close>). The result tells whether an element was rejected.
\<close>

fun digest_bits :: "grub_json \<Rightarrow> nat \<Rightarrow> nat \<Rightarrow> u64 \<Rightarrow> bool \<times> u64" where
  "digest_bits arr i 0 m = (False, m)"
| "digest_bits arr i (Suc n) m =
     (case grub_json_getchild arr i of
        None \<Rightarrow> (True, m)
      | Some c \<Rightarrow>
          (case grub_json_getuint64 c None of
             None \<Rightarrow> (True, m)
           | Some b \<Rightarrow> digest_bits arr (Suc i) n (m OR shl_int_1 b)))"

text \<open>\<^verbatim>\<open>luks2_parse_digest\<close> (lines 210-258).\<close>

definition luks2_parse_digest ::
  "grub_luks2_digest \<Rightarrow> grub_json \<Rightarrow> errst \<Rightarrow> grub_err \<times> grub_luks2_digest \<times> errst" where
  "luks2_parse_digest out digest e =
     (case grub_json_getstring digest (Some ''type'') of
        None \<Rightarrow> return_derror GRUB_ERR_BAD_ARGUMENT ''Invalid digest type'' out e
      | Some type \<Rightarrow>
          if type \<noteq> ''pbkdf2'' then
            return_derror GRUB_ERR_BAD_ARGUMENT ''Unsupported digest type %s'' out e
          else
            (case grub_json_getvalue digest ''segments'' of
               None \<Rightarrow> return_derror GRUB_ERR_BAD_ARGUMENT ''Missing digest parameters'' out e
             | Some segments \<Rightarrow>
                 (case grub_json_getvalue digest ''keyslots'' of
                    None \<Rightarrow>
                      return_derror GRUB_ERR_BAD_ARGUMENT ''Missing digest parameters'' out e
                  | Some keyslots \<Rightarrow>
                      (case or_else (or_else (or_else
                              (put (grub_json_getstring digest (Some ''salt''))
                                 (\<lambda>v x. x\<lparr>dg_salt := v\<rparr>) out)
                              (put (grub_json_getstring digest (Some ''digest''))
                                 (\<lambda>v x. x\<lparr>dg_digest := v\<rparr>)))
                              (put (grub_json_getstring digest (Some ''hash''))
                                 (\<lambda>v x. x\<lparr>dg_hash := v\<rparr>)))
                              (put (grub_json_getint64 digest (Some ''iterations''))
                                 (\<lambda>v x. x\<lparr>dg_iterations := v\<rparr>)) of
                         (True, out1) \<Rightarrow>
                           return_derror GRUB_ERR_BAD_ARGUMENT ''Missing digest parameters'' out1 e
                       | (False, out1) \<Rightarrow>
                           (case grub_json_getsize segments of
                              None \<Rightarrow>
                                return_derror GRUB_ERR_BAD_ARGUMENT
                                  ''Digest references no segments'' out1 e
                            | Some sz \<Rightarrow>
                                (case digest_bits segments 0 sz 0 of
                                   (True, m) \<Rightarrow>
                                     return_derror GRUB_ERR_BAD_ARGUMENT ''Invalid segment''
                                       (out1\<lparr>dg_segments := m\<rparr>) e
                                 | (False, m) \<Rightarrow>
                                     (case grub_json_getsize keyslots of
                                        None \<Rightarrow>
                                          return_derror GRUB_ERR_BAD_ARGUMENT
                                            ''Digest references no keyslots''
                                            (out1\<lparr>dg_segments := m\<rparr>) e
                                      | Some sz2 \<Rightarrow>
                                          (case digest_bits keyslots 0 sz2 0 of
                                             (True, m2) \<Rightarrow>
                                               return_derror GRUB_ERR_BAD_ARGUMENT ''Invalid keyslot''
                                                 (out1\<lparr>dg_segments := m, dg_keyslots := m2\<rparr>) e
                                           | (False, m2) \<Rightarrow>
                                               (GRUB_ERR_NONE,
                                                out1\<lparr>dg_segments := m, dg_keyslots := m2\<rparr>,
                                                e)))))))))"

section \<open>Resolving a keyslot to its digest and segment\<close>

text \<open>
  The three getters \<^verbatim>\<open>getchild (&x, &xs, i) || getuint64 (&key, &x, NULL) ||
  getchild (&x, &x, 0)\<close> of lines 270-272, 282-284 and 300-302: the integer key and the value of
  the entry at position \<open>i\<close>.
\<close>

definition keyed_child :: "grub_json \<Rightarrow> nat \<Rightarrow> (u64 \<times> grub_json) option" where
  "keyed_child parent i =
     (case grub_json_getchild parent i of
        None \<Rightarrow> None
      | Some c \<Rightarrow>
          (case grub_json_getuint64 c None of
             None \<Rightarrow> None
           | Some key \<Rightarrow>
               (case grub_json_getchild c 0 of
                  None \<Rightarrow> None
                | Some v \<Rightarrow> Some (key, v))))"

text \<open>How a scanning loop ended: an entry did not parse, \<^verbatim>\<open>break\<close>, or \<open>i = size\<close>.\<close>

datatype scan = Scan_error | Scan_found | Scan_end

text \<open>The loop of lines 280-290; the fifth argument counts the iterations left.\<close>

fun find_digest ::
  "grub_luks2_digest \<Rightarrow> grub_json \<Rightarrow> u64 \<Rightarrow> nat \<Rightarrow> nat \<Rightarrow> errst
     \<Rightarrow> scan \<times> grub_luks2_digest \<times> errst" where
  "find_digest d digests keyslot_key i 0 e = (Scan_end, d, e)"
| "find_digest d digests keyslot_key i (Suc n) e =
     (case keyed_child digests i of
        None \<Rightarrow> (Scan_error, d, e)
      | Some (digest_key, digest) \<Rightarrow>
          (case luks2_parse_digest d digest e of
             (r, d1, e1) \<Rightarrow>
               if r \<noteq> GRUB_ERR_NONE then (Scan_error, d1, e1)
               else if dg_keyslots d1 AND shl_int_1 keyslot_key \<noteq> 0 then (Scan_found, d1, e1)
               else find_digest d1 digests keyslot_key (Suc i) n e1))"

text \<open>The loop of lines 298-308.\<close>

fun find_segment ::
  "grub_luks2_segment \<Rightarrow> grub_luks2_digest \<Rightarrow> grub_json \<Rightarrow> nat \<Rightarrow> nat \<Rightarrow> errst
     \<Rightarrow> scan \<times> grub_luks2_segment \<times> errst" where
  "find_segment s d segments i 0 e = (Scan_end, s, e)"
| "find_segment s d segments i (Suc n) e =
     (case keyed_child segments i of
        None \<Rightarrow> (Scan_error, s, e)
      | Some (segment_key, segment) \<Rightarrow>
          (case luks2_parse_segment s segment e of
             (r, s1, e1) \<Rightarrow>
               if r \<noteq> GRUB_ERR_NONE then (Scan_error, s1, e1)
               else if dg_segments d AND shl_int_1 segment_key \<noteq> 0 then (Scan_found, s1, e1)
               else find_segment s1 d segments (Suc i) n e1))"

definition return_derror3 ::
  "grub_err \<Rightarrow> string \<Rightarrow> 'k \<Rightarrow> 'd \<Rightarrow> 's \<Rightarrow> errst \<Rightarrow> grub_err \<times> 'k \<times> 'd \<times> 's \<times> errst" where
  "return_derror3 n msg k d s e = (case luks2_derror n msg e of (r, e') \<Rightarrow> (r, k, d, s, e'))"

text \<open>\<^verbatim>\<open>luks2_get_keyslot\<close>, lines 294-312: the segment that matches the digest.\<close>

definition luks2_get_keyslot_segment ::
  "grub_luks2_keyslot \<Rightarrow> grub_luks2_digest \<Rightarrow> grub_luks2_segment \<Rightarrow> grub_json \<Rightarrow> errst
     \<Rightarrow> grub_err \<times> grub_luks2_keyslot \<times> grub_luks2_digest \<times> grub_luks2_segment \<times> errst" where
  "luks2_get_keyslot_segment k d s root e =
     (case grub_json_getvalue root ''segments'' of
        None \<Rightarrow> return_derror3 GRUB_ERR_BAD_ARGUMENT ''Could not get segments'' k d s e
      | Some segments \<Rightarrow>
          (case grub_json_getsize segments of
             None \<Rightarrow> return_derror3 GRUB_ERR_BAD_ARGUMENT ''Could not get segments'' k d s e
           | Some sz \<Rightarrow>
               (case find_segment s d segments 0 sz e of
                  (Scan_error, s1, e1) \<Rightarrow>
                    return_derror3 GRUB_ERR_BAD_ARGUMENT ''Could not parse segment index %d''
                      k d s1 e1
                | (Scan_end, s1, e1) \<Rightarrow>
                    return_derror3 GRUB_ERR_FILE_NOT_FOUND ''No segment for digest %d''
                      k d s1 e1
                | (Scan_found, s1, e1) \<Rightarrow> (GRUB_ERR_NONE, k, d, s1, e1))))"

text \<open>\<^verbatim>\<open>luks2_get_keyslot\<close>, lines 276-292: the digest that matches the keyslot, then the rest.\<close>

definition luks2_get_keyslot_digest ::
  "grub_luks2_keyslot \<Rightarrow> grub_luks2_digest \<Rightarrow> grub_luks2_segment \<Rightarrow> grub_json \<Rightarrow> u64 \<Rightarrow> errst
     \<Rightarrow> grub_err \<times> grub_luks2_keyslot \<times> grub_luks2_digest \<times> grub_luks2_segment \<times> errst" where
  "luks2_get_keyslot_digest k d s root keyslot_key e =
     (case grub_json_getvalue root ''digests'' of
        None \<Rightarrow> return_derror3 GRUB_ERR_BAD_ARGUMENT ''Could not get digests'' k d s e
      | Some digests \<Rightarrow>
          (case grub_json_getsize digests of
             None \<Rightarrow> return_derror3 GRUB_ERR_BAD_ARGUMENT ''Could not get digests'' k d s e
           | Some sz \<Rightarrow>
               (case find_digest d digests keyslot_key 0 sz e of
                  (Scan_error, d1, e1) \<Rightarrow>
                    return_derror3 GRUB_ERR_BAD_ARGUMENT ''Could not parse digest index %d''
                      k d1 s e1
                | (Scan_end, d1, e1) \<Rightarrow>
                    return_derror3 GRUB_ERR_FILE_NOT_FOUND ''No digest for keyslot %d''
                      k d1 s e1
                | (Scan_found, d1, e1) \<Rightarrow> luks2_get_keyslot_segment k d1 s root e1)))"

text \<open>\<^verbatim>\<open>luks2_get_keyslot\<close> (lines 260-313), from its first statement.\<close>

definition luks2_get_keyslot ::
  "grub_luks2_keyslot \<Rightarrow> grub_luks2_digest \<Rightarrow> grub_luks2_segment \<Rightarrow> grub_json \<Rightarrow> nat \<Rightarrow> errst
     \<Rightarrow> grub_err \<times> grub_luks2_keyslot \<times> grub_luks2_digest \<times> grub_luks2_segment \<times> errst" where
  "luks2_get_keyslot k d s root keyslot_idx e =
     (case grub_json_getvalue root ''keyslots'' of
        None \<Rightarrow>
          return_derror3 GRUB_ERR_BAD_ARGUMENT ''Could not parse keyslot index %d'' k d s e
      | Some keyslots \<Rightarrow>
          (case keyed_child keyslots keyslot_idx of
             None \<Rightarrow>
               return_derror3 GRUB_ERR_BAD_ARGUMENT ''Could not parse keyslot index %d'' k d s e
           | Some (keyslot_key, keyslot) \<Rightarrow>
               (case luks2_parse_keyslot k keyslot e of
                  (r, k1, e1) \<Rightarrow>
                    if r \<noteq> GRUB_ERR_NONE then
                      return_derror3 GRUB_ERR_BAD_ARGUMENT ''Could not parse keyslot index %d''
                        k1 d s e1
                    else luks2_get_keyslot_digest k1 d s root keyslot_key e1)))"

section \<open>The crypto disk and the collaborators\<close>

text \<open>
  The fields of \<^verbatim>\<open>struct grub_cryptodisk\<close> that an unlock attempt touches: the sector
  layout, which luks2.c assigns itself, and the cipher and key, which it installs through
  \<^verbatim>\<open>grub_cryptodisk_setcipher\<close> and \<^verbatim>\<open>grub_cryptodisk_setkey\<close>.
\<close>

record grub_cryptodisk =
  offset_sectors :: u64
  total_sectors :: u64
  log_sector_size :: int
  cd_cipher :: "(string \<times> string) option"
  cd_key :: "byte list"
  cd_uuid :: "byte list"

text \<open>
  The functions luks2.c calls and does not define are parameters. A \<^verbatim>\<open>gcry_err_code_t\<close> is
  a number, 0 for success. \<open>base64_decode s\<close> decodes into a buffer of
  \<^verbatim>\<open>GRUB_CRYPTODISK_MAX_KEYLEN\<close> bytes and yields the decoded bytes, or \<open>None\<close> where the
  C call returns false. \<open>md_by_name\<close> tells whether \<^verbatim>\<open>grub_crypto_lookup_md_by_name\<close> finds
  the hash. \<open>pbkdf2 hash P Plen S Slen c dkLen\<close> yields the code and the output buffer;
  \<open>cryptodisk_decrypt\<close> and \<open>AF_merge\<close> likewise. \<open>grub_malloc n\<close> yields the fresh block's
  bytes or \<open>None\<close> for NULL; \<open>grub_zalloc n\<close> tells whether the zeroed block was obtained.
  \<open>password_get\<close> is \<^verbatim>\<open>grub_password_get (buf, MAX_PASSPHRASE)\<close>: whether it returned
  nonzero, and the buffer afterwards.
\<close>

record env =
  base64_decode :: "string \<Rightarrow> byte list option"
  md_by_name :: "string \<Rightarrow> bool"
  pbkdf2 :: "string \<Rightarrow> byte list \<Rightarrow> u64 \<Rightarrow> byte list \<Rightarrow> u64 \<Rightarrow> i64 \<Rightarrow> u64 \<Rightarrow> nat \<times> byte list"
  gcry_error :: "nat \<Rightarrow> grub_err"
  cryptodisk_setcipher :: "grub_cryptodisk \<Rightarrow> string \<Rightarrow> string \<Rightarrow> grub_err \<times> grub_cryptodisk"
  cryptodisk_setkey :: "grub_cryptodisk \<Rightarrow> byte list \<Rightarrow> u64 \<Rightarrow> nat \<times> grub_cryptodisk"
  cryptodisk_decrypt :: "grub_cryptodisk \<Rightarrow> byte list \<Rightarrow> u64 \<Rightarrow> u64 \<Rightarrow> nat \<Rightarrow> nat \<times> byte list"
  AF_merge :: "string \<Rightarrow> byte list \<Rightarrow> u64 \<Rightarrow> u64 \<Rightarrow> nat \<times> byte list"
  grub_malloc :: "u64 \<Rightarrow> byte list option"
  grub_zalloc :: "u64 \<Rightarrow> bool"
  json_parse :: "byte list \<Rightarrow> u64 \<Rightarrow> json option"
  password_get :: "bool \<times> byte list"
  grub_divmod64 :: "u64 \<Rightarrow> u64 \<Rightarrow> u64"

text \<open>
  Modelled from the spec: \<^verbatim>\<open>LUKS_LOG_SECTOR_SIZE\<close>, a macro of cryptodisk.h. The keyslot
  area always uses 512-byte sectors.
\<close>

definition LUKS_LOG_SECTOR_SIZE :: nat where
  "LUKS_LOG_SECTOR_SIZE = 9"

definition MAX_PASSPHRASE :: nat where
  "MAX_PASSPHRASE = 256"

text \<open>A collaborator that returns a \<^verbatim>\<open>grub_err_t\<close> other than none leaves it in
  \<^verbatim>\<open>grub_errno\<close>.\<close>

definition after_call :: "grub_err \<Rightarrow> errst \<Rightarrow> errst" where
  "after_call r e = (if r = GRUB_ERR_NONE then e else e\<lparr>grub_errno := r\<rparr>)"

definition grub_strlen :: "byte list \<Rightarrow> u64" where
  "grub_strlen buf = of_nat (length (takeWhile (\<lambda>b. b \<noteq> 0) buf))"

text \<open>
  Lines 477-481 and 707-711: \<^verbatim>\<open>grub_strncpy (cipher, enc, 32)\<close>, then the first \<open>-\<close> splits
  the cipher name from the mode. \<open>None\<close> where \<^verbatim>\<open>grub_memchr\<close> returns NULL.
\<close>

definition split_cipher :: "string \<Rightarrow> (string \<times> string) option" where
  "split_cipher enc =
     (let c = take 32 enc
      in if CHR ''-'' \<in> set c
         then Some (takeWhile (\<lambda>x. x \<noteq> CHR ''-'') c, tl (dropWhile (\<lambda>x. x \<noteq> CHR ''-'') c))
         else None)"

section \<open>Verifying a candidate key\<close>

definition verify_return ::
  "grub_err \<Rightarrow> string \<Rightarrow> errst \<Rightarrow> event list \<Rightarrow> grub_err \<times> errst \<times> event list" where
  "verify_return n msg e evs = (case luks2_derror n msg e of (r, e') \<Rightarrow> (r, e', evs))"

text \<open>\<^verbatim>\<open>luks2_verify_key\<close> (lines 397-432).\<close>

definition luks2_verify_key ::
  "env \<Rightarrow> grub_luks2_digest \<Rightarrow> byte list \<Rightarrow> u64 \<Rightarrow> errst \<Rightarrow> grub_err \<times> errst \<times> event list" where
  "luks2_verify_key env d candidate_key candidate_key_len e =
     (case base64_decode env (dg_digest d) of
        None \<Rightarrow> verify_return GRUB_ERR_BAD_ARGUMENT ''Invalid digest'' e []
      | Some digest \<Rightarrow>
          (case base64_decode env (dg_salt d) of
             None \<Rightarrow> verify_return GRUB_ERR_BAD_ARGUMENT ''Invalid digest salt'' e []
           | Some salt \<Rightarrow>
               if \<not> md_by_name env (dg_hash d) then
                 verify_return GRUB_ERR_FILE_NOT_FOUND ''Couldn't load %s hash'' e []
               else
                 (case pbkdf2 env (dg_hash d) candidate_key candidate_key_len
                         salt (of_nat (length salt)) (dg_iterations d) (of_nat (length digest)) of
                    (gcry_ret, candidate_digest) \<Rightarrow>
                      if gcry_ret \<noteq> 0 then
                        verify_return (gcry_error env gcry_ret)
                          ''grub_crypto_pbkdf2 failed with code %d'' e
                          [EvPbkdf2 candidate_key candidate_key_len]
                      else if take (length digest) candidate_digest \<noteq> digest then
                        verify_return GRUB_ERR_ACCESS_DENIED ''Mismatching digests'' e
                          [EvPbkdf2 candidate_key candidate_key_len]
                      else (GRUB_ERR_NONE, e, [EvPbkdf2 candidate_key candidate_key_len]))))"

section \<open>Decrypting a keyslot\<close>

definition decrypt_return ::
  "grub_err \<Rightarrow> string \<Rightarrow> byte list \<Rightarrow> grub_cryptodisk \<Rightarrow> errst \<Rightarrow> event list
     \<Rightarrow> grub_err \<times> byte list \<times> grub_cryptodisk \<times> errst \<times> event list" where
  "decrypt_return n msg out_key crypt e evs =
     (case luks2_derror n msg e of (r, e') \<Rightarrow> (r, out_key, crypt, e', evs))"

text \<open>
  \<^verbatim>\<open>luks2_decrypt_key\<close>, lines 495-553: from the allocation of \<^verbatim>\<open>split_key\<close> to the label
  \<^verbatim>\<open>err\<close>, where the buffer is freed. \<open>ret\<close> is the value it has at line 495; \<open>evs\<close> are
  the calls made before.
\<close>

definition luks2_decrypt_key_area ::
  "env \<Rightarrow> byte list \<Rightarrow> grub_disk \<Rightarrow> grub_cryptodisk \<Rightarrow> grub_file option \<Rightarrow> grub_luks2_keyslot
     \<Rightarrow> grub_err \<Rightarrow> errst \<Rightarrow> event list
     \<Rightarrow> grub_err \<times> byte list \<times> grub_cryptodisk \<times> errst \<times> event list" where
  "luks2_decrypt_key_area env out_key source crypt hdr_file k ret e evs =
     (case grub_malloc env (area_size k) of
        None \<Rightarrow>
          (case grub_error GRUB_ERR_OUT_OF_MEMORY ''out of memory'' e of
             (r, e1) \<Rightarrow> (grub_errno e1, out_key, crypt, e1, evs @ [EvMalloc (area_size k)]))
      | Some fresh \<Rightarrow>
          (case read_block source hdr_file (area_offset k) (area_size k) ret fresh
                  (e\<lparr>grub_errno := GRUB_ERR_NONE\<rparr>) of
             (ret1, split_key, e1, ev1) \<Rightarrow>
               if ret1 \<noteq> GRUB_ERR_NONE then
                 (case luks2_derror GRUB_ERR_IO ''Read error: %s'' e1 of
                    (r, e2) \<Rightarrow>
                      (ret1, out_key, crypt, e2,
                       evs @ [EvMalloc (area_size k)] @ ev1 @ [EvFree split_key]))
               else
                 (case cryptodisk_decrypt env crypt split_key (area_size k) 0
                         LUKS_LOG_SECTOR_SIZE of
                    (gcry_ret, split_key1) \<Rightarrow>
                      if gcry_ret \<noteq> 0 then
                        decrypt_return (gcry_error env gcry_ret)
                          ''grub_cryptodisk_decrypt failed with code %d'' out_key crypt e1
                          (evs @ [EvMalloc (area_size k)] @ ev1
                             @ [EvDecrypt split_key (area_size k) 0 LUKS_LOG_SECTOR_SIZE,
                                EvFree split_key1])
                      else if \<not> md_by_name env (af_hash k) then
                        decrypt_return GRUB_ERR_FILE_NOT_FOUND ''Couldn't load %s hash''
                          out_key crypt e1
                          (evs @ [EvMalloc (area_size k)] @ ev1
                             @ [EvDecrypt split_key (area_size k) 0 LUKS_LOG_SECTOR_SIZE,
                                EvFree split_key1])
                      else
                        (case AF_merge env (af_hash k) split_key1 (ks_key_size k)
                                (af_stripes k) of
                           (gcry_ret2, out_key1) \<Rightarrow>
                             if gcry_ret2 \<noteq> 0 then
                               decrypt_return (gcry_error env gcry_ret2)
                                 ''AF_merge failed with code %d'' out_key1 crypt e1
                                 (evs @ [EvMalloc (area_size k)] @ ev1
                                    @ [EvDecrypt split_key (area_size k) 0 LUKS_LOG_SECTOR_SIZE,
                                       EvAFMerge split_key1 (ks_key_size k) (af_stripes k),
                                       EvFree split_key1])
                             else
                               (ret1, out_key1, crypt, e1,
                                evs @ [EvMalloc (area_size k)] @ ev1
                                  @ [EvDecrypt split_key (area_size k) 0 LUKS_LOG_SECTOR_SIZE,
                                     EvAFMerge split_key1 (ks_key_size k) (af_stripes k),
                                     EvFree split_key1])))))"

text \<open>\<^verbatim>\<open>luks2_decrypt_key\<close> (lines 434-554), from its first statement.\<close>

definition luks2_decrypt_key ::
  "env \<Rightarrow> byte list \<Rightarrow> grub_disk \<Rightarrow> grub_cryptodisk \<Rightarrow> grub_file option \<Rightarrow> grub_luks2_keyslot
     \<Rightarrow> byte list \<Rightarrow> u64 \<Rightarrow> errst
     \<Rightarrow> grub_err \<times> byte list \<times> grub_cryptodisk \<times> errst \<times> event list" where
  "luks2_decrypt_key env out_key source crypt hdr_file k passphrase passphraselen e =
     (case base64_decode env (kdf_salt k) of
        None \<Rightarrow> decrypt_return GRUB_ERR_BAD_ARGUMENT ''Invalid keyslot salt'' out_key crypt e []
      | Some salt \<Rightarrow>
          (case kdf_type k of
             LUKS2_KDF_TYPE_ARGON2I \<Rightarrow>
               decrypt_return GRUB_ERR_BAD_ARGUMENT ''Argon2 not supported'' out_key crypt e []
           | LUKS2_KDF_TYPE_PBKDF2 \<Rightarrow>
               if \<not> md_by_name env (pbkdf2_hash (kdf_u k)) then
                 decrypt_return GRUB_ERR_FILE_NOT_FOUND ''Couldn't load %s hash'' out_key crypt e []
               else
                 (case pbkdf2 env (pbkdf2_hash (kdf_u k)) passphrase passphraselen
                         salt (of_nat (length salt)) (pbkdf2_iterations (kdf_u k))
                         (area_key_size k) of
                    (gcry_ret, area_key) \<Rightarrow>
                      if gcry_ret \<noteq> 0 then
                        decrypt_return (gcry_error env gcry_ret)
                          ''grub_crypto_pbkdf2 failed with code %d'' out_key crypt e
                          [EvPbkdf2 passphrase passphraselen]
                      else
                        (case split_cipher (area_encryption k) of
                           None \<Rightarrow>
                             decrypt_return GRUB_ERR_BAD_ARGUMENT ''Invalid encryption''
                               out_key crypt e [EvPbkdf2 passphrase passphraselen]
                         | Some (c, mode) \<Rightarrow>
                             (case cryptodisk_setcipher env crypt c mode of
                                (ret, crypt1) \<Rightarrow>
                                  if ret \<noteq> GRUB_ERR_NONE then
                                    (ret, out_key, crypt1, after_call ret e,
                                     [EvPbkdf2 passphrase passphraselen, EvSetCipher c mode])
                                  else
                                    (case cryptodisk_setkey env crypt1 area_key
                                            (area_key_size k) of
                                       (gcry_ret1, crypt2) \<Rightarrow>
                                         if gcry_ret1 \<noteq> 0 then
                                           decrypt_return (gcry_error env gcry_ret1)
                                             ''grub_cryptodisk_setkey failed with code %d''
                                             out_key crypt2 e
                                             [EvPbkdf2 passphrase passphraselen,
                                              EvSetCipher c mode,
                                              EvSetKey area_key (area_key_size k)]
                                         else
                                           luks2_decrypt_key_area env out_key source crypt2
                                             hdr_file k ret e
                                             [EvPbkdf2 passphrase passphraselen,
                                              EvSetCipher c mode,
                                              EvSetKey area_key (area_key_size k)]))))))"

section \<open>The unlock attempt\<close>

text \<open>
  \<^verbatim>\<open>__builtin_clz\<close> on an \<^verbatim>\<open>unsigned int\<close>: the number of leading zero bits. C leaves the
  result for 0 undefined; it is 32 here.
\<close>

fun clz_from :: "nat \<Rightarrow> 32 word \<Rightarrow> nat" where
  "clz_from 0 x = 0"
| "clz_from (Suc n) x = (if bit x n then 0 else Suc (clz_from n x))"

definition builtin_clz :: "32 word \<Rightarrow> nat" where
  "builtin_clz x = clz_from 32 x"

text \<open>
  Lines 662-674: the sector layout of the crypto disk, from the keyslot's segment. The right
  shifts are \<open>drop_bit\<close>, which is 0 where the count is 64 or more; C leaves that case
  undefined.
\<close>

definition set_up_disk ::
  "env \<Rightarrow> grub_disk \<Rightarrow> grub_luks2_segment \<Rightarrow> grub_cryptodisk \<Rightarrow> grub_cryptodisk" where
  "set_up_disk env source s crypt =
     (let c1 = crypt\<lparr>offset_sectors := grub_divmod64 env (seg_offset s) (seg_sector_size s)\<rparr>;
          c2 = c1\<lparr>log_sector_size := 32 - int (builtin_clz (ucast (seg_sector_size s))) - 1\<rparr>
      in if seg_size s = ''dynamic''
         then c2\<lparr>total_sectors :=
                   drop_bit (unat ((word_of_int (log_sector_size c2) :: 32 word)
                                     - disk_log_sector_size source)) (disk_size source)
                   - offset_sectors c2\<rparr>
         else c2\<lparr>total_sectors :=
                   drop_bit (nat (log_sector_size c2)) (grub_strtoull (seg_size s))\<rparr>)"

text \<open>The locals of \<^verbatim>\<open>luks2_recover_key\<close> that live across the iterations of the trial loop.\<close>

record trial_vars =
  v_keyslot :: grub_luks2_keyslot
  v_digest :: grub_luks2_digest
  v_segment :: grub_luks2_segment
  v_candidate_key :: "byte list"
  v_candidate_key_len :: u64

text \<open>
  The body of the trial loop (lines 641-698) for index \<open>i\<close>. The first component tells
  whether the iteration ended in \<^verbatim>\<open>break\<close> (otherwise in \<^verbatim>\<open>continue\<close>).
\<close>

definition luks2_try_keyslot ::
  "env \<Rightarrow> grub_disk \<Rightarrow> grub_file option \<Rightarrow> grub_json \<Rightarrow> byte list \<Rightarrow> u64 \<Rightarrow> nat
     \<Rightarrow> trial_vars \<times> grub_cryptodisk \<times> errst
     \<Rightarrow> bool \<times> (trial_vars \<times> grub_cryptodisk \<times> errst) \<times> event list" where
  "luks2_try_keyslot env source hdr_file root passphrase passphrase_len i st =
     (case st of
        (v, crypt, e) \<Rightarrow>
          (case luks2_get_keyslot (v_keyslot v) (v_digest v) (v_segment v) root i e of
             (ret, k, d, s, e1) \<Rightarrow>
               (let v1 = v\<lparr>v_keyslot := k, v_digest := d, v_segment := s\<rparr>
                in if ret \<noteq> GRUB_ERR_NONE then
                     (False, (v1, crypt, e1), [EvSlot Failed_to_get i])
                   else if ks_priority k = 0 then
                     (False, (v1, crypt, e1), [EvSlot Ignoring i])
                   else
                     (case luks2_decrypt_key env (v_candidate_key v1) source
                             (set_up_disk env source s crypt) hdr_file k
                             passphrase passphrase_len e1 of
                        (ret1, ck, crypt1, e2, ev2) \<Rightarrow>
                          if ret1 \<noteq> GRUB_ERR_NONE then
                            (False, (v1\<lparr>v_candidate_key := ck\<rparr>, crypt1, e2),
                             [EvSlot Trying i] @ ev2 @ [EvSlot Decryption_failed i])
                          else
                            (case luks2_verify_key env d ck (ks_key_size k) e2 of
                               (ret2, e3, ev3) \<Rightarrow>
                                 if ret2 \<noteq> GRUB_ERR_NONE then
                                   (False, (v1\<lparr>v_candidate_key := ck\<rparr>, crypt1, e3),
                                    [EvSlot Trying i] @ ev2 @ ev3 @ [EvSlot Could_not_open i])
                                 else
                                   (True,
                                    (v1\<lparr>v_candidate_key := ck,
                                        v_candidate_key_len := ks_key_size k\<rparr>, crypt1, e3),
                                    [EvSlot Trying i] @ ev2 @ ev3 @ [EvSlot Slot_opened i]))))))"

text \<open>
  The trial loop \<^verbatim>\<open>for (i = 0; i < size; i++)\<close> of line 640: \<open>i\<close> is the index, the next
  argument counts the iterations left (\<open>size - i\<close>).
\<close>

fun luks2_try_keyslots ::
  "env \<Rightarrow> grub_disk \<Rightarrow> grub_file option \<Rightarrow> grub_json \<Rightarrow> byte list \<Rightarrow> u64 \<Rightarrow> nat \<Rightarrow> nat
     \<Rightarrow> trial_vars \<times> grub_cryptodisk \<times> errst
     \<Rightarrow> (trial_vars \<times> grub_cryptodisk \<times> errst) \<times> event list" where
  "luks2_try_keyslots env source hdr_file root passphrase passphrase_len i 0 st = (st, [])"
| "luks2_try_keyslots env source hdr_file root passphrase passphrase_len i (Suc n) st =
     (case luks2_try_keyslot env source hdr_file root passphrase passphrase_len i st of
        (True, st1, ev1) \<Rightarrow> (st1, ev1)
      | (False, st1, ev1) \<Rightarrow>
          (case luks2_try_keyslots env source hdr_file root passphrase passphrase_len
                  (Suc i) n st1 of
             (st2, ev2) \<Rightarrow> (st2, ev1 @ ev2)))"

text \<open>
  The structures and the candidate key are uninitialised locals, and \<^verbatim>\<open>candidate_key_len\<close>
  is initialised to 0 (line 565). These are their values before the loop; the loop reads
  none of the uninitialised ones before it has stored it.
\<close>

definition uninit_vars :: trial_vars where
  "uninit_vars =
     \<lparr>v_keyslot = \<lparr>ks_key_size = 0, ks_priority = 0, area_encryption = [], area_offset = 0,
                   area_size = 0, area_key_size = 0, af_hash = [], af_stripes = 0,
                   kdf_type = LUKS2_KDF_TYPE_ARGON2I, kdf_salt = [], kdf_u = \<lparr>u_word0 = W_int 0, u_word1 = 0, u_word2 = 0\<rparr>\<rparr>,
      v_digest = \<lparr>dg_keyslots = 0, dg_segments = 0, dg_salt = [], dg_digest = [],
                  dg_hash = [], dg_iterations = 0\<rparr>,
      v_segment = \<lparr>seg_offset = 0, seg_size = [], seg_encryption = [], seg_sector_size = 0\<rparr>,
      v_candidate_key = [],
      v_candidate_key_len = 0\<rparr>"

text \<open>
  \<^verbatim>\<open>luks2_recover_key\<close>, lines 632-724: from the keyslots of the parsed metadata to the
  installation of the master key. The second component tells whether the function leaves
  through the label \<^verbatim>\<open>err\<close> (line 710 returns directly).
\<close>

definition luks2_recover_key_slots ::
  "env \<Rightarrow> grub_disk \<Rightarrow> grub_cryptodisk \<Rightarrow> grub_file option \<Rightarrow> grub_json \<Rightarrow> byte list \<Rightarrow> u64
     \<Rightarrow> errst \<Rightarrow> grub_err \<times> bool \<times> grub_cryptodisk \<times> errst \<times> event list" where
  "luks2_recover_key_slots env source crypt hdr_file root passphrase passphrase_len e =
     (case (case grub_json_getvalue root ''keyslots'' of
              None \<Rightarrow> None
            | Some keyslots \<Rightarrow> grub_json_getsize keyslots) of
        None \<Rightarrow>
          (case grub_error GRUB_ERR_BAD_ARGUMENT ''Could not get keyslots'' e of
             (r, e1) \<Rightarrow> (r, True, crypt, e1, []))
      | Some sz \<Rightarrow>
          (case luks2_try_keyslots env source hdr_file root passphrase passphrase_len 0 sz
                  (uninit_vars, crypt, e) of
             ((v, crypt1, e1), ev1) \<Rightarrow>
               if v_candidate_key_len v = 0 then
                 (case grub_error GRUB_ERR_ACCESS_DENIED ''Invalid passphrase'' e1 of
                    (r, e2) \<Rightarrow> (r, True, crypt1, e2, ev1))
               else
                 (case split_cipher (seg_encryption (v_segment v)) of
                    None \<Rightarrow>
                      (case grub_error GRUB_ERR_BAD_ARGUMENT ''Invalid encryption'' e1 of
                         (r, e2) \<Rightarrow> (r, False, crypt1, e2, ev1))
                  | Some (c, mode) \<Rightarrow>
                      (case cryptodisk_setcipher env crypt1 c mode of
                         (ret, crypt2) \<Rightarrow>
                           if ret \<noteq> GRUB_ERR_NONE then
                             (ret, True, crypt2, after_call ret e1, ev1 @ [EvSetCipher c mode])
                           else
                             (case cryptodisk_setkey env crypt2 (v_candidate_key v)
                                     (v_candidate_key_len v) of
                                (gcry_ret, crypt3) \<Rightarrow>
                                  if gcry_ret \<noteq> 0 then
                                    (case grub_error (gcry_error env gcry_ret)
                                            ''grub_cryptodisk_setkey failed with code %d'' e1 of
                                       (r, e2) \<Rightarrow>
                                         (r, True, crypt3, e2,
                                          ev1 @ [EvSetCipher c mode,
                                                 EvSetKey (v_candidate_key v)
                                                   (v_candidate_key_len v)]))
                                  else
                                    (ret, True, crypt3, e1,
                                     ev1 @ [EvSetCipher c mode,
                                            EvSetKey (v_candidate_key v)
                                              (v_candidate_key_len v)]))))))"

text \<open>
  \<^verbatim>\<open>luks2_recover_key\<close> (lines 556-730). \<open>key\<close> is the key file's bytes, \<open>None\<close> for NULL.
  The result is the returned code, the crypto disk, the error state, the bytes of
  \<^verbatim>\<open>interactive_passphrase\<close> when the function returns, and the calls made.
\<close>

definition luks2_recover_key ::
  "env \<Rightarrow> grub_disk \<Rightarrow> grub_cryptodisk \<Rightarrow> grub_file option \<Rightarrow> byte list option \<Rightarrow> u64 \<Rightarrow> errst
     \<Rightarrow> grub_err \<times> grub_cryptodisk \<times> errst \<times> byte list \<times> event list" where
  "luks2_recover_key env source crypt hdr_file key keyfile_size e =
     (let interactive_passphrase = replicate MAX_PASSPHRASE 0 in
      case luks2_read_header source hdr_file [] e of
        (ret, header, e1, ev1) \<Rightarrow>
          if ret \<noteq> GRUB_ERR_NONE then (ret, crypt, e1, interactive_passphrase, ev1)
          else
            (let json_len = grub_be_to_cpu64 (hdr_hdr_size header) - sizeof_header in
             if \<not> grub_zalloc env json_len then
               (GRUB_ERR_OUT_OF_MEMORY, crypt, e1, interactive_passphrase,
                ev1 @ [EvZalloc json_len])
             else
               (case read_block source hdr_file
                       (grub_be_to_cpu64 (hdr_hdr_offset header) + sizeof_header) json_len ret
                       (replicate (unat json_len) 0) e1 of
                  (ret1, json_header, e2, ev2) \<Rightarrow>
                    if ret1 \<noteq> GRUB_ERR_NONE then
                      (ret1, crypt, e2, interactive_passphrase,
                       ev1 @ [EvZalloc json_len] @ ev2 @ [EvFree json_header, EvJsonFree])
                    else if 0 \<notin> set (take (unat json_len) json_header) then
                      (ret1, crypt, e2, interactive_passphrase,
                       ev1 @ [EvZalloc json_len] @ ev2 @ [EvFree json_header, EvJsonFree])
                    else
                      (case json_parse env json_header
                              (grub_be_to_cpu64 (hdr_hdr_size header)) of
                         None \<Rightarrow>
                           (case grub_error GRUB_ERR_BAD_ARGUMENT ''Invalid LUKS2 JSON header''
                                   e2 of
                              (r, e3) \<Rightarrow>
                                (r, crypt, e3, interactive_passphrase,
                                 ev1 @ [EvZalloc json_len] @ ev2
                                   @ [EvJsonParse json_header
                                        (grub_be_to_cpu64 (hdr_hdr_size header)),
                                      EvFree json_header, EvJsonFree]))
                       | Some root \<Rightarrow>
                           (let evp = ev1 @ [EvZalloc json_len] @ ev2
                                        @ [EvJsonParse json_header
                                             (grub_be_to_cpu64 (hdr_hdr_size header))]
                            in case key of
                                 Some kbytes \<Rightarrow>
                                   (case luks2_recover_key_slots env source crypt hdr_file
                                           (Value root) kbytes keyfile_size e2 of
                                      (r, cleanup, crypt1, e3, ev3) \<Rightarrow>
                                        (r, crypt1, e3, interactive_passphrase,
                                         evp @ ev3
                                           @ (if cleanup then [EvFree json_header, EvJsonFree]
                                              else [])))
                               | None \<Rightarrow>
                                   (case password_get env of
                                      (False, buf) \<Rightarrow>
                                        (case grub_error GRUB_ERR_BAD_ARGUMENT
                                                ''Passphrase not supplied'' e2 of
                                           (r, e3) \<Rightarrow>
                                             (r, crypt, e3, buf,
                                              evp @ [EvPasswordGet, EvFree json_header,
                                                     EvJsonFree]))
                                    | (True, buf) \<Rightarrow>
                                        (case luks2_recover_key_slots env source crypt hdr_file
                                                (Value root) buf (grub_strlen buf) e2 of
                                           (r, cleanup, crypt1, e3, ev3) \<Rightarrow>
                                             (r, crypt1, e3, buf,
                                              evp @ [EvPasswordGet] @ ev3
                                                @ (if cleanup
                                                   then [EvFree json_header, EvJsonFree]
                                                   else [])))))))))"

section \<open>Kinds of calls\<close>

text \<open>A read of the disk or of the header file.\<close>

fun is_read :: "event \<Rightarrow> bool" where
  "is_read (EvFileSeek off) = True"
| "is_read (EvFileRead off n) = True"
| "is_read (EvDiskRead off n) = True"
| "is_read ev = False"

text \<open>
  What a keyslot trial and the installation of the master key may do: anything but
  allocate or parse the JSON area or prompt, and a sector decryption only from sector 0
  with \<^verbatim>\<open>LUKS_LOG_SECTOR_SIZE\<close>.
\<close>

fun is_trial_call :: "event \<Rightarrow> bool" where
  "is_trial_call (EvJsonParse buf n) = False"
| "is_trial_call (EvZalloc n) = False"
| "is_trial_call EvJsonFree = False"
| "is_trial_call EvPasswordGet = False"
| "is_trial_call (EvDecrypt buf n sector lg) = (sector = 0 \<and> lg = LUKS_LOG_SECTOR_SIZE)"
| "is_trial_call ev = True"

text \<open>A line printed by the trial loop, and the keyslot indices of the lines printed.\<close>

fun is_slot :: "event \<Rightarrow> bool" where
  "is_slot (EvSlot m i) = True"
| "is_slot ev = False"

fun slot_indices :: "event list \<Rightarrow> nat list" where
  "slot_indices [] = []"
| "slot_indices (EvSlot m i # evs) = i # slot_indices evs"
| "slot_indices (ev # evs) = slot_indices evs"

section \<open>Metadata without one keyslot\<close>

text \<open>
  The document with entry \<open>p\<close> of its \<^verbatim>\<open>keyslots\<close> object removed; the other entries keep
  their keys and their order.
\<close>

fun drop_member :: "nat \<Rightarrow> json \<Rightarrow> json" where
  "drop_member p (JObject ms) = JObject (take p ms @ drop (Suc p) ms)"
| "drop_member p (JArray xs) = JArray (take p xs @ drop (Suc p) xs)"
| "drop_member p v = v"

definition without_keyslot :: "nat \<Rightarrow> json \<Rightarrow> json" where
  "without_keyslot p root =
     (case root of
        JObject kvs \<Rightarrow>
          JObject (map (\<lambda>kv. if fst kv = ''keyslots'' then (fst kv, drop_member p (snd kv)) else kv)
                     kvs)
      | _ \<Rightarrow> root)"

text \<open>A keyslot record with word 2 of its KDF union, which luks2.c never reads, set to 0.\<close>

definition clear_word2 :: "grub_luks2_keyslot \<Rightarrow> grub_luks2_keyslot" where
  "clear_word2 k = k\<lparr>kdf_u := (kdf_u k)\<lparr>u_word2 := 0\<rparr>\<rparr>"

section \<open>What a successful parse stores\<close>

text \<open>
  The record that \<^verbatim>\<open>luks2_parse_keyslot\<close> leaves behind when it returns
  \<^verbatim>\<open>GRUB_ERR_NONE\<close>, read off its stores in source order; \<open>out\<close> is the record it was
  given, of which only word 2 of the KDF union can survive (a PBKDF2 keyslot stores words 0
  and 1 only). Likewise for a segment and a digest, of which nothing survives. They are
  compared with the parsers below.
\<close>

definition keyslot_of :: "grub_luks2_keyslot \<Rightarrow> grub_json \<Rightarrow> grub_luks2_keyslot" where
  "keyslot_of out j =
     (let area = the (grub_json_getvalue j ''area'');
          kdf = the (grub_json_getvalue j ''kdf'');
          af = the (grub_json_getvalue j ''af'');
          ty = the (grub_json_getstring kdf (Some ''type''))
      in \<lparr>ks_key_size = the (grub_json_getint64 j (Some ''key_size'')),
          ks_priority = (case grub_json_getint64 j (Some ''priority'') of
                           None \<Rightarrow> 1 | Some v \<Rightarrow> v),
          area_encryption = the (grub_json_getstring area (Some ''encryption'')),
          area_offset = the (grub_json_getuint64 area (Some ''offset'')),
          area_size = the (grub_json_getuint64 area (Some ''size'')),
          area_key_size = the (grub_json_getint64 area (Some ''key_size'')),
          af_hash = the (grub_json_getstring af (Some ''hash'')),
          af_stripes = the (grub_json_getint64 af (Some ''stripes'')),
          kdf_type = (if ty = ''argon2i'' \<or> ty = ''argon2id''
                      then LUKS2_KDF_TYPE_ARGON2I else LUKS2_KDF_TYPE_PBKDF2),
          kdf_salt = the (grub_json_getstring kdf (Some ''salt'')),
          kdf_u = (if ty = ''argon2i'' \<or> ty = ''argon2id''
                   then \<lparr>u_word0 = W_int (the (grub_json_getint64 kdf (Some ''time''))),
                         u_word1 = the (grub_json_getint64 kdf (Some ''memory'')),
                         u_word2 = the (grub_json_getint64 kdf (Some ''cpus''))\<rparr>
                   else \<lparr>u_word0 = W_ptr (the (grub_json_getstring kdf (Some ''hash''))),
                         u_word1 = the (grub_json_getint64 kdf (Some ''iterations'')),
                         u_word2 = u_word2 (kdf_u out)\<rparr>)\<rparr>)"

definition segment_of :: "grub_json \<Rightarrow> grub_luks2_segment" where
  "segment_of j =
     \<lparr>seg_offset = the (grub_json_getuint64 j (Some ''offset'')),
      seg_size = the (grub_json_getstring j (Some ''size'')),
      seg_encryption = the (grub_json_getstring j (Some ''encryption'')),
      seg_sector_size = the (grub_json_getint64 j (Some ''sector_size''))\<rparr>"

definition digest_of :: "grub_json \<Rightarrow> grub_luks2_digest" where
  "digest_of j =
     (let segments = the (grub_json_getvalue j ''segments'');
          keyslots = the (grub_json_getvalue j ''keyslots'')
      in \<lparr>dg_keyslots = snd (digest_bits keyslots 0 (the (grub_json_getsize keyslots)) 0),
          dg_segments = snd (digest_bits segments 0 (the (grub_json_getsize segments)) 0),
          dg_salt = the (grub_json_getstring j (Some ''salt'')),
          dg_digest = the (grub_json_getstring j (Some ''digest'')),
          dg_hash = the (grub_json_getstring j (Some ''hash'')),
          dg_iterations = the (grub_json_getint64 j (Some ''iterations''))\<rparr>)"

text \<open>
  The members an object must have for the parse to succeed, stage by stage as the parser
  checks them (a later stage is only reached when the earlier ones passed).
\<close>

definition keyslot_af_ok :: "grub_json \<Rightarrow> bool" where
  "keyslot_af_ok j =
     (let af = the (grub_json_getvalue j ''af'')
      in grub_json_getvalue j ''af'' \<noteq> None
         \<and> grub_json_getstring af (Some ''type'') = Some ''luks1''
         \<and> grub_json_getint64 af (Some ''stripes'') \<noteq> None
         \<and> grub_json_getstring af (Some ''hash'') \<noteq> None)"

definition keyslot_kdf_ok :: "grub_json \<Rightarrow> bool" where
  "keyslot_kdf_ok j =
     (let kdf = the (grub_json_getvalue j ''kdf'');
          ty = the (grub_json_getstring kdf (Some ''type''))
      in grub_json_getvalue j ''kdf'' \<noteq> None
         \<and> grub_json_getstring kdf (Some ''type'') \<noteq> None
         \<and> grub_json_getstring kdf (Some ''salt'') \<noteq> None
         \<and> (if ty = ''argon2i'' \<or> ty = ''argon2id''
             then grub_json_getint64 kdf (Some ''time'') \<noteq> None
                  \<and> grub_json_getint64 kdf (Some ''memory'') \<noteq> None
                  \<and> grub_json_getint64 kdf (Some ''cpus'') \<noteq> None
             else ty = ''pbkdf2''
                  \<and> grub_json_getstring kdf (Some ''hash'') \<noteq> None
                  \<and> grub_json_getint64 kdf (Some ''iterations'') \<noteq> None)
         \<and> keyslot_af_ok j)"

definition keyslot_area_ok :: "grub_json \<Rightarrow> bool" where
  "keyslot_area_ok j =
     (let area = the (grub_json_getvalue j ''area'')
      in grub_json_getvalue j ''area'' \<noteq> None
         \<and> grub_json_getstring area (Some ''type'') = Some ''raw''
         \<and> grub_json_getuint64 area (Some ''offset'') \<noteq> None
         \<and> grub_json_getuint64 area (Some ''size'') \<noteq> None
         \<and> grub_json_getstring area (Some ''encryption'') \<noteq> None
         \<and> grub_json_getint64 area (Some ''key_size'') \<noteq> None
         \<and> keyslot_kdf_ok j)"

definition keyslot_ok :: "grub_json \<Rightarrow> bool" where
  "keyslot_ok j =
     (grub_json_getstring j (Some ''type'') = Some ''luks2''
      \<and> grub_json_getint64 j (Some ''key_size'') \<noteq> None
      \<and> keyslot_area_ok j)"

definition segment_ok :: "grub_json \<Rightarrow> bool" where
  "segment_ok j =
     (grub_json_getstring j (Some ''type'') = Some ''crypt''
      \<and> grub_json_getuint64 j (Some ''offset'') \<noteq> None
      \<and> grub_json_getstring j (Some ''size'') \<noteq> None
      \<and> grub_json_getstring j (Some ''encryption'') \<noteq> None
      \<and> grub_json_getint64 j (Some ''sector_size'') \<noteq> None)"

definition digest_ok :: "grub_json \<Rightarrow> bool" where
  "digest_ok j =
     (let segments = the (grub_json_getvalue j ''segments'');
          keyslots = the (grub_json_getvalue j ''keyslots'')
      in grub_json_getstring j (Some ''type'') = Some ''pbkdf2''
         \<and> grub_json_getvalue j ''segments'' \<noteq> None
         \<and> grub_json_getvalue j ''keyslots'' \<noteq> None
         \<and> grub_json_getstring j (Some ''salt'') \<noteq> None
         \<and> grub_json_getstring j (Some ''digest'') \<noteq> None
         \<and> grub_json_getstring j (Some ''hash'') \<noteq> None
         \<and> grub_json_getint64 j (Some ''iterations'') \<noteq> None
         \<and> grub_json_getsize segments \<noteq> None
         \<and> \<not> fst (digest_bits segments 0 (the (grub_json_getsize segments)) 0)
         \<and> grub_json_getsize keyslots \<noteq> None
         \<and> \<not> fst (digest_bits keyslots 0 (the (grub_json_getsize keyslots)) 0))"

section \<open>A small volume for the concrete checks\<close>

text \<open>
  A header of 4096 bytes with the given magic, version 2, \<^verbatim>\<open>hdr_size\<close>, \<^verbatim>\<open>seqid\<close> and
  \<^verbatim>\<open>hdr_offset\<close>; every other byte is 0.
\<close>

definition mk_header :: "byte list \<Rightarrow> byte list \<Rightarrow> byte list \<Rightarrow> byte list \<Rightarrow> byte list" where
  "mk_header magic hsize seqid hoff =
     magic @ [0, 2] @ hsize @ seqid @ replicate 232 0 @ hoff @ replicate 3832 0"

definition demo_json_bytes :: "byte list" where
  "demo_json_bytes = [0x7B, 0x7D, 0, 0, 0, 0, 0, 0]"

text \<open>
  A disk whose headers say \<^verbatim>\<open>hdr_size = 4104\<close>: the primary header at 0 with the given
  magic and sequence id, the secondary at 4104, the given JSON region behind each and one
  keyslot area at 32768.
\<close>

definition demo_volume :: "byte list \<Rightarrow> byte list \<Rightarrow> byte list \<Rightarrow> byte list \<Rightarrow> grub_disk" where
  "demo_volume magic1 seq1 seq2 jbytes =
     grub_disk.make
       (\<lambda>off len.
          if off = 0 then
            (GRUB_ERR_NONE, mk_header magic1 [0, 0, 0, 0, 0, 0, 0x10, 0x08] seq1
                              [0, 0, 0, 0, 0, 0, 0, 0])
          else if off = 4104 then
            (GRUB_ERR_NONE, mk_header LUKS_MAGIC_2ND [0, 0, 0, 0, 0, 0, 0x10, 0x08] seq2
                              [0, 0, 0, 0, 0, 0, 0x10, 0x08])
          else if off = 4096 \<or> off = 8200 then (GRUB_ERR_NONE, jbytes)
          else if off = 32768 then (GRUB_ERR_NONE, [0x3D, 0x3B, 0x99, 0x11])
          else (GRUB_ERR_OUT_OF_RANGE, []))
       1024 9 None"

definition demo_disk :: "byte list \<Rightarrow> byte list \<Rightarrow> byte list \<Rightarrow> grub_disk" where
  "demo_disk magic1 seq1 seq2 = demo_volume magic1 seq1 seq2 demo_json_bytes"

definition e0 :: errst where
  "e0 = \<lparr>grub_errno = GRUB_ERR_NONE, grub_errmsg = []\<rparr>"

definition crypt0 :: grub_cryptodisk where
  "crypt0 = \<lparr>offset_sectors = 0, total_sectors = 0, log_sector_size = 0,
             cd_cipher = None, cd_key = [], cd_uuid = []\<rparr>"

definition demo_keyslot :: "string \<Rightarrow> string \<Rightarrow> json" where
  "demo_keyslot ksz prio =
     JObject [(''type'', JString ''luks2''), (''key_size'', JPrimitive ksz),
              (''priority'', JPrimitive prio),
              (''area'', JObject [(''type'', JString ''raw''), (''offset'', JString ''32768''),
                                  (''size'', JString ''4''),
                                  (''encryption'', JString ''aes-xts-plain64''),
                                  (''key_size'', JPrimitive ''2'')]),
              (''kdf'', JObject [(''type'', JString ''pbkdf2''), (''salt'', JString ''s''),
                                 (''hash'', JString ''sha256''),
                                 (''iterations'', JPrimitive ''1000'')]),
              (''af'', JObject [(''type'', JString ''luks1''), (''stripes'', JPrimitive ''2''),
                                (''hash'', JString ''sha256'')])]"

definition demo_segment :: json where
  "demo_segment =
     JObject [(''type'', JString ''crypt''), (''offset'', JString ''32768''),
              (''size'', JString ''dynamic''), (''encryption'', JString ''aes-xts-plain64''),
              (''sector_size'', JPrimitive ''512'')]"

definition demo_digest :: "json list \<Rightarrow> json" where
  "demo_digest ks =
     JObject [(''type'', JString ''pbkdf2''), (''keyslots'', JArray ks),
              (''segments'', JArray [JString ''0'']), (''salt'', JString ''''),
              (''digest'', JString ''MK''), (''hash'', JString ''sha256''),
              (''iterations'', JPrimitive ''1000'')]"

definition demo_root :: "(string \<times> json) list \<Rightarrow> json" where
  "demo_root ks =
     JObject [(''keyslots'', JObject ks),
              (''segments'', JObject [(''0'', demo_segment)]),
              (''digests'', JObject [(''0'', demo_digest [JString ''0'', JString ''1''])])]"

text \<open>
  The same metadata with a digest whose salt is \<open>MK\<close>: with the toy PBKDF2 below it
  verifies the empty key, the candidate key of a keyslot whose \<^verbatim>\<open>key_size\<close> is 0.
\<close>

definition demo_root_salted :: "(string \<times> json) list \<Rightarrow> json" where
  "demo_root_salted ks =
     JObject [(''keyslots'', JObject ks),
              (''segments'', JObject [(''0'', demo_segment)]),
              (''digests'',
               JObject [(''0'',
                 JObject [(''type'', JString ''pbkdf2''),
                          (''keyslots'', JArray [JString ''0'', JString ''1'', JString ''2'']),
                          (''segments'', JArray [JString ''0'']), (''salt'', JString ''MK''),
                          (''digest'', JString ''MK''), (''hash'', JString ''sha256''),
                          (''iterations'', JPrimitive ''1000'')])])]"

text \<open>
  Toy collaborators: base64 maps a character to its code, PBKDF2 yields the first
  \<open>dkLen\<close> bytes of password, salt and zeros, the cipher XORs every byte with the first key
  byte, the merge keeps the first block, and the JSON parser yields the given document.
\<close>

definition demo_env :: "json \<Rightarrow> byte list \<Rightarrow> env" where
  "demo_env root pw =
     env.make
       (\<lambda>s. Some (map of_char s))
       (\<lambda>h. h = ''sha256'')
       (\<lambda>h P Plen S Slen c dkLen.
          (0, take (unat dkLen) (take (unat Plen) P @ S @ replicate (unat dkLen) 0)))
       (\<lambda>n. if n = 0 then GRUB_ERR_NONE else GRUB_ERR_ACCESS_DENIED)
       (\<lambda>crypt c m.
          if c = ''aes'' then (GRUB_ERR_NONE, crypt\<lparr>cd_cipher := Some (c, m)\<rparr>)
          else (GRUB_ERR_FILE_NOT_FOUND, crypt))
       (\<lambda>crypt k len. (0, crypt\<lparr>cd_key := take (unat len) k\<rparr>))
       (\<lambda>crypt buf len sector lg.
          (0, map (\<lambda>b. b XOR (case cd_key crypt of [] \<Rightarrow> 0 | x # xs \<Rightarrow> x)) buf))
       (\<lambda>h src blocksize blocknumbers. (0, take (unat blocksize) src))
       (\<lambda>n. Some (replicate (unat n) 0))
       (\<lambda>n. True)
       (\<lambda>buf len. Some root)
       (True, pw @ replicate (MAX_PASSPHRASE - length pw) 0)
       (\<lambda>n d. n div d)"

section \<open>Header selection\<close>

text \<open>The block reads at the offset it is given, and nowhere else.\<close>

lemma read_block_events:
  "read_block disk hdr_file off len ret buf e = (r, b, e', evs) \<Longrightarrow>
   set evs \<subseteq> {EvFileSeek off, EvFileRead off len, EvDiskRead off len}"
  by (auto simp: read_block_def Let_def split: option.splits prod.splits bool.splits if_splits)

text \<open>
  Claim C1. When the primary header has been read and both headers carry their magic and
  version 2, \<^verbatim>\<open>luks2_read_header\<close> returns the secondary header if its big-endian
  \<^verbatim>\<open>seqid\<close> is strictly greater and the primary header otherwise (also on equality). When
  the primary header fails the magic or version check, it fails with
  \<^verbatim>\<open>GRUB_ERR_BAD_SIGNATURE\<close> and the message for the primary, having made no call but the
  read of the primary header at offset 0: the secondary header is not read.
\<close>

theorem read_header_selection:
  assumes p: "read_block disk hdr_file 0 sizeof_header GRUB_ERR_NONE [] e = (GRUB_ERR_NONE, primary, e1, ev1)"
  shows "(hdr_magic primary \<noteq> LUKS_MAGIC_1ST \<or> grub_be_to_cpu16 (hdr_version primary) \<noteq> 2 \<longrightarrow>
            luks2_read_header disk hdr_file outhdr e
              = (GRUB_ERR_BAD_SIGNATURE, outhdr,
                 e1\<lparr>grub_errno := GRUB_ERR_BAD_SIGNATURE, grub_errmsg := ''Bad primary signature''\<rparr>, ev1)
            \<and> set ev1 \<subseteq> {EvFileSeek 0, EvFileRead 0 sizeof_header, EvDiskRead 0 sizeof_header})
       \<and> (hdr_magic primary = LUKS_MAGIC_1ST \<and> grub_be_to_cpu16 (hdr_version primary) = 2
            \<and> read_block disk hdr_file (grub_be_to_cpu64 (hdr_hdr_size primary)) sizeof_header
                  GRUB_ERR_NONE [] e1 = (GRUB_ERR_NONE, secondary, e2, ev2)
            \<and> hdr_magic secondary = LUKS_MAGIC_2ND \<and> grub_be_to_cpu16 (hdr_version secondary) = 2 \<longrightarrow>
            luks2_read_header disk hdr_file outhdr e
              = (GRUB_ERR_NONE,
                 if grub_be_to_cpu64 (hdr_seqid primary) < grub_be_to_cpu64 (hdr_seqid secondary)
                 then secondary else primary,
                 e2, ev1 @ ev2))"
  using p read_block_events[OF p]
  by (auto simp: luks2_read_header_def grub_error_def)

lemma demo_read_0:
  "read_block (demo_disk m s1 s2) None 0 sizeof_header GRUB_ERR_NONE [] e0
     = (GRUB_ERR_NONE, mk_header m [0, 0, 0, 0, 0, 0, 0x10, 0x08] s1 [0, 0, 0, 0, 0, 0, 0, 0], e0,
        [EvDiskRead 0 sizeof_header])"
  by (simp add: read_block_def demo_disk_def demo_volume_def grub_disk.defs)

lemma demo_read_4104:
  "read_block (demo_disk m s1 s2) None 4104 sizeof_header GRUB_ERR_NONE [] e0
     = (GRUB_ERR_NONE, mk_header LUKS_MAGIC_2ND [0, 0, 0, 0, 0, 0, 0x10, 0x08] s2 [0, 0, 0, 0, 0, 0, 0x10, 0x08], e0,
        [EvDiskRead 4104 sizeof_header])"
  by (simp add: read_block_def demo_disk_def demo_volume_def grub_disk.defs)

lemma mk_header_fields:
  "length m = 6 \<Longrightarrow> length hs = 8 \<Longrightarrow> length sq = 8 \<Longrightarrow>
   hdr_magic (mk_header m hs sq ho) = m \<and> grub_be_to_cpu16 (hdr_version (mk_header m hs sq ho)) = 2
   \<and> hdr_hdr_size (mk_header m hs sq ho) = hs \<and> hdr_seqid (mk_header m hs sq ho) = sq"
  by (simp add: mk_header_def hdr_magic_def hdr_version_def hdr_hdr_size_def hdr_seqid_def
        grub_be_to_cpu16_def)

theorem read_header_selection_witness:
  "luks2_read_header (demo_disk LUKS_MAGIC_1ST [0, 0, 0, 0, 0, 0, 0, 1] [0, 0, 0, 0, 0, 0, 0, 2]) None [] e0
     = (GRUB_ERR_NONE,
        mk_header LUKS_MAGIC_2ND [0, 0, 0, 0, 0, 0, 0x10, 0x08] [0, 0, 0, 0, 0, 0, 0, 2] [0, 0, 0, 0, 0, 0, 0x10, 0x08],
        e0, [EvDiskRead 0 sizeof_header, EvDiskRead 4104 sizeof_header])
   \<and> luks2_read_header (demo_disk LUKS_MAGIC_1ST [0, 0, 0, 0, 0, 0, 0, 2] [0, 0, 0, 0, 0, 0, 0, 2]) None [] e0
     = (GRUB_ERR_NONE,
        mk_header LUKS_MAGIC_1ST [0, 0, 0, 0, 0, 0, 0x10, 0x08] [0, 0, 0, 0, 0, 0, 0, 2] [0, 0, 0, 0, 0, 0, 0, 0],
        e0, [EvDiskRead 0 sizeof_header, EvDiskRead 4104 sizeof_header])
   \<and> luks2_read_header (demo_disk LUKS_MAGIC_2ND [0, 0, 0, 0, 0, 0, 0, 1] [0, 0, 0, 0, 0, 0, 0, 2]) None [] e0
     = (GRUB_ERR_BAD_SIGNATURE, [],
        e0\<lparr>grub_errno := GRUB_ERR_BAD_SIGNATURE, grub_errmsg := ''Bad primary signature''\<rparr>,
        [EvDiskRead 0 sizeof_header])"
proof -
  have sz: "grub_be_to_cpu64 [0, 0, 0, 0, 0, 0, 0x10, 0x08] = 4104"
    by (simp add: grub_be_to_cpu64_def)
  have lt: "grub_be_to_cpu64 [0, 0, 0, 0, 0, 0, 0, 1] < grub_be_to_cpu64 [0, 0, 0, 0, 0, 0, 0, 2]"
    by (simp add: grub_be_to_cpu64_def)
  have neq: "LUKS_MAGIC_2ND \<noteq> LUKS_MAGIC_1ST"
    by (simp add: LUKS_MAGIC_1ST_def LUKS_MAGIC_2ND_def)
  have l1: "length LUKS_MAGIC_1ST = 6" and l2: "length LUKS_MAGIC_2ND = 6"
    by (simp_all add: LUKS_MAGIC_1ST_def LUKS_MAGIC_2ND_def)
  show ?thesis
    using read_header_selection [OF demo_read_0 [of LUKS_MAGIC_1ST "[0, 0, 0, 0, 0, 0, 0, 1]" "[0, 0, 0, 0, 0, 0, 0, 2]"],
            where outhdr = "[]" and ?e2.0 = e0
            and ?ev2.0 = "[EvDiskRead 4104 sizeof_header]"
            and secondary = "mk_header LUKS_MAGIC_2ND [0, 0, 0, 0, 0, 0, 0x10, 0x08]
               [0, 0, 0, 0, 0, 0, 0, 2] [0, 0, 0, 0, 0, 0, 0x10, 0x08]"]
          read_header_selection [OF demo_read_0 [of LUKS_MAGIC_1ST "[0, 0, 0, 0, 0, 0, 0, 2]" "[0, 0, 0, 0, 0, 0, 0, 2]"],
            where outhdr = "[]" and ?e2.0 = e0
            and ?ev2.0 = "[EvDiskRead 4104 sizeof_header]"
            and secondary = "mk_header LUKS_MAGIC_2ND [0, 0, 0, 0, 0, 0, 0x10, 0x08]
               [0, 0, 0, 0, 0, 0, 0, 2] [0, 0, 0, 0, 0, 0, 0x10, 0x08]"]
          read_header_selection [OF demo_read_0 [of LUKS_MAGIC_2ND "[0, 0, 0, 0, 0, 0, 0, 1]" "[0, 0, 0, 0, 0, 0, 0, 2]"],
            where outhdr = "[]" and ?e2.0 = e0
            and ?ev2.0 = "[EvDiskRead 4104 sizeof_header]"
            and secondary = "[]"]
    by (simp add: mk_header_fields l1 l2 sz lt neq demo_read_4104)
qed


section \<open>Parsing one structure: what is stored, and when\<close>

lemma set_pbkdf2_both:
  "set_pbkdf2_iterations v (set_pbkdf2_hash h u)
     = \<lparr>u_word0 = W_ptr h, u_word1 = v, u_word2 = u_word2 u\<rparr>"
  by (cases u) (simp add: set_pbkdf2_iterations_def set_pbkdf2_hash_def)

lemma set_argon2i_all:
  "set_argon2i_cpus c (set_argon2i_memory m (set_argon2i_time t u))
     = \<lparr>u_word0 = W_int t, u_word1 = m, u_word2 = c\<rparr>"
  by (cases u) (simp add: set_argon2i_cpus_def set_argon2i_memory_def set_argon2i_time_def)

lemmas parse_defs = put_def or_else_def return_derror_def luks2_derror_def grub_error_def

lemma keyslot_of_af:
  "af_stripes (keyslot_of x j)
     = the (grub_json_getint64 (the (grub_json_getvalue j ''af'')) (Some ''stripes''))"
  "af_hash (keyslot_of x j)
     = the (grub_json_getstring (the (grub_json_getvalue j ''af'')) (Some ''hash''))"
  by (simp_all add: keyslot_of_def Let_def)

lemma keyslot_of_kdf:
  "kdf_salt (keyslot_of x j)
     = the (grub_json_getstring (the (grub_json_getvalue j ''kdf'')) (Some ''salt''))"
  "kdf_type (keyslot_of x j)
     = (if the (grub_json_getstring (the (grub_json_getvalue j ''kdf'')) (Some ''type'')) = ''argon2i''
           \<or> the (grub_json_getstring (the (grub_json_getvalue j ''kdf'')) (Some ''type'')) = ''argon2id''
        then LUKS2_KDF_TYPE_ARGON2I else LUKS2_KDF_TYPE_PBKDF2)"
  "kdf_u (keyslot_of x j)
     = (if the (grub_json_getstring (the (grub_json_getvalue j ''kdf'')) (Some ''type'')) = ''argon2i''
           \<or> the (grub_json_getstring (the (grub_json_getvalue j ''kdf'')) (Some ''type'')) = ''argon2id''
        then \<lparr>u_word0 = W_int (the (grub_json_getint64 (the (grub_json_getvalue j ''kdf'')) (Some ''time''))),
              u_word1 = the (grub_json_getint64 (the (grub_json_getvalue j ''kdf'')) (Some ''memory'')),
              u_word2 = the (grub_json_getint64 (the (grub_json_getvalue j ''kdf'')) (Some ''cpus''))\<rparr>
        else \<lparr>u_word0 = W_ptr (the (grub_json_getstring (the (grub_json_getvalue j ''kdf'')) (Some ''hash''))),
              u_word1 = the (grub_json_getint64 (the (grub_json_getvalue j ''kdf'')) (Some ''iterations'')),
              u_word2 = u_word2 (kdf_u x)\<rparr>)"
  by (simp_all add: keyslot_of_def Let_def)

lemma case_failed:
  "(case p of (True, out) \<Rightarrow> A out | (False, out) \<Rightarrow> B out)
     = (if fst p then A (snd p) else B (snd p))"
  by (auto split: prod.split bool.split)

lemma fst_put: "fst (put r upd out) = (r = None)"
  by (simp add: put_def split: option.split)

lemma fst_or_else: "fst (or_else r f) = (fst r \<or> fst (f (snd r)))"
  by (auto simp: or_else_def split: prod.split bool.split)

lemma snd_or_else: "snd (or_else r f) = (if fst r then snd r else snd (f (snd r)))"
  by (auto simp: or_else_def split: prod.split bool.split)

lemma fst_return_derror: "fst (return_derror n msg out e) = n"
  by (simp add: return_derror_def luks2_derror_def grub_error_def)

lemmas chain_simps = case_failed fst_put fst_or_else fst_return_derror


lemma snd_return_derror:
  "snd (snd (return_derror n msg out e)) = e\<lparr>grub_errno := n, grub_errmsg := msg\<rparr>"
  by (simp add: return_derror_def luks2_derror_def grub_error_def)

lemmas fail_simps = chain_simps snd_return_derror

subsection \<open>The anti-forensic stage\<close>

lemma parse_keyslot_af_ok:
  "keyslot_af_ok j \<Longrightarrow>
   luks2_parse_keyslot_af x j e
     = (GRUB_ERR_NONE,
        x\<lparr>af_stripes := af_stripes (keyslot_of x j), af_hash := af_hash (keyslot_of x j)\<rparr>, e)"
  by (auto simp add: luks2_parse_keyslot_af_def parse_defs keyslot_of_af keyslot_af_ok_def Let_def
           split: option.split)

lemma parse_keyslot_af_bad:
  assumes "\<not> keyslot_af_ok j"
  shows "fst (luks2_parse_keyslot_af x j e) = GRUB_ERR_BAD_ARGUMENT
         \<and> snd (snd (luks2_parse_keyslot_af x j e)) = snd (snd (luks2_parse_keyslot_af k j e))"
proof (cases "grub_json_getvalue j ''af''")
  case None
  then show ?thesis by (simp add: luks2_parse_keyslot_af_def fail_simps)
next
  case (Some af)
  show ?thesis
  proof (cases "grub_json_getstring af (Some ''type'')")
    case None
    with Some show ?thesis by (simp add: luks2_parse_keyslot_af_def fail_simps)
  next
    case ty: (Some ty)
    with assms Some
    have "ty \<noteq> ''luks1'' \<or> grub_json_getint64 af (Some ''stripes'') = None
          \<or> grub_json_getstring af (Some ''hash'') = None"
      by (simp add: keyslot_af_ok_def Let_def; blast)
    with Some ty show ?thesis
      apply -
      apply (elim disjE)
        apply (simp_all add: luks2_parse_keyslot_af_def fail_simps)
      done
  qed
qed

subsection \<open>The KDF stage\<close>

lemma parse_keyslot_kdf_ok:
  assumes "keyslot_kdf_ok j"
  shows "luks2_parse_keyslot_kdf x j e
     = (GRUB_ERR_NONE,
        x\<lparr>kdf_salt := kdf_salt (keyslot_of x j), kdf_type := kdf_type (keyslot_of x j),
          kdf_u := kdf_u (keyslot_of x j),
          af_stripes := af_stripes (keyslot_of x j), af_hash := af_hash (keyslot_of x j)\<rparr>, e)"
proof -
  from assms have af: "keyslot_af_ok j"
    by (simp add: keyslot_kdf_ok_def Let_def)
  from assms obtain kdf ty s where g: "grub_json_getvalue j ''kdf'' = Some kdf"
      "grub_json_getstring kdf (Some ''type'') = Some ty"
      "grub_json_getstring kdf (Some ''salt'') = Some s"
    by (auto simp: keyslot_kdf_ok_def Let_def)
  show ?thesis
  proof (cases "ty = ''argon2i'' \<or> ty = ''argon2id''")
    case True
    with assms g obtain t m c where a: "grub_json_getint64 kdf (Some ''time'') = Some t"
        "grub_json_getint64 kdf (Some ''memory'') = Some m"
        "grub_json_getint64 kdf (Some ''cpus'') = Some c"
      by (auto simp: keyslot_kdf_ok_def Let_def)
    from True g a show ?thesis
      by (simp add: luks2_parse_keyslot_kdf_def parse_defs parse_keyslot_af_ok [OF af]
            keyslot_of_af keyslot_of_kdf set_argon2i_all)
  next
    case False
    with assms g obtain h n where a: "ty = ''pbkdf2''"
        "grub_json_getstring kdf (Some ''hash'') = Some h"
        "grub_json_getint64 kdf (Some ''iterations'') = Some n"
      by (auto simp: keyslot_kdf_ok_def Let_def)
    from False g a show ?thesis
      by (simp add: luks2_parse_keyslot_kdf_def parse_defs parse_keyslot_af_ok [OF af]
            keyslot_of_af keyslot_of_kdf set_pbkdf2_both)
  qed
qed



lemma parse_keyslot_kdf_bad:
  assumes "\<not> keyslot_kdf_ok j"
  shows "fst (luks2_parse_keyslot_kdf x j e) = GRUB_ERR_BAD_ARGUMENT
         \<and> snd (snd (luks2_parse_keyslot_kdf x j e)) = snd (snd (luks2_parse_keyslot_kdf k j e))"
proof (cases "grub_json_getvalue j ''kdf''")
  case None
  then show ?thesis by (simp add: luks2_parse_keyslot_kdf_def fail_simps)
next
  case (Some kdf)
  show ?thesis
  proof (cases "grub_json_getstring kdf (Some ''type'')")
    case None
    with Some show ?thesis by (simp add: luks2_parse_keyslot_kdf_def fail_simps)
  next
    case ty: (Some ty)
    show ?thesis
    proof (cases "keyslot_af_ok j")
      case False
      note t = parse_keyslot_af_bad [OF False]
      from Some ty show ?thesis
        apply (simp add: luks2_parse_keyslot_kdf_def fail_simps t [THEN conjunct1])
        apply (intro conjI impI t [THEN conjunct2])
        done
    next
      case af: True
      show ?thesis
      proof (cases "ty = ''argon2i'' \<or> ty = ''argon2id''")
        case True
        with assms Some ty af
        have "grub_json_getstring kdf (Some ''salt'') = None
              \<or> grub_json_getint64 kdf (Some ''time'') = None
              \<or> grub_json_getint64 kdf (Some ''memory'') = None
              \<or> grub_json_getint64 kdf (Some ''cpus'') = None"
          by (simp add: keyslot_kdf_ok_def Let_def; blast)
        with True Some ty show ?thesis
          apply -
          apply (elim disjE)
                 apply (simp_all add: luks2_parse_keyslot_kdf_def fail_simps)
          done
      next
        case False
        with assms Some ty af
        have "grub_json_getstring kdf (Some ''salt'') = None \<or> ty \<noteq> ''pbkdf2''
              \<or> grub_json_getstring kdf (Some ''hash'') = None
              \<or> grub_json_getint64 kdf (Some ''iterations'') = None"
          by (simp add: keyslot_kdf_ok_def Let_def; blast)
        with False Some ty show ?thesis
          apply -
          apply (elim disjE)
             apply (simp_all add: luks2_parse_keyslot_kdf_def fail_simps)
          done
      qed
    qed
  qed
qed


subsection \<open>The key area stage\<close>

lemma keyslot_of_area:
  "area_offset (keyslot_of x j)
     = the (grub_json_getuint64 (the (grub_json_getvalue j ''area'')) (Some ''offset''))"
  "area_size (keyslot_of x j)
     = the (grub_json_getuint64 (the (grub_json_getvalue j ''area'')) (Some ''size''))"
  "area_encryption (keyslot_of x j)
     = the (grub_json_getstring (the (grub_json_getvalue j ''area'')) (Some ''encryption''))"
  "area_key_size (keyslot_of x j)
     = the (grub_json_getint64 (the (grub_json_getvalue j ''area'')) (Some ''key_size''))"
  by (simp_all add: keyslot_of_def Let_def)

lemma parse_keyslot_area_ok:
  assumes "keyslot_area_ok j"
  shows "luks2_parse_keyslot_area x j e
     = (GRUB_ERR_NONE,
        x\<lparr>area_offset := area_offset (keyslot_of x j), area_size := area_size (keyslot_of x j),
          area_encryption := area_encryption (keyslot_of x j),
          area_key_size := area_key_size (keyslot_of x j),
          kdf_salt := kdf_salt (keyslot_of x j), kdf_type := kdf_type (keyslot_of x j),
          kdf_u := kdf_u (keyslot_of x j),
          af_stripes := af_stripes (keyslot_of x j), af_hash := af_hash (keyslot_of x j)\<rparr>, e)"
proof -
  from assms have kdf: "keyslot_kdf_ok j"
    by (simp add: keyslot_area_ok_def Let_def)
  from assms obtain area a b c d where g: "grub_json_getvalue j ''area'' = Some area"
      "grub_json_getstring area (Some ''type'') = Some ''raw''"
      "grub_json_getuint64 area (Some ''offset'') = Some a"
      "grub_json_getuint64 area (Some ''size'') = Some b"
      "grub_json_getstring area (Some ''encryption'') = Some c"
      "grub_json_getint64 area (Some ''key_size'') = Some d"
    by (auto simp: keyslot_area_ok_def Let_def)
  from g show ?thesis
    by (simp add: luks2_parse_keyslot_area_def parse_defs parse_keyslot_kdf_ok [OF kdf]
          keyslot_of_af keyslot_of_kdf keyslot_of_area)
qed

lemma parse_keyslot_area_bad:
  assumes "\<not> keyslot_area_ok j"
  shows "fst (luks2_parse_keyslot_area x j e) = GRUB_ERR_BAD_ARGUMENT
         \<and> snd (snd (luks2_parse_keyslot_area x j e))
             = snd (snd (luks2_parse_keyslot_area k j e))"
proof (cases "grub_json_getvalue j ''area''")
  case None
  then show ?thesis by (simp add: luks2_parse_keyslot_area_def fail_simps)
next
  case (Some area)
  show ?thesis
  proof (cases "grub_json_getstring area (Some ''type'')")
    case None
    with Some show ?thesis by (simp add: luks2_parse_keyslot_area_def fail_simps)
  next
    case ty: (Some ty)
    show ?thesis
    proof (cases "keyslot_kdf_ok j")
      case False
      note t = parse_keyslot_kdf_bad [OF False]
      from Some ty show ?thesis
        apply (simp add: luks2_parse_keyslot_area_def fail_simps t [THEN conjunct1])
        apply (intro conjI impI t [THEN conjunct2])
        done
    next
      case True
      with assms Some ty
      have "ty \<noteq> ''raw'' \<or> grub_json_getuint64 area (Some ''offset'') = None
            \<or> grub_json_getuint64 area (Some ''size'') = None
            \<or> grub_json_getstring area (Some ''encryption'') = None
            \<or> grub_json_getint64 area (Some ''key_size'') = None"
        by (simp add: keyslot_area_ok_def Let_def; blast)
      with Some ty show ?thesis
        apply -
        apply (elim disjE)
            apply (simp_all add: luks2_parse_keyslot_area_def fail_simps)
        done
    qed
  qed
qed

subsection \<open>The whole keyslot\<close>

lemma keyslot_of_top:
  "ks_key_size (keyslot_of x j) = the (grub_json_getint64 j (Some ''key_size''))"
  "ks_priority (keyslot_of x j)
     = (case grub_json_getint64 j (Some ''priority'') of None \<Rightarrow> 1 | Some v \<Rightarrow> v)"
  by (simp_all add: keyslot_of_def Let_def)

lemma keyslot_rebuild:
  "x\<lparr>ks_key_size := ks_key_size r, ks_priority := ks_priority r,
     area_offset := area_offset r, area_size := area_size r,
     area_encryption := area_encryption r, area_key_size := area_key_size r,
     kdf_salt := kdf_salt r, kdf_type := kdf_type r, kdf_u := kdf_u r,
     af_stripes := af_stripes r, af_hash := af_hash r\<rparr> = (r :: grub_luks2_keyslot)"
  by (cases x, cases r) simp

lemma parse_keyslot_ok:
  assumes "keyslot_ok j"
  shows "luks2_parse_keyslot x j e = (GRUB_ERR_NONE, keyslot_of x j, e)"
proof -
  from assms have area: "keyslot_area_ok j"
    by (simp add: keyslot_ok_def)
  from assms obtain a where g: "grub_json_getstring j (Some ''type'') = Some ''luks2''"
      "grub_json_getint64 j (Some ''key_size'') = Some a"
    by (auto simp: keyslot_ok_def)
  have "luks2_parse_keyslot x j e
          = (GRUB_ERR_NONE,
             x\<lparr>ks_key_size := ks_key_size (keyslot_of x j),
               ks_priority := ks_priority (keyslot_of x j),
               area_offset := area_offset (keyslot_of x j), area_size := area_size (keyslot_of x j),
               area_encryption := area_encryption (keyslot_of x j),
               area_key_size := area_key_size (keyslot_of x j),
               kdf_salt := kdf_salt (keyslot_of x j), kdf_type := kdf_type (keyslot_of x j),
               kdf_u := kdf_u (keyslot_of x j),
               af_stripes := af_stripes (keyslot_of x j), af_hash := af_hash (keyslot_of x j)\<rparr>, e)"
    using g
    by (cases "grub_json_getint64 j (Some ''priority'')")
       (simp_all add: luks2_parse_keyslot_def parse_defs parse_keyslot_area_ok [OF area]
          keyslot_of_af keyslot_of_kdf keyslot_of_area keyslot_of_top)
  then show ?thesis by (simp only: keyslot_rebuild)
qed

lemma parse_keyslot_bad:
  assumes "\<not> keyslot_ok j"
  shows "fst (luks2_parse_keyslot x j e) = GRUB_ERR_BAD_ARGUMENT
         \<and> snd (snd (luks2_parse_keyslot x j e)) = snd (snd (luks2_parse_keyslot k j e))"
proof (cases "grub_json_getstring j (Some ''type'')")
  case None
  then show ?thesis by (simp add: luks2_parse_keyslot_def fail_simps)
next
  case ty: (Some ty)
  show ?thesis
  proof (cases "keyslot_area_ok j")
    case False
    note t = parse_keyslot_area_bad [OF False]
    from ty show ?thesis
      apply (simp add: luks2_parse_keyslot_def fail_simps t [THEN conjunct1])
      apply (intro conjI impI t [THEN conjunct2])
      done
  next
    case True
    with assms ty
    have "ty \<noteq> ''luks2'' \<or> grub_json_getint64 j (Some ''key_size'') = None"
      by (simp add: keyslot_ok_def; blast)
    with ty show ?thesis
      apply -
      apply (elim disjE)
       apply (simp_all add: luks2_parse_keyslot_def fail_simps)
      done
  qed
qed


subsection \<open>Segments\<close>

lemma parse_segment_ok:
  assumes "segment_ok j"
  shows "luks2_parse_segment x j e = (GRUB_ERR_NONE, segment_of j, e)"
proof -
  from assms obtain a b c d where g: "grub_json_getstring j (Some ''type'') = Some ''crypt''"
      "grub_json_getuint64 j (Some ''offset'') = Some a"
      "grub_json_getstring j (Some ''size'') = Some b"
      "grub_json_getstring j (Some ''encryption'') = Some c"
      "grub_json_getint64 j (Some ''sector_size'') = Some d"
    by (auto simp: segment_ok_def)
  from g show ?thesis
    by (cases x) (simp add: luks2_parse_segment_def parse_defs segment_of_def)
qed

lemma parse_segment_bad:
  assumes "\<not> segment_ok j"
  shows "fst (luks2_parse_segment x j e) = GRUB_ERR_BAD_ARGUMENT
         \<and> snd (snd (luks2_parse_segment x j e)) = snd (snd (luks2_parse_segment k j e))"
proof (cases "grub_json_getstring j (Some ''type'')")
  case None
  then show ?thesis by (simp add: luks2_parse_segment_def fail_simps)
next
  case ty: (Some ty)
  with assms
  have "ty \<noteq> ''crypt'' \<or> grub_json_getuint64 j (Some ''offset'') = None
        \<or> grub_json_getstring j (Some ''size'') = None
        \<or> grub_json_getstring j (Some ''encryption'') = None
        \<or> grub_json_getint64 j (Some ''sector_size'') = None"
    by (simp add: segment_ok_def; blast)
  with ty show ?thesis
    apply -
    apply (elim disjE)
        apply (simp_all add: luks2_parse_segment_def fail_simps)
    done
qed

subsection \<open>Digests\<close>

lemma parse_digest_ok:
  assumes "digest_ok j"
  shows "luks2_parse_digest x j e = (GRUB_ERR_NONE, digest_of j, e)"
proof -
  from assms obtain segs ks a b c d n1 n2 where g:
      "grub_json_getstring j (Some ''type'') = Some ''pbkdf2''"
      "grub_json_getvalue j ''segments'' = Some segs"
      "grub_json_getvalue j ''keyslots'' = Some ks"
      "grub_json_getstring j (Some ''salt'') = Some a"
      "grub_json_getstring j (Some ''digest'') = Some b"
      "grub_json_getstring j (Some ''hash'') = Some c"
      "grub_json_getint64 j (Some ''iterations'') = Some d"
      "grub_json_getsize segs = Some n1"
      "grub_json_getsize ks = Some n2"
    by (auto simp: digest_ok_def Let_def)
  with assms have f: "\<not> fst (digest_bits segs 0 n1 0)" "\<not> fst (digest_bits ks 0 n2 0)"
    by (simp_all add: digest_ok_def Let_def)
  obtain m1 m2 where m: "digest_bits segs 0 n1 0 = (False, m1)" "digest_bits ks 0 n2 0 = (False, m2)"
    using f by (cases "digest_bits segs 0 n1 0", cases "digest_bits ks 0 n2 0") auto
  from g m show ?thesis
    by (cases x) (simp add: luks2_parse_digest_def parse_defs digest_of_def Let_def)
qed

lemma parse_digest_bad:
  assumes "\<not> digest_ok j"
  shows "fst (luks2_parse_digest x j e) = GRUB_ERR_BAD_ARGUMENT
         \<and> snd (snd (luks2_parse_digest x j e)) = snd (snd (luks2_parse_digest k j e))"
proof (cases "grub_json_getstring j (Some ''type'')")
  case None
  then show ?thesis by (simp add: luks2_parse_digest_def fail_simps)
next
  case ty: (Some ty)
  show ?thesis
  proof (cases "grub_json_getvalue j ''segments''")
    case None
    with ty show ?thesis by (simp add: luks2_parse_digest_def fail_simps)
  next
    case segs: (Some segs)
    show ?thesis
    proof (cases "grub_json_getvalue j ''keyslots''")
      case None
      with ty segs show ?thesis by (simp add: luks2_parse_digest_def fail_simps)
    next
      case ks: (Some ks)
      with assms ty segs
      have "ty \<noteq> ''pbkdf2'' \<or> grub_json_getstring j (Some ''salt'') = None
            \<or> grub_json_getstring j (Some ''digest'') = None
            \<or> grub_json_getstring j (Some ''hash'') = None
            \<or> grub_json_getint64 j (Some ''iterations'') = None
            \<or> grub_json_getsize segs = None
            \<or> (\<exists>n. grub_json_getsize segs = Some n \<and> fst (digest_bits segs 0 n 0))
            \<or> grub_json_getsize ks = None
            \<or> (\<exists>n. grub_json_getsize ks = Some n \<and> fst (digest_bits ks 0 n 0))"
        by (auto simp add: digest_ok_def Let_def)
      with ty segs ks show ?thesis
        apply -
        apply (elim disjE exE conjE)
                apply (simp_all add: luks2_parse_digest_def fail_simps split: option.split)
        done
    qed
  qed
qed


text \<open>
  Claim C3. A digest whose \<^verbatim>\<open>keyslots\<close> array holds the single index 31 parses without
  error, and the mask it yields has bits 31 to 63 set, not bit 31 alone: the \<^verbatim>\<open>int\<close> value
  \<^verbatim>\<open>1 << 31\<close> is sign-extended when it is ORed into the 64-bit mask.
\<close>

theorem parse_digest_keyslot_31:
  "luks2_parse_digest (v_digest uninit_vars) (Value (demo_digest [JString ''31''])) e0
     = (GRUB_ERR_NONE,
        \<lparr>dg_keyslots = 0xFFFFFFFF80000000, dg_segments = 1, dg_salt = [], dg_digest = ''MK'',
         dg_hash = ''sha256'', dg_iterations = 1000\<rparr>, e0)
   \<and> (0xFFFFFFFF80000000 :: u64) \<noteq> push_bit 31 1"
  by code_simp

text \<open>
  A parsed PBKDF2 keyslot has a string pointer in word 0 of its KDF union: the hash that
  \<^verbatim>\<open>luks2_decrypt_key\<close> reads there is the one the parse stored.
\<close>

lemma keyslot_of_pbkdf2_hash:
  "kdf_type (keyslot_of x j) = LUKS2_KDF_TYPE_PBKDF2
   \<Longrightarrow> pbkdf2_hash (kdf_u (keyslot_of x j))
         = the (grub_json_getstring (the (grub_json_getvalue j ''kdf'')) (Some ''hash''))
       \<and> pbkdf2_iterations (kdf_u (keyslot_of x j))
         = the (grub_json_getint64 (the (grub_json_getvalue j ''kdf'')) (Some ''iterations''))"
  by (simp add: keyslot_of_def Let_def pbkdf2_hash_def pbkdf2_iterations_def split: if_splits)

subsection \<open>What a rejected parse has already stored\<close>

lemma out_return_derror: "fst (snd (return_derror n msg out e)) = out"
  by (simp add: return_derror_def luks2_derror_def grub_error_def)

lemma snd_put: "snd (put r upd out) = (case r of None \<Rightarrow> out | Some v \<Rightarrow> upd v out)"
  by (simp add: put_def split: option.split)

lemmas store_simps = case_failed out_return_derror snd_or_else snd_put

lemma parse_keyslot_af_keeps:
  "ks_key_size (fst (snd (luks2_parse_keyslot_af x j e))) = ks_key_size x"
  "ks_priority (fst (snd (luks2_parse_keyslot_af x j e))) = ks_priority x"
  by (simp_all add: luks2_parse_keyslot_af_def store_simps split: option.split)

lemma parse_keyslot_kdf_keeps:
  "ks_key_size (fst (snd (luks2_parse_keyslot_kdf x j e))) = ks_key_size x"
  "ks_priority (fst (snd (luks2_parse_keyslot_kdf x j e))) = ks_priority x"
  by (simp_all add: luks2_parse_keyslot_kdf_def store_simps parse_keyslot_af_keeps
        split: option.split)

lemma parse_keyslot_area_keeps:
  "ks_key_size (fst (snd (luks2_parse_keyslot_area x j e))) = ks_key_size x"
  "ks_priority (fst (snd (luks2_parse_keyslot_area x j e))) = ks_priority x"
  by (simp_all add: luks2_parse_keyslot_area_def store_simps parse_keyslot_kdf_keeps
        split: option.split)

lemma parse_keyslot_stores_key_size:
  assumes "grub_json_getstring j (Some ''type'') = Some ''luks2''"
      and "grub_json_getint64 j (Some ''key_size'') = Some v"
  shows "ks_key_size (fst (snd (luks2_parse_keyslot x j e))) = v"
    and "ks_priority (fst (snd (luks2_parse_keyslot x j e)))
           = (case grub_json_getint64 j (Some ''priority'') of None \<Rightarrow> 1 | Some p \<Rightarrow> p)"
  using assms
  by (simp_all add: luks2_parse_keyslot_def store_simps parse_keyslot_area_keeps fst_put
        split: option.split)

lemma parse_segment_stores_offset:
  assumes "grub_json_getstring j (Some ''type'') = Some ''crypt''"
      and "grub_json_getuint64 j (Some ''offset'') = Some v"
  shows "seg_offset (fst (snd (luks2_parse_segment x j e))) = v"
  using assms
  by (simp add: luks2_parse_segment_def store_simps fst_put fst_or_else split: option.split)

lemma parse_digest_stores_salt:
  assumes "grub_json_getstring j (Some ''type'') = Some ''pbkdf2''"
      and "grub_json_getvalue j ''segments'' = Some segs"
      and "grub_json_getvalue j ''keyslots'' = Some ks"
      and "grub_json_getstring j (Some ''salt'') = Some v"
  shows "dg_salt (fst (snd (luks2_parse_digest x j e))) = v"
  using assms
  by (simp add: luks2_parse_digest_def store_simps fst_put fst_or_else
        split: option.split prod.split bool.split)

text \<open>
  Claim C8, as the code has it. Parsing a keyslot, a segment or a digest returns
  \<^verbatim>\<open>GRUB_ERR_NONE\<close> or \<^verbatim>\<open>GRUB_ERR_BAD_ARGUMENT\<close>. When it returns \<^verbatim>\<open>GRUB_ERR_NONE\<close> the
  error state is untouched and the output record is \<open>keyslot_of\<close>, \<open>segment_of\<close> or
  \<open>digest_of\<close> of the object. For a segment and a digest that is a function of the object
  alone. For a keyslot it depends on the record passed in only through word 2 of the KDF
  union (\<^verbatim>\<open>argon2i.cpus\<close>), and only when the keyslot's KDF is PBKDF2: then that word is
  left as it was. The record is not restored when the parse is rejected: whatever the
  outcome, a keyslot of type \<^verbatim>\<open>luks2\<close> with a readable \<^verbatim>\<open>key_size\<close> has that key size
  stored, a segment of type \<^verbatim>\<open>crypt\<close> with a readable \<^verbatim>\<open>offset\<close> has that offset stored,
  and a digest of type \<^verbatim>\<open>pbkdf2\<close> with \<^verbatim>\<open>segments\<close>, \<^verbatim>\<open>keyslots\<close> and a readable
  \<^verbatim>\<open>salt\<close> has that salt stored.
\<close>

theorem parse_structure_outcome:
  "(fst (luks2_parse_keyslot k jk e) = GRUB_ERR_NONE
      \<or> fst (luks2_parse_keyslot k jk e) = GRUB_ERR_BAD_ARGUMENT)
   \<and> (fst (luks2_parse_keyslot k jk e) = GRUB_ERR_NONE
        \<longrightarrow> luks2_parse_keyslot k jk e = (GRUB_ERR_NONE, keyslot_of k jk, e)
            \<and> (kdf_type (keyslot_of k jk) = LUKS2_KDF_TYPE_PBKDF2
                 \<longrightarrow> u_word2 (kdf_u (keyslot_of k jk)) = u_word2 (kdf_u k)))
   \<and> (u_word2 (kdf_u k') = u_word2 (kdf_u k)
        \<or> kdf_type (keyslot_of k jk) = LUKS2_KDF_TYPE_ARGON2I
        \<longrightarrow> keyslot_of k' jk = keyslot_of k jk)
   \<and> (grub_json_getstring jk (Some ''type'') = Some ''luks2''
        \<and> grub_json_getint64 jk (Some ''key_size'') = Some v
        \<longrightarrow> ks_key_size (fst (snd (luks2_parse_keyslot k jk e))) = v)
   \<and> (fst (luks2_parse_segment s js e) = GRUB_ERR_NONE
      \<or> fst (luks2_parse_segment s js e) = GRUB_ERR_BAD_ARGUMENT)
   \<and> (fst (luks2_parse_segment s js e) = GRUB_ERR_NONE
        \<longrightarrow> luks2_parse_segment s js e = (GRUB_ERR_NONE, segment_of js, e))
   \<and> (grub_json_getstring js (Some ''type'') = Some ''crypt''
        \<and> grub_json_getuint64 js (Some ''offset'') = Some off
        \<longrightarrow> seg_offset (fst (snd (luks2_parse_segment s js e))) = off)
   \<and> (fst (luks2_parse_digest d jd e) = GRUB_ERR_NONE
      \<or> fst (luks2_parse_digest d jd e) = GRUB_ERR_BAD_ARGUMENT)
   \<and> (fst (luks2_parse_digest d jd e) = GRUB_ERR_NONE
        \<longrightarrow> luks2_parse_digest d jd e = (GRUB_ERR_NONE, digest_of jd, e))
   \<and> (grub_json_getstring jd (Some ''type'') = Some ''pbkdf2''
        \<and> grub_json_getvalue jd ''segments'' \<noteq> None
        \<and> grub_json_getvalue jd ''keyslots'' \<noteq> None
        \<and> grub_json_getstring jd (Some ''salt'') = Some sl
        \<longrightarrow> dg_salt (fst (snd (luks2_parse_digest d jd e))) = sl)"
proof -
  have k: "fst (luks2_parse_keyslot k jk e)
             = (if keyslot_ok jk then GRUB_ERR_NONE else GRUB_ERR_BAD_ARGUMENT)"
    using parse_keyslot_ok [of jk k e] parse_keyslot_bad [of jk k e] by simp
  have s: "fst (luks2_parse_segment s js e)
             = (if segment_ok js then GRUB_ERR_NONE else GRUB_ERR_BAD_ARGUMENT)"
    using parse_segment_ok [of js s e] parse_segment_bad [of js s e] by simp
  have d: "fst (luks2_parse_digest d jd e)
             = (if digest_ok jd then GRUB_ERR_NONE else GRUB_ERR_BAD_ARGUMENT)"
    using parse_digest_ok [of jd d e] parse_digest_bad [of jd d e] by simp
  have w: "kdf_type (keyslot_of k jk) = LUKS2_KDF_TYPE_PBKDF2
             \<longrightarrow> u_word2 (kdf_u (keyslot_of k jk)) = u_word2 (kdf_u k)"
    by (simp add: keyslot_of_def Let_def)
  have dep: "u_word2 (kdf_u k') = u_word2 (kdf_u k)
        \<or> kdf_type (keyslot_of k jk) = LUKS2_KDF_TYPE_ARGON2I
        \<longrightarrow> keyslot_of k' jk = keyslot_of k jk"
    by (auto simp: keyslot_of_def Let_def split: if_splits)
  have pk: "grub_json_getstring jk (Some ''type'') = Some ''luks2''
        \<and> grub_json_getint64 jk (Some ''key_size'') = Some v
        \<longrightarrow> ks_key_size (fst (snd (luks2_parse_keyslot k jk e))) = v"
    using parse_keyslot_stores_key_size(1) by blast
  have ps: "grub_json_getstring js (Some ''type'') = Some ''crypt''
        \<and> grub_json_getuint64 js (Some ''offset'') = Some off
        \<longrightarrow> seg_offset (fst (snd (luks2_parse_segment s js e))) = off"
    using parse_segment_stores_offset by blast
  have pd: "grub_json_getstring jd (Some ''type'') = Some ''pbkdf2''
        \<and> grub_json_getvalue jd ''segments'' \<noteq> None
        \<and> grub_json_getvalue jd ''keyslots'' \<noteq> None
        \<and> grub_json_getstring jd (Some ''salt'') = Some sl
        \<longrightarrow> dg_salt (fst (snd (luks2_parse_digest d jd e))) = sl"
    using parse_digest_stores_salt by blast
  show ?thesis
    unfolding k s d
    using w dep pk ps pd
    by (simp add: parse_keyslot_ok parse_segment_ok parse_digest_ok)
qed

theorem parse_structure_outcome_witness:
  "fst (luks2_parse_keyslot ((v_keyslot uninit_vars)\<lparr>kdf_u := \<lparr>u_word0 = W_int 7, u_word1 = 8, u_word2 = 9\<rparr>\<rparr>) (Value (demo_keyslot ''2'' ''1'')) e0) = GRUB_ERR_NONE
   \<and> luks2_parse_keyslot ((v_keyslot uninit_vars)\<lparr>kdf_u := \<lparr>u_word0 = W_int 7, u_word1 = 8, u_word2 = 9\<rparr>\<rparr>) (Value (demo_keyslot ''2'' ''1'')) e0 = (GRUB_ERR_NONE, keyslot_of ((v_keyslot uninit_vars)\<lparr>kdf_u := \<lparr>u_word0 = W_int 7, u_word1 = 8, u_word2 = 9\<rparr>\<rparr>) (Value (demo_keyslot ''2'' ''1'')), e0)
   \<and> kdf_type (keyslot_of ((v_keyslot uninit_vars)\<lparr>kdf_u := \<lparr>u_word0 = W_int 7, u_word1 = 8, u_word2 = 9\<rparr>\<rparr>) (Value (demo_keyslot ''2'' ''1''))) = LUKS2_KDF_TYPE_PBKDF2
   \<and> u_word2 (kdf_u (keyslot_of ((v_keyslot uninit_vars)\<lparr>kdf_u := \<lparr>u_word0 = W_int 7, u_word1 = 8, u_word2 = 9\<rparr>\<rparr>) (Value (demo_keyslot ''2'' ''1'')))) = 9
   \<and> keyslot_of ((v_keyslot uninit_vars)\<lparr>ks_key_size := 5, kdf_u := \<lparr>u_word0 = W_ptr ''x'', u_word1 = 1, u_word2 = 9\<rparr>\<rparr>) (Value (demo_keyslot ''2'' ''1'')) = keyslot_of ((v_keyslot uninit_vars)\<lparr>kdf_u := \<lparr>u_word0 = W_int 7, u_word1 = 8, u_word2 = 9\<rparr>\<rparr>) (Value (demo_keyslot ''2'' ''1''))
   \<and> grub_json_getstring (Value (demo_keyslot ''2'' ''1'')) (Some ''type'') = Some ''luks2''
   \<and> grub_json_getint64 (Value (demo_keyslot ''2'' ''1'')) (Some ''key_size'') = Some 2
   \<and> ks_key_size (fst (snd (luks2_parse_keyslot ((v_keyslot uninit_vars)\<lparr>kdf_u := \<lparr>u_word0 = W_int 7, u_word1 = 8, u_word2 = 9\<rparr>\<rparr>) (Value (demo_keyslot ''2'' ''1'')) e0))) = 2
   \<and> fst (luks2_parse_segment (v_segment uninit_vars) (Value demo_segment) e0) = GRUB_ERR_NONE
   \<and> luks2_parse_segment (v_segment uninit_vars) (Value demo_segment) e0
     = (GRUB_ERR_NONE, segment_of (Value demo_segment), e0)
   \<and> grub_json_getstring (Value demo_segment) (Some ''type'') = Some ''crypt''
   \<and> grub_json_getuint64 (Value demo_segment) (Some ''offset'') = Some 32768
   \<and> seg_offset (fst (snd (luks2_parse_segment (v_segment uninit_vars) (Value demo_segment) e0)))
     = 32768
   \<and> fst (luks2_parse_digest (v_digest uninit_vars) (Value (demo_digest [JString ''0''])) e0) = GRUB_ERR_NONE
   \<and> luks2_parse_digest (v_digest uninit_vars) (Value (demo_digest [JString ''0''])) e0 = (GRUB_ERR_NONE, digest_of (Value (demo_digest [JString ''0''])), e0)
   \<and> grub_json_getstring (Value (demo_digest [JString ''0''])) (Some ''type'') = Some ''pbkdf2''
   \<and> grub_json_getvalue (Value (demo_digest [JString ''0''])) ''segments'' \<noteq> None
   \<and> grub_json_getvalue (Value (demo_digest [JString ''0''])) ''keyslots'' \<noteq> None
   \<and> grub_json_getstring (Value (demo_digest [JString ''0''])) (Some ''salt'') = Some []
   \<and> dg_salt (fst (snd (luks2_parse_digest (v_digest uninit_vars) (Value (demo_digest [JString ''0''])) e0))) = []"
proof -
  have a: "fst (luks2_parse_keyslot ((v_keyslot uninit_vars)\<lparr>kdf_u := \<lparr>u_word0 = W_int 7, u_word1 = 8, u_word2 = 9\<rparr>\<rparr>) (Value (demo_keyslot ''2'' ''1'')) e0) = GRUB_ERR_NONE"
    by code_simp
  have a1: "kdf_type (keyslot_of ((v_keyslot uninit_vars)\<lparr>kdf_u := \<lparr>u_word0 = W_int 7, u_word1 = 8, u_word2 = 9\<rparr>\<rparr>) (Value (demo_keyslot ''2'' ''1''))) = LUKS2_KDF_TYPE_PBKDF2"
    by code_simp
  have a2: "u_word2 (kdf_u ((v_keyslot uninit_vars)\<lparr>kdf_u := \<lparr>u_word0 = W_int 7, u_word1 = 8, u_word2 = 9\<rparr>\<rparr>)) = 9"
    by simp
  have a3: "grub_json_getstring (Value (demo_keyslot ''2'' ''1'')) (Some ''type'') = Some ''luks2''"
    by code_simp
  have a4: "grub_json_getint64 (Value (demo_keyslot ''2'' ''1'')) (Some ''key_size'') = Some 2"
    by code_simp
  have b: "fst (luks2_parse_segment (v_segment uninit_vars) (Value demo_segment) e0) = GRUB_ERR_NONE"
    by code_simp
  have b1: "grub_json_getstring (Value demo_segment) (Some ''type'') = Some ''crypt''"
    by code_simp
  have b2: "grub_json_getuint64 (Value demo_segment) (Some ''offset'') = Some 32768"
    by code_simp
  have c: "fst (luks2_parse_digest (v_digest uninit_vars) (Value (demo_digest [JString ''0''])) e0) = GRUB_ERR_NONE"
    by code_simp
  have c1: "grub_json_getstring (Value (demo_digest [JString ''0''])) (Some ''type'') = Some ''pbkdf2''"
    by code_simp
  have c2: "grub_json_getvalue (Value (demo_digest [JString ''0''])) ''segments'' \<noteq> None"
    by code_simp
  have c3: "grub_json_getvalue (Value (demo_digest [JString ''0''])) ''keyslots'' \<noteq> None"
    by code_simp
  have c4: "grub_json_getstring (Value (demo_digest [JString ''0''])) (Some ''salt'') = Some []"
    by code_simp
  note t = parse_structure_outcome [where k = "(v_keyslot uninit_vars)\<lparr>kdf_u := \<lparr>u_word0 = W_int 7, u_word1 = 8, u_word2 = 9\<rparr>\<rparr>" and k' = "(v_keyslot uninit_vars)\<lparr>ks_key_size := 5, kdf_u := \<lparr>u_word0 = W_ptr ''x'', u_word1 = 1, u_word2 = 9\<rparr>\<rparr>" and jk = "Value (demo_keyslot ''2'' ''1'')" and e = e0 and v = 2
            and s = "v_segment uninit_vars" and js = "Value demo_segment" and off = 32768
            and d = "v_digest uninit_vars" and jd = "Value (demo_digest [JString ''0''])" and sl = "[]"]
  from t a have r1: "luks2_parse_keyslot ((v_keyslot uninit_vars)\<lparr>kdf_u := \<lparr>u_word0 = W_int 7, u_word1 = 8, u_word2 = 9\<rparr>\<rparr>) (Value (demo_keyslot ''2'' ''1'')) e0 = (GRUB_ERR_NONE, keyslot_of ((v_keyslot uninit_vars)\<lparr>kdf_u := \<lparr>u_word0 = W_int 7, u_word1 = 8, u_word2 = 9\<rparr>\<rparr>) (Value (demo_keyslot ''2'' ''1'')), e0)"
    by simp
  from t a a1 a2 have r2: "u_word2 (kdf_u (keyslot_of ((v_keyslot uninit_vars)\<lparr>kdf_u := \<lparr>u_word0 = W_int 7, u_word1 = 8, u_word2 = 9\<rparr>\<rparr>) (Value (demo_keyslot ''2'' ''1'')))) = 9"
    by simp
  from t have r2': "keyslot_of ((v_keyslot uninit_vars)\<lparr>ks_key_size := 5, kdf_u := \<lparr>u_word0 = W_ptr ''x'', u_word1 = 1, u_word2 = 9\<rparr>\<rparr>) (Value (demo_keyslot ''2'' ''1'')) = keyslot_of ((v_keyslot uninit_vars)\<lparr>kdf_u := \<lparr>u_word0 = W_int 7, u_word1 = 8, u_word2 = 9\<rparr>\<rparr>) (Value (demo_keyslot ''2'' ''1''))"
    by simp
  from t a3 a4 have r3: "ks_key_size (fst (snd (luks2_parse_keyslot ((v_keyslot uninit_vars)\<lparr>kdf_u := \<lparr>u_word0 = W_int 7, u_word1 = 8, u_word2 = 9\<rparr>\<rparr>) (Value (demo_keyslot ''2'' ''1'')) e0))) = 2"
    by simp
  from t b have r4: "luks2_parse_segment (v_segment uninit_vars) (Value demo_segment) e0
     = (GRUB_ERR_NONE, segment_of (Value demo_segment), e0)"
    by simp
  from t b1 b2 have r5:
    "seg_offset (fst (snd (luks2_parse_segment (v_segment uninit_vars) (Value demo_segment) e0)))
     = 32768"
    by simp
  from t c have r6: "luks2_parse_digest (v_digest uninit_vars) (Value (demo_digest [JString ''0''])) e0
     = (GRUB_ERR_NONE, digest_of (Value (demo_digest [JString ''0''])), e0)"
    by simp
  from t c1 c2 c3 c4 have r7:
    "dg_salt (fst (snd (luks2_parse_digest (v_digest uninit_vars) (Value (demo_digest [JString ''0''])) e0))) = []"
    by simp
  show ?thesis
    by (intro conjI a r1 a1 r2 r2' a3 a4 r3 b r4 b1 b2 r5 c r6 c1 c2 c3 c4 r7)
qed

text \<open>
  Claim C8, as the spec states it, fails: a keyslot object with a type and a key size and
  nothing else is rejected, and the record that was passed in comes back with \<^verbatim>\<open>key_size\<close>
  and \<^verbatim>\<open>priority\<close> overwritten.
\<close>

theorem parse_keyslot_partial_counterexample:
  "luks2_parse_keyslot (v_keyslot uninit_vars)
      (Value (JObject [(''type'', JString ''luks2''), (''key_size'', JPrimitive ''32'')])) e0
     = (GRUB_ERR_BAD_ARGUMENT, (v_keyslot uninit_vars)\<lparr>ks_key_size := 32, ks_priority := 1\<rparr>,
        \<lparr>grub_errno = GRUB_ERR_BAD_ARGUMENT, grub_errmsg = ''Missing or invalid key area''\<rparr>)
   \<and> (v_keyslot uninit_vars)\<lparr>ks_key_size := 32, ks_priority := 1\<rparr> \<noteq> v_keyslot uninit_vars"
  by code_simp

section \<open>Sector size of the keyslot area\<close>

lemma decrypt_key_area_decrypt:
  assumes "luks2_decrypt_key_area env out_key source crypt hdr_file k ret e evs0 = (r, ok, c, e', evs)"
      and "EvDecrypt buf n sec lg \<in> set evs"
  shows "EvDecrypt buf n sec lg \<in> set evs0
         \<or> (n = area_size k \<and> sec = 0 \<and> lg = LUKS_LOG_SECTOR_SIZE)"
proof (cases "grub_malloc env (area_size k)")
  case None
  with assms show ?thesis
    by (auto simp: luks2_decrypt_key_area_def grub_error_def)
next
  case (Some fresh)
  obtain ret1 split_key e1 ev1 where rb:
    "read_block source hdr_file (area_offset k) (area_size k) ret fresh
       (e\<lparr>grub_errno := GRUB_ERR_NONE\<rparr>) = (ret1, split_key, e1, ev1)"
    by (cases "read_block source hdr_file (area_offset k) (area_size k) ret fresh
       (e\<lparr>grub_errno := GRUB_ERR_NONE\<rparr>)") auto
  have nd: "EvDecrypt buf n sec lg \<notin> set ev1"
    using read_block_events [OF rb] by auto
  from assms Some rb nd show ?thesis
    by (auto simp: luks2_decrypt_key_area_def decrypt_return_def luks2_derror_def grub_error_def
          split: prod.splits if_splits)
qed

text \<open>
  Claim C4. Every sector decryption that \<^verbatim>\<open>luks2_decrypt_key\<close> asks for, whatever the
  crypto disk's own \<^verbatim>\<open>log_sector_size\<close> (set from the segment) is, covers the keyslot
  area, starts at sector 0 and uses \<^verbatim>\<open>LUKS_LOG_SECTOR_SIZE\<close>, that is 9: 512-byte sectors.
\<close>

theorem decrypt_key_sector_size:
  assumes "luks2_decrypt_key env out_key source crypt hdr_file k passphrase passphraselen e
             = (r, ok, c, e', evs)"
      and "EvDecrypt buf n sec lg \<in> set evs"
  shows "n = area_size k \<and> sec = 0 \<and> lg = LUKS_LOG_SECTOR_SIZE \<and> lg = 9 \<and> (2 :: nat) ^ lg = 512"
proof -
  have "n = area_size k \<and> sec = 0 \<and> lg = LUKS_LOG_SECTOR_SIZE"
    using assms
    by (auto simp: luks2_decrypt_key_def decrypt_return_def luks2_derror_def grub_error_def
          split: option.splits grub_luks2_kdf_type.splits prod.splits if_splits
          dest!: decrypt_key_area_decrypt)
  then show ?thesis by (simp add: LUKS_LOG_SECTOR_SIZE_def)
qed

text \<open>A run on the demonstration volume, whose crypto disk has 4096-byte sectors.\<close>

lemma demo_decrypt_key:
  "luks2_decrypt_key (demo_env (demo_root []) []) [] (demo_disk LUKS_MAGIC_1ST [] [])
      (crypt0\<lparr>log_sector_size := 12\<rparr>) None
      (keyslot_of (v_keyslot uninit_vars) (Value (demo_keyslot ''2'' ''1''))) [0x70, 0x77] 2 e0
   = (GRUB_ERR_NONE, [0x4D, 0x4B],
      crypt0\<lparr>log_sector_size := 12, cd_cipher := Some (''aes'', ''xts-plain64''),
             cd_key := [0x70, 0x77]\<rparr>, e0,
      [EvPbkdf2 [0x70, 0x77] 2, EvSetCipher ''aes'' ''xts-plain64'', EvSetKey [0x70, 0x77] 2,
       EvMalloc 4, EvDiskRead 32768 4, EvDecrypt [0x3D, 0x3B, 0x99, 0x11] 4 0 9,
       EvAFMerge [0x4D, 0x4B, 0xE9, 0x61] 2 2, EvFree [0x4D, 0x4B, 0xE9, 0x61]])"
  by code_simp

theorem decrypt_key_sector_size_witness:
  "EvDecrypt [0x3D, 0x3B, 0x99, 0x11] 4 0 9
     \<in> set (snd (snd (snd (snd (luks2_decrypt_key (demo_env (demo_root []) []) []
                 (demo_disk LUKS_MAGIC_1ST [] []) (crypt0\<lparr>log_sector_size := 12\<rparr>) None
                 (keyslot_of (v_keyslot uninit_vars) (Value (demo_keyslot ''2'' ''1''))) [0x70, 0x77] 2 e0)))))
   \<and> (4 :: u64) = area_size (keyslot_of (v_keyslot uninit_vars) (Value (demo_keyslot ''2'' ''1'')))
   \<and> (9 :: nat) = LUKS_LOG_SECTOR_SIZE \<and> (2 :: nat) ^ 9 = 512"
proof -
  have m: "EvDecrypt [0x3D, 0x3B, 0x99, 0x11] 4 0 9
             \<in> set [EvPbkdf2 [0x70, 0x77] 2, EvSetCipher ''aes'' ''xts-plain64'',
                    EvSetKey [0x70, 0x77] 2, EvMalloc 4, EvDiskRead 32768 4,
                    EvDecrypt [0x3D, 0x3B, 0x99, 0x11] 4 0 9,
                    EvAFMerge [0x4D, 0x4B, 0xE9, 0x61] 2 2, EvFree [0x4D, 0x4B, 0xE9, 0x61]]"
    by simp
  show ?thesis
    using decrypt_key_sector_size [OF demo_decrypt_key m] m
    by (simp add: demo_decrypt_key LUKS_LOG_SECTOR_SIZE_def)
qed

section \<open>The calls of an unlock attempt\<close>

lemma read_block_is_read:
  "read_block disk hdr_file off len ret buf e = (r, b, e', evs) \<Longrightarrow> \<forall>ev\<in>set evs. is_read ev"
  using read_block_events [of disk hdr_file off len ret buf e r b e' evs] by auto

lemma read_header_is_read:
  assumes "luks2_read_header disk hdr_file outhdr e = (r, h, e', evs)"
  shows "\<forall>ev\<in>set evs. is_read ev"
proof -
  obtain r1 p e1 ev1 where a: "read_block disk hdr_file 0 sizeof_header GRUB_ERR_NONE [] e = (r1, p, e1, ev1)"
    by (cases "read_block disk hdr_file 0 sizeof_header GRUB_ERR_NONE [] e") auto
  obtain r2 s e2 ev2 where b: "read_block disk hdr_file (grub_be_to_cpu64 (hdr_hdr_size p))
        sizeof_header r1 [] e1 = (r2, s, e2, ev2)"
    by (cases "read_block disk hdr_file (grub_be_to_cpu64 (hdr_hdr_size p)) sizeof_header r1 [] e1") auto
  from assms a b read_block_is_read [OF a] read_block_is_read [OF b] show ?thesis
    by (auto simp: luks2_read_header_def grub_error_def split: if_splits)
qed

lemma is_read_trial_call: "is_read ev \<Longrightarrow> is_trial_call ev"
  by (cases ev) simp_all

lemma decrypt_key_area_calls:
  assumes "luks2_decrypt_key_area env out_key source crypt hdr_file k ret e evs0 = (r, ok, c, e', evs)"
      and "\<forall>ev\<in>set evs0. is_trial_call ev"
  shows "\<forall>ev\<in>set evs. is_trial_call ev"
proof (cases "grub_malloc env (area_size k)")
  case None
  with assms show ?thesis
    by (auto simp: luks2_decrypt_key_area_def grub_error_def)
next
  case (Some fresh)
  obtain ret1 split_key e1 ev1 where rb:
    "read_block source hdr_file (area_offset k) (area_size k) ret fresh
       (e\<lparr>grub_errno := GRUB_ERR_NONE\<rparr>) = (ret1, split_key, e1, ev1)"
    by (cases "read_block source hdr_file (area_offset k) (area_size k) ret fresh
       (e\<lparr>grub_errno := GRUB_ERR_NONE\<rparr>)") auto
  have nd: "\<forall>ev\<in>set ev1. is_trial_call ev"
    using read_block_is_read [OF rb] is_read_trial_call by blast
  from assms Some rb nd show ?thesis
    by (auto simp: luks2_decrypt_key_area_def decrypt_return_def luks2_derror_def grub_error_def
          split: prod.splits if_splits)
qed

lemma decrypt_key_calls:
  assumes "luks2_decrypt_key env out_key source crypt hdr_file k passphrase passphraselen e
             = (r, ok, c, e', evs)"
  shows "\<forall>ev\<in>set evs. is_trial_call ev"
  using assms
  by (auto simp: luks2_decrypt_key_def decrypt_return_def luks2_derror_def grub_error_def
        split: option.splits grub_luks2_kdf_type.splits prod.splits if_splits
        dest!: decrypt_key_area_calls)

lemma verify_key_calls:
  assumes "luks2_verify_key env d ck n e = (r, e', evs)"
  shows "\<forall>ev\<in>set evs. is_trial_call ev"
  using assms
  by (auto simp: luks2_verify_key_def verify_return_def luks2_derror_def grub_error_def
        split: option.splits prod.splits if_splits)

lemma try_keyslot_calls:
  assumes "luks2_try_keyslot env source hdr_file root pass plen i st = (b, st', evs)"
  shows "\<forall>ev\<in>set evs. is_trial_call ev"
proof -
  obtain v crypt e where st: "st = (v, crypt, e)" by (cases st) auto
  obtain ret k d s e1 where g:
    "luks2_get_keyslot (v_keyslot v) (v_digest v) (v_segment v) root i e = (ret, k, d, s, e1)"
    by (cases "luks2_get_keyslot (v_keyslot v) (v_digest v) (v_segment v) root i e") auto
  obtain ret1 ck crypt1 e2 ev2 where dk:
    "luks2_decrypt_key env (v_candidate_key v) source (set_up_disk env source s crypt) hdr_file k
       pass plen e1 = (ret1, ck, crypt1, e2, ev2)"
    by (cases "luks2_decrypt_key env (v_candidate_key v) source (set_up_disk env source s crypt)
       hdr_file k pass plen e1") auto
  obtain ret2 e3 ev3 where vk: "luks2_verify_key env d ck (ks_key_size k) e2 = (ret2, e3, ev3)"
    by (cases "luks2_verify_key env d ck (ks_key_size k) e2") auto
  from assms st g dk vk decrypt_key_calls [OF dk] verify_key_calls [OF vk] show ?thesis
    by (auto simp: luks2_try_keyslot_def Let_def split: if_splits)
qed

lemma try_keyslots_calls:
  "luks2_try_keyslots env source hdr_file root pass plen i n st = (st', evs)
   \<Longrightarrow> \<forall>ev\<in>set evs. is_trial_call ev"
proof (induction n arbitrary: i st st' evs)
  case 0
  then show ?case by simp
next
  case (Suc n)
  obtain b st1 ev1 where t: "luks2_try_keyslot env source hdr_file root pass plen i st = (b, st1, ev1)"
    by (cases "luks2_try_keyslot env source hdr_file root pass plen i st") auto
  obtain st2 ev2 where l: "luks2_try_keyslots env source hdr_file root pass plen (Suc i) n st1 = (st2, ev2)"
    by (cases "luks2_try_keyslots env source hdr_file root pass plen (Suc i) n st1") auto
  from Suc.prems t l try_keyslot_calls [OF t] Suc.IH [OF l] show ?case
    by (cases b) auto
qed

lemma recover_key_slots_calls:
  assumes "luks2_recover_key_slots env source crypt hdr_file root pass plen e = (r, cl, c, e', evs)"
  shows "\<forall>ev\<in>set evs. is_trial_call ev"
proof (cases "case grub_json_getvalue root ''keyslots'' of None \<Rightarrow> None
                | Some keyslots \<Rightarrow> grub_json_getsize keyslots")
  case None
  with assms show ?thesis
    by (auto simp: luks2_recover_key_slots_def grub_error_def)
next
  case (Some sz)
  obtain v crypt1 e1 ev1 where l:
    "luks2_try_keyslots env source hdr_file root pass plen 0 sz (uninit_vars, crypt, e)
       = ((v, crypt1, e1), ev1)"
    by (cases "luks2_try_keyslots env source hdr_file root pass plen 0 sz (uninit_vars, crypt, e)")
       auto
  from assms Some l try_keyslots_calls [OF l] show ?thesis
    by (auto simp: luks2_recover_key_slots_def grub_error_def
          split: option.splits prod.splits if_splits)
qed


text \<open>
  Claim C6. When the header has been read, the JSON buffer allocated and the read of the
  JSON region has left \<^verbatim>\<open>ret\<close> clear, and the region of \<^verbatim>\<open>hdr_size - 4096\<close> bytes holds
  no NUL byte, \<^verbatim>\<open>luks2_recover_key\<close> returns \<^verbatim>\<open>GRUB_ERR_NONE\<close>: the status it had before
  the check, which is success. It sets no error (the error state is the one the read left),
  leaves the crypto disk alone, and has made no call but the reads and the allocation
  before it frees the buffer: the JSON parser is not called and no keyslot is tried.
\<close>

theorem recover_key_unterminated_json:
  assumes h: "luks2_read_header source hdr_file [] e = (GRUB_ERR_NONE, header, e1, ev1)"
      and z: "grub_zalloc env (grub_be_to_cpu64 (hdr_hdr_size header) - sizeof_header)"
      and r: "read_block source hdr_file (grub_be_to_cpu64 (hdr_hdr_offset header) + sizeof_header)
                (grub_be_to_cpu64 (hdr_hdr_size header) - sizeof_header) GRUB_ERR_NONE
                (replicate (unat (grub_be_to_cpu64 (hdr_hdr_size header) - sizeof_header)) 0) e1
              = (GRUB_ERR_NONE, json_header, e2, ev2)"
      and n: "0 \<notin> set (take (unat (grub_be_to_cpu64 (hdr_hdr_size header) - sizeof_header))
                          json_header)"
  shows "luks2_recover_key env source crypt hdr_file key keyfile_size e
           = (GRUB_ERR_NONE, crypt, e2, replicate MAX_PASSPHRASE 0,
              ev1 @ [EvZalloc (grub_be_to_cpu64 (hdr_hdr_size header) - sizeof_header)] @ ev2
                @ [EvFree json_header, EvJsonFree])
         \<and> (\<forall>ev\<in>set (ev1 @ ev2). is_read ev)"
  using h z r n read_header_is_read [OF h] read_block_is_read [OF r]
  by (auto simp add: luks2_recover_key_def Let_def)

text \<open>The demonstration volume: its header, its JSON region and a full unlock.\<close>

lemma demo_read_header:
  "luks2_read_header (demo_volume LUKS_MAGIC_1ST [0, 0, 0, 0, 0, 0, 0, 1] [0, 0, 0, 0, 0, 0, 0, 1] jb) None [] e0
     = (GRUB_ERR_NONE,
        mk_header LUKS_MAGIC_1ST [0, 0, 0, 0, 0, 0, 0x10, 0x08] [0, 0, 0, 0, 0, 0, 0, 1] [0, 0, 0, 0, 0, 0, 0, 0],
        e0, [EvDiskRead 0 sizeof_header, EvDiskRead 4104 sizeof_header])"
proof -
  have sz: "grub_be_to_cpu64 [0, 0, 0, 0, 0, 0, 0x10, 0x08] = 4104"
    by (simp add: grub_be_to_cpu64_def)
  have l1: "length LUKS_MAGIC_1ST = 6" and l2: "length LUKS_MAGIC_2ND = 6"
    by (simp_all add: LUKS_MAGIC_1ST_def LUKS_MAGIC_2ND_def)
  show ?thesis
    by (simp add: luks2_read_header_def read_block_def demo_volume_def grub_disk.defs
          mk_header_fields l1 l2 sz)
qed

lemma demo_header_fields:
  "grub_be_to_cpu64 (hdr_hdr_size (mk_header LUKS_MAGIC_1ST [0, 0, 0, 0, 0, 0, 0x10, 0x08] sq [0, 0, 0, 0, 0, 0, 0, 0])) = 4104"
  "grub_be_to_cpu64 (hdr_hdr_offset (mk_header LUKS_MAGIC_1ST [0, 0, 0, 0, 0, 0, 0x10, 0x08] [0, 0, 0, 0, 0, 0, 0, 1] [0, 0, 0, 0, 0, 0, 0, 0])) = 0"
  by (simp_all add: mk_header_def hdr_hdr_size_def hdr_hdr_offset_def grub_be_to_cpu64_def LUKS_MAGIC_1ST_def)


lemma demo_json_read:
  "read_block (demo_volume LUKS_MAGIC_1ST [0, 0, 0, 0, 0, 0, 0, 1] [0, 0, 0, 0, 0, 0, 0, 1] jb) None
      4096 8 r buf e0
   = (GRUB_ERR_NONE, jb, e0, [EvDiskRead 4096 8])"
  by (simp add: read_block_def demo_volume_def grub_disk.defs)

lemma demo_slots:
  "luks2_recover_key_slots (demo_env (demo_root [(''0'', demo_keyslot ''2'' ''1'')]) pw)
      (demo_volume LUKS_MAGIC_1ST [0, 0, 0, 0, 0, 0, 0, 1] [0, 0, 0, 0, 0, 0, 0, 1] demo_json_bytes)
      crypt0 None (Value (demo_root [(''0'', demo_keyslot ''2'' ''1'')])) [0x70, 0x77] 2 e0
   = (GRUB_ERR_NONE, True,
      \<lparr>offset_sectors = 64, total_sectors = 960, log_sector_size = 9,
       cd_cipher = Some (''aes'', ''xts-plain64''), cd_key = [0x4D, 0x4B], cd_uuid = []\<rparr>,
      e0,
      [EvSlot Trying 0, EvPbkdf2 [0x70, 0x77] 2, EvSetCipher ''aes'' ''xts-plain64'',
       EvSetKey [0x70, 0x77] 2, EvMalloc 4, EvDiskRead 32768 4,
       EvDecrypt [0x3D, 0x3B, 0x99, 0x11] 4 0 9, EvAFMerge [0x4D, 0x4B, 0xE9, 0x61] 2 2,
       EvFree [0x4D, 0x4B, 0xE9, 0x61], EvPbkdf2 [0x4D, 0x4B] 2, EvSlot Slot_opened 0,
       EvSetCipher ''aes'' ''xts-plain64'', EvSetKey [0x4D, 0x4B] 2])"
  by code_simp

lemma demo_unlock:
  "luks2_recover_key (demo_env (demo_root [(''0'', demo_keyslot ''2'' ''1'')]) [0x70, 0x77])
      (demo_volume LUKS_MAGIC_1ST [0, 0, 0, 0, 0, 0, 0, 1] [0, 0, 0, 0, 0, 0, 0, 1] demo_json_bytes)
      crypt0 None (Some [0x70, 0x77]) 2 e0
   = (GRUB_ERR_NONE,
      \<lparr>offset_sectors = 64, total_sectors = 960, log_sector_size = 9,
       cd_cipher = Some (''aes'', ''xts-plain64''), cd_key = [0x4D, 0x4B], cd_uuid = []\<rparr>,
      e0, replicate 256 0,
      [EvDiskRead 0 4096, EvDiskRead 4104 4096, EvZalloc 8, EvDiskRead 4096 8,
       EvJsonParse [0x7B, 0x7D, 0, 0, 0, 0, 0, 0] 4104,
       EvSlot Trying 0, EvPbkdf2 [0x70, 0x77] 2, EvSetCipher ''aes'' ''xts-plain64'',
       EvSetKey [0x70, 0x77] 2, EvMalloc 4, EvDiskRead 32768 4,
       EvDecrypt [0x3D, 0x3B, 0x99, 0x11] 4 0 9, EvAFMerge [0x4D, 0x4B, 0xE9, 0x61] 2 2,
       EvFree [0x4D, 0x4B, 0xE9, 0x61], EvPbkdf2 [0x4D, 0x4B] 2, EvSlot Slot_opened 0,
       EvSetCipher ''aes'' ''xts-plain64'', EvSetKey [0x4D, 0x4B] 2,
       EvFree [0x7B, 0x7D, 0, 0, 0, 0, 0, 0], EvJsonFree])"
proof -
  have z: "grub_zalloc (demo_env r p) n" and jp: "json_parse (demo_env r p) b l = Some r" for r p n b l
    by (simp_all add: demo_env_def env.defs)
  show ?thesis
    by (simp add: luks2_recover_key_def demo_read_header demo_header_fields z jp demo_json_read
          demo_slots sizeof_header_def MAX_PASSPHRASE_def Let_def)
       (simp add: demo_json_bytes_def)
qed

lemma demo_unterminated_read:
  "read_block (demo_volume LUKS_MAGIC_1ST [0, 0, 0, 0, 0, 0, 0, 1] [0, 0, 0, 0, 0, 0, 0, 1]
                 [0x7B, 0x7D, 0x7B, 0x7D, 0x7B, 0x7D, 0x7B, 0x7D]) None
      (0 + sizeof_header) (4104 - sizeof_header) GRUB_ERR_NONE
      (replicate (unat (4104 - sizeof_header)) 0) e0
   = (GRUB_ERR_NONE, [0x7B, 0x7D, 0x7B, 0x7D, 0x7B, 0x7D, 0x7B, 0x7D], e0,
      [EvDiskRead (0 + sizeof_header) (4104 - sizeof_header)])"
  by (simp add: read_block_def demo_volume_def grub_disk.defs sizeof_header_def)

theorem recover_key_unterminated_json_witness:
  "luks2_recover_key (demo_env (demo_root []) []) 
      (demo_volume LUKS_MAGIC_1ST [0, 0, 0, 0, 0, 0, 0, 1] [0, 0, 0, 0, 0, 0, 0, 1]
         [0x7B, 0x7D, 0x7B, 0x7D, 0x7B, 0x7D, 0x7B, 0x7D])
      crypt0 None None 0 e0
   = (GRUB_ERR_NONE, crypt0, e0, replicate MAX_PASSPHRASE 0,
      [EvDiskRead 0 sizeof_header, EvDiskRead 4104 sizeof_header, EvZalloc (4104 - sizeof_header),
       EvDiskRead (0 + sizeof_header) (4104 - sizeof_header),
       EvFree [0x7B, 0x7D, 0x7B, 0x7D, 0x7B, 0x7D, 0x7B, 0x7D], EvJsonFree])"
proof -
  have z: "grub_zalloc (demo_env (demo_root []) []) (4104 - sizeof_header)"
    by (simp add: demo_env_def env.defs)
  have n: "0 \<notin> set (take (unat (4104 - sizeof_header :: u64))
                     [0x7B, 0x7D, 0x7B, 0x7D, 0x7B, 0x7D, 0x7B, 0x7D :: byte])"
    by (simp add: sizeof_header_def)
  show ?thesis
    using recover_key_unterminated_json [OF demo_read_header, where env = "demo_env (demo_root []) []"
            and crypt = crypt0 and key = None and keyfile_size = 0
            and json_header = "[0x7B, 0x7D, 0x7B, 0x7D, 0x7B, 0x7D, 0x7B, 0x7D]" and ?e2.0 = e0
            and ?ev2.0 = "[EvDiskRead (0 + sizeof_header) (4104 - sizeof_header)]"]
          z n demo_unterminated_read
    by (simp add: demo_header_fields)
qed

text \<open>
  Claim C10. Whenever \<^verbatim>\<open>luks2_recover_key\<close> calls the JSON parser, the length it declares
  is \<^verbatim>\<open>hdr_size\<close>, while the buffer it passes was allocated with \<^verbatim>\<open>hdr_size - 4096\<close>
  bytes and filled by a read of that many bytes. For \<^verbatim>\<open>hdr_size > 4096\<close> the declared
  length is the allocated length plus 4096.
\<close>

theorem recover_key_json_parse_length:
  assumes h: "luks2_read_header source hdr_file [] e = (GRUB_ERR_NONE, header, e1, ev1)"
      and run: "luks2_recover_key env source crypt hdr_file key keyfile_size e = (r, c, e', pb, evs)"
      and p: "EvJsonParse buf len \<in> set evs"
  shows "len = grub_be_to_cpu64 (hdr_hdr_size header)
         \<and> EvZalloc (len - sizeof_header) \<in> set evs
         \<and> buf = fst (snd (read_block source hdr_file
                              (grub_be_to_cpu64 (hdr_hdr_offset header) + sizeof_header)
                              (len - sizeof_header) GRUB_ERR_NONE
                              (replicate (unat (len - sizeof_header)) 0) e1))
         \<and> (sizeof_header < len \<longrightarrow> unat len = unat (len - sizeof_header) + 4096)"
proof -
  let ?n = "grub_be_to_cpu64 (hdr_hdr_size header) - sizeof_header"
  obtain ret1 jh e2 ev2 where rb:
    "read_block source hdr_file (grub_be_to_cpu64 (hdr_hdr_offset header) + sizeof_header) ?n
       GRUB_ERR_NONE (replicate (unat ?n) 0) e1 = (ret1, jh, e2, ev2)"
    by (cases "read_block source hdr_file (grub_be_to_cpu64 (hdr_hdr_offset header) + sizeof_header) ?n
       GRUB_ERR_NONE (replicate (unat ?n) 0) e1") auto
  have r1: "\<forall>ev\<in>set ev1. is_read ev" by (rule read_header_is_read [OF h])
  have r2: "\<forall>ev\<in>set ev2. is_read ev" by (rule read_block_is_read [OF rb])
  have np: "EvJsonParse buf len \<notin> set ev1" "EvJsonParse buf len \<notin> set ev2"
    using r1 r2 by auto
  have sl: "\<And>root pass plen r cl c e' ev3.
     luks2_recover_key_slots env source crypt hdr_file root pass plen e2 = (r, cl, c, e', ev3)
     \<Longrightarrow> EvJsonParse buf len \<notin> set ev3"
    using recover_key_slots_calls by fastforce
  have core: "len = grub_be_to_cpu64 (hdr_hdr_size header)
         \<and> EvZalloc (grub_be_to_cpu64 (hdr_hdr_size header) - sizeof_header) \<in> set evs \<and> buf = jh"
    using run p h rb np
    by (auto simp: luks2_recover_key_def Let_def grub_error_def
          split: if_splits option.splits prod.splits bool.splits dest: sl)
  have ar: "sizeof_header < len \<longrightarrow> unat len = unat (len - sizeof_header) + 4096"
    by (simp add: sizeof_header_def unat_sub word_le_nat_alt word_less_nat_alt)
  from core rb ar show ?thesis by simp
qed

theorem recover_key_json_parse_length_witness:
  "EvJsonParse [0x7B, 0x7D, 0, 0, 0, 0, 0, 0] 4104
     \<in> set (snd (snd (snd (snd (luks2_recover_key
           (demo_env (demo_root [(''0'', demo_keyslot ''2'' ''1'')]) [0x70, 0x77])
           (demo_volume LUKS_MAGIC_1ST [0, 0, 0, 0, 0, 0, 0, 1] [0, 0, 0, 0, 0, 0, 0, 1] demo_json_bytes)
           crypt0 None (Some [0x70, 0x77]) 2 e0)))))
   \<and> EvZalloc (4104 - sizeof_header)
     \<in> set (snd (snd (snd (snd (luks2_recover_key
           (demo_env (demo_root [(''0'', demo_keyslot ''2'' ''1'')]) [0x70, 0x77])
           (demo_volume LUKS_MAGIC_1ST [0, 0, 0, 0, 0, 0, 0, 1] [0, 0, 0, 0, 0, 0, 0, 1] demo_json_bytes)
           crypt0 None (Some [0x70, 0x77]) 2 e0)))))
   \<and> sizeof_header < 4104 \<and> unat (4104 :: u64) = unat (4104 - sizeof_header) + 4096"
proof -
  have p: "EvJsonParse [0x7B, 0x7D, 0, 0, 0, 0, 0, 0] 4104
     \<in> set [EvDiskRead 0 4096, EvDiskRead 4104 4096, EvZalloc 8, EvDiskRead 4096 8,
       EvJsonParse [0x7B, 0x7D, 0, 0, 0, 0, 0, 0] 4104,
       EvSlot Trying 0, EvPbkdf2 [0x70, 0x77] 2, EvSetCipher ''aes'' ''xts-plain64'',
       EvSetKey [0x70, 0x77] 2, EvMalloc 4, EvDiskRead 32768 4,
       EvDecrypt [0x3D, 0x3B, 0x99, 0x11] 4 0 9, EvAFMerge [0x4D, 0x4B, 0xE9, 0x61] 2 2,
       EvFree [0x4D, 0x4B, 0xE9, 0x61], EvPbkdf2 [0x4D, 0x4B] 2, EvSlot Slot_opened 0,
       EvSetCipher ''aes'' ''xts-plain64'', EvSetKey [0x4D, 0x4B] 2,
       EvFree [0x7B, 0x7D, 0, 0, 0, 0, 0, 0], EvJsonFree]"
    by simp
  have lt: "sizeof_header < 4104"
    by (simp add: sizeof_header_def)
  show ?thesis
    using recover_key_json_parse_length [OF demo_read_header demo_unlock p] lt
    by (simp add: demo_unlock demo_header_fields)
qed

section \<open>Buffers that held secrets\<close>

lemma decrypt_key_area_free:
  assumes m: "grub_malloc env (area_size k) = Some fresh"
      and rb: "read_block source hdr_file (area_offset k) (area_size k) ret fresh
                 (e\<lparr>grub_errno := GRUB_ERR_NONE\<rparr>) = (ret1, split_key, e1, ev1)"
  shows "last (snd (snd (snd (snd (luks2_decrypt_key_area env out_key source crypt hdr_file k
                                      ret e evs0)))))
         = EvFree (if ret1 \<noteq> GRUB_ERR_NONE then split_key
                   else snd (cryptodisk_decrypt env crypt split_key (area_size k) 0
                               LUKS_LOG_SECTOR_SIZE))"
  using m rb
  by (simp add: luks2_decrypt_key_area_def decrypt_return_def luks2_derror_def grub_error_def
        split: prod.splits)

lemma recover_key_passphrase_buffer:
  assumes run: "luks2_recover_key env source crypt hdr_file None keyfile_size e = (r, c, e', pb, evs)"
      and p: "EvPasswordGet \<in> set evs"
  shows "pb = snd (password_get env)"
proof -
  obtain ret header e1 ev1 where h: "luks2_read_header source hdr_file [] e = (ret, header, e1, ev1)"
    by (cases "luks2_read_header source hdr_file [] e") auto
  let ?n = "grub_be_to_cpu64 (hdr_hdr_size header) - sizeof_header"
  obtain ret1 jh e2 ev2 where rb:
    "read_block source hdr_file (grub_be_to_cpu64 (hdr_hdr_offset header) + sizeof_header) ?n
       ret (replicate (unat ?n) 0) e1 = (ret1, jh, e2, ev2)"
    by (cases "read_block source hdr_file (grub_be_to_cpu64 (hdr_hdr_offset header) + sizeof_header) ?n
       ret (replicate (unat ?n) 0) e1") auto
  have np: "EvPasswordGet \<notin> set ev1" "EvPasswordGet \<notin> set ev2"
    using read_header_is_read [OF h] read_block_is_read [OF rb] by auto
  from run p h rb np show ?thesis
    by (auto simp: luks2_recover_key_def Let_def grub_error_def
          split: if_splits option.splits prod.splits bool.splits)
qed

text \<open>
  Claim C9, as the code has it. Once \<^verbatim>\<open>luks2_decrypt_key\<close> has allocated \<^verbatim>\<open>split_key\<close>,
  its last call is \<^verbatim>\<open>grub_free\<close> of that buffer, and the buffer then holds what the read
  of the keyslot area left in it or, when the read succeeded, what the sector decryption
  left in it. When the passphrase has been asked for, \<^verbatim>\<open>interactive_passphrase\<close> holds at
  the return of \<^verbatim>\<open>luks2_recover_key\<close> what the prompt stored in it.
\<close>

theorem unlock_buffers_not_cleared:
  "(\<forall>fresh rb. grub_malloc env (area_size k) = Some fresh \<longrightarrow>
      rb = read_block source hdr_file (area_offset k) (area_size k) ret fresh
             (e\<lparr>grub_errno := GRUB_ERR_NONE\<rparr>) \<longrightarrow>
      last (snd (snd (snd (snd (luks2_decrypt_key_area env out_key source crypt hdr_file k
                                  ret e evs0)))))
      = EvFree (if fst rb \<noteq> GRUB_ERR_NONE then fst (snd rb)
                else snd (cryptodisk_decrypt env crypt (fst (snd rb)) (area_size k) 0
                            LUKS_LOG_SECTOR_SIZE)))
   \<and> (EvPasswordGet \<in> set (snd (snd (snd (snd (luks2_recover_key env source' crypt' hdr_file' None
                                                  keyfile_size e')))))
        \<longrightarrow> fst (snd (snd (snd (luks2_recover_key env source' crypt' hdr_file' None
                                   keyfile_size e'))))
            = snd (password_get env))"
proof (intro conjI allI impI)
  fix fresh rb
  assume m: "grub_malloc env (area_size k) = Some fresh"
     and rb: "rb = read_block source hdr_file (area_offset k) (area_size k) ret fresh
                     (e\<lparr>grub_errno := GRUB_ERR_NONE\<rparr>)"
  obtain ret1 split_key e1 ev1 where rb':
    "read_block source hdr_file (area_offset k) (area_size k) ret fresh
       (e\<lparr>grub_errno := GRUB_ERR_NONE\<rparr>) = (ret1, split_key, e1, ev1)"
    by (cases "read_block source hdr_file (area_offset k) (area_size k) ret fresh
       (e\<lparr>grub_errno := GRUB_ERR_NONE\<rparr>)") auto
  show "last (snd (snd (snd (snd (luks2_decrypt_key_area env out_key source crypt hdr_file k
                                  ret e evs0)))))
      = EvFree (if fst rb \<noteq> GRUB_ERR_NONE then fst (snd rb)
                else snd (cryptodisk_decrypt env crypt (fst (snd rb)) (area_size k) 0
                            LUKS_LOG_SECTOR_SIZE))"
    using decrypt_key_area_free [OF m rb'] by (simp add: rb rb')
next
  assume p: "EvPasswordGet \<in> set (snd (snd (snd (snd (luks2_recover_key env source' crypt' hdr_file' None
                                                  keyfile_size e')))))"
  obtain r c e2 pb evs where run:
    "luks2_recover_key env source' crypt' hdr_file' None keyfile_size e' = (r, c, e2, pb, evs)"
    by (cases "luks2_recover_key env source' crypt' hdr_file' None keyfile_size e'") auto
  from recover_key_passphrase_buffer [OF run] p run
  show "fst (snd (snd (snd (luks2_recover_key env source' crypt' hdr_file' None keyfile_size e'))))
            = snd (password_get env)"
    by simp
qed

lemma demo_strlen:
  "grub_strlen ([0x70, 0x77] @ replicate (MAX_PASSPHRASE - length [0x70 :: byte, 0x77]) 0) = 2"
  by code_simp

lemma demo_password_get:
  "password_get (demo_env r p) = (True, p @ replicate (MAX_PASSPHRASE - length p) 0)"
  by (simp add: demo_env_def env.defs)

lemma demo_slots_padded:
  "luks2_recover_key_slots (demo_env (demo_root [(''0'', demo_keyslot ''2'' ''1'')]) pw)
      (demo_volume LUKS_MAGIC_1ST [0, 0, 0, 0, 0, 0, 0, 1] [0, 0, 0, 0, 0, 0, 0, 1] demo_json_bytes)
      crypt0 None (Value (demo_root [(''0'', demo_keyslot ''2'' ''1'')]))
      ([0x70, 0x77] @ replicate (MAX_PASSPHRASE - length [0x70 :: byte, 0x77]) 0) 2 e0
   = (GRUB_ERR_NONE, True,
      \<lparr>offset_sectors = 64, total_sectors = 960, log_sector_size = 9,
       cd_cipher = Some (''aes'', ''xts-plain64''), cd_key = [0x4D, 0x4B], cd_uuid = []\<rparr>,
      e0,
      [EvSlot Trying 0,
       EvPbkdf2 ([0x70, 0x77] @ replicate (MAX_PASSPHRASE - length [0x70 :: byte, 0x77]) 0) 2,
       EvSetCipher ''aes'' ''xts-plain64'',
       EvSetKey [0x70, 0x77] 2, EvMalloc 4, EvDiskRead 32768 4,
       EvDecrypt [0x3D, 0x3B, 0x99, 0x11] 4 0 9, EvAFMerge [0x4D, 0x4B, 0xE9, 0x61] 2 2,
       EvFree [0x4D, 0x4B, 0xE9, 0x61], EvPbkdf2 [0x4D, 0x4B] 2, EvSlot Slot_opened 0,
       EvSetCipher ''aes'' ''xts-plain64'', EvSetKey [0x4D, 0x4B] 2])"
  by code_simp

lemma demo_unlock_interactive:
  "luks2_recover_key (demo_env (demo_root [(''0'', demo_keyslot ''2'' ''1'')]) [0x70, 0x77])
      (demo_volume LUKS_MAGIC_1ST [0, 0, 0, 0, 0, 0, 0, 1] [0, 0, 0, 0, 0, 0, 0, 1] demo_json_bytes)
      crypt0 None None 0 e0
   = (GRUB_ERR_NONE,
      \<lparr>offset_sectors = 64, total_sectors = 960, log_sector_size = 9,
       cd_cipher = Some (''aes'', ''xts-plain64''), cd_key = [0x4D, 0x4B], cd_uuid = []\<rparr>,
      e0, [0x70, 0x77] @ replicate (MAX_PASSPHRASE - length [0x70 :: byte, 0x77]) 0,
      [EvDiskRead 0 4096, EvDiskRead 4104 4096, EvZalloc 8, EvDiskRead 4096 8,
       EvJsonParse [0x7B, 0x7D, 0, 0, 0, 0, 0, 0] 4104, EvPasswordGet,
       EvSlot Trying 0,
       EvPbkdf2 ([0x70, 0x77] @ replicate (MAX_PASSPHRASE - length [0x70 :: byte, 0x77]) 0) 2,
       EvSetCipher ''aes'' ''xts-plain64'',
       EvSetKey [0x70, 0x77] 2, EvMalloc 4, EvDiskRead 32768 4,
       EvDecrypt [0x3D, 0x3B, 0x99, 0x11] 4 0 9, EvAFMerge [0x4D, 0x4B, 0xE9, 0x61] 2 2,
       EvFree [0x4D, 0x4B, 0xE9, 0x61], EvPbkdf2 [0x4D, 0x4B] 2, EvSlot Slot_opened 0,
       EvSetCipher ''aes'' ''xts-plain64'', EvSetKey [0x4D, 0x4B] 2,
       EvFree [0x7B, 0x7D, 0, 0, 0, 0, 0, 0], EvJsonFree])"
proof -
  have z: "grub_zalloc (demo_env r p) n" and jp: "json_parse (demo_env r p) b l = Some r" for r p n b l
    by (simp_all add: demo_env_def env.defs)
  show ?thesis
    unfolding luks2_recover_key_def
    by (simp add: demo_read_header demo_header_fields z jp demo_json_read
          demo_password_get demo_strlen demo_slots_padded sizeof_header_def Let_def
          del: append.simps length_Cons list.size)
       (simp add: demo_json_bytes_def)
qed



lemma demo_area_malloc:
  "grub_malloc (demo_env (demo_root [(''0'', demo_keyslot ''2'' ''1'')]) [0x70, 0x77]) (area_size (keyslot_of (v_keyslot uninit_vars) (Value (demo_keyslot ''2'' ''1'')))) = Some (replicate 4 0)"
  by code_simp

lemma demo_area_read:
  "read_block (demo_volume LUKS_MAGIC_1ST [0, 0, 0, 0, 0, 0, 0, 1] [0, 0, 0, 0, 0, 0, 0, 1] demo_json_bytes) None (area_offset (keyslot_of (v_keyslot uninit_vars) (Value (demo_keyslot ''2'' ''1'')))) (area_size (keyslot_of (v_keyslot uninit_vars) (Value (demo_keyslot ''2'' ''1'')))) GRUB_ERR_NONE
     (replicate 4 0) (e0\<lparr>grub_errno := GRUB_ERR_NONE\<rparr>)
   = (GRUB_ERR_NONE, [0x3D, 0x3B, 0x99, 0x11], e0, [EvDiskRead 32768 4])"
  by code_simp

lemma demo_area_decrypt:
  "cryptodisk_decrypt (demo_env (demo_root [(''0'', demo_keyslot ''2'' ''1'')]) [0x70, 0x77]) (crypt0\<lparr>cd_key := [0x70, 0x77]\<rparr>) [0x3D, 0x3B, 0x99, 0x11]
     (area_size (keyslot_of (v_keyslot uninit_vars) (Value (demo_keyslot ''2'' ''1'')))) 0 LUKS_LOG_SECTOR_SIZE
   = (0, [0x4D, 0x4B, 0xE9, 0x61])"
  by code_simp

theorem unlock_buffers_not_cleared_witness:
  "grub_malloc (demo_env (demo_root [(''0'', demo_keyslot ''2'' ''1'')]) [0x70, 0x77]) (area_size (keyslot_of (v_keyslot uninit_vars) (Value (demo_keyslot ''2'' ''1'')))) = Some (replicate 4 0)
   \<and> last (snd (snd (snd (snd (luks2_decrypt_key_area (demo_env (demo_root [(''0'', demo_keyslot ''2'' ''1'')]) [0x70, 0x77]) [] (demo_volume LUKS_MAGIC_1ST [0, 0, 0, 0, 0, 0, 0, 1] [0, 0, 0, 0, 0, 0, 0, 1] demo_json_bytes)
               (crypt0\<lparr>cd_key := [0x70, 0x77]\<rparr>) None (keyslot_of (v_keyslot uninit_vars) (Value (demo_keyslot ''2'' ''1''))) GRUB_ERR_NONE e0 [])))))
     = EvFree [0x4D, 0x4B, 0xE9, 0x61]
   \<and> EvPasswordGet \<in> set (snd (snd (snd (snd (luks2_recover_key (demo_env (demo_root [(''0'', demo_keyslot ''2'' ''1'')]) [0x70, 0x77]) (demo_volume LUKS_MAGIC_1ST [0, 0, 0, 0, 0, 0, 0, 1] [0, 0, 0, 0, 0, 0, 0, 1] demo_json_bytes) crypt0 None None 0 e0)))))
   \<and> fst (snd (snd (snd (luks2_recover_key (demo_env (demo_root [(''0'', demo_keyslot ''2'' ''1'')]) [0x70, 0x77]) (demo_volume LUKS_MAGIC_1ST [0, 0, 0, 0, 0, 0, 0, 1] [0, 0, 0, 0, 0, 0, 0, 1] demo_json_bytes) crypt0 None None 0 e0))))
     = [0x70, 0x77] @ replicate 254 0"
proof -
  note t = unlock_buffers_not_cleared [where env = "demo_env (demo_root [(''0'', demo_keyslot ''2'' ''1'')]) [0x70, 0x77]" and k = "keyslot_of (v_keyslot uninit_vars) (Value (demo_keyslot ''2'' ''1''))" and source = "demo_volume LUKS_MAGIC_1ST [0, 0, 0, 0, 0, 0, 0, 1] [0, 0, 0, 0, 0, 0, 0, 1] demo_json_bytes"
          and hdr_file = None and ret = GRUB_ERR_NONE and e = e0
          and crypt = "crypt0\<lparr>cd_key := [0x70, 0x77]\<rparr>" and out_key = "[]" and ?evs0.0 = "[]"
          and source' = "demo_volume LUKS_MAGIC_1ST [0, 0, 0, 0, 0, 0, 0, 1] [0, 0, 0, 0, 0, 0, 0, 1] demo_json_bytes" and crypt' = crypt0 and hdr_file' = None and keyfile_size = 0
          and e' = e0]
  from t [THEN conjunct1, rule_format, OF demo_area_malloc refl]
  have a: "last (snd (snd (snd (snd (luks2_decrypt_key_area (demo_env (demo_root [(''0'', demo_keyslot ''2'' ''1'')]) [0x70, 0x77]) [] (demo_volume LUKS_MAGIC_1ST [0, 0, 0, 0, 0, 0, 0, 1] [0, 0, 0, 0, 0, 0, 0, 1] demo_json_bytes)
               (crypt0\<lparr>cd_key := [0x70, 0x77]\<rparr>) None (keyslot_of (v_keyslot uninit_vars) (Value (demo_keyslot ''2'' ''1''))) GRUB_ERR_NONE e0 [])))))
     = EvFree [0x4D, 0x4B, 0xE9, 0x61]"
    by (simp add: demo_area_read demo_area_decrypt)
  from t [THEN conjunct2]
  have b: "fst (snd (snd (snd (luks2_recover_key (demo_env (demo_root [(''0'', demo_keyslot ''2'' ''1'')]) [0x70, 0x77]) (demo_volume LUKS_MAGIC_1ST [0, 0, 0, 0, 0, 0, 0, 1] [0, 0, 0, 0, 0, 0, 0, 1] demo_json_bytes) crypt0 None None 0 e0))))
     = [0x70, 0x77] @ replicate 254 0"
    by (simp add: demo_unlock_interactive demo_password_get MAX_PASSPHRASE_def)
  from a b show ?thesis
    by (simp add: demo_area_malloc demo_unlock_interactive)
qed

text \<open>
  Claim C9, as the spec states it, fails: in an interactive unlock of the demonstration
  volume the split-key buffer is handed to \<^verbatim>\<open>grub_free\<close> holding the decrypted key
  material, and the passphrase buffer still holds the passphrase when the function returns.
\<close>

theorem unlock_leaves_secrets_counterexample:
  "EvFree [0x4D, 0x4B, 0xE9, 0x61]
     \<in> set (snd (snd (snd (snd (luks2_recover_key (demo_env (demo_root [(''0'', demo_keyslot ''2'' ''1'')]) [0x70, 0x77]) (demo_volume LUKS_MAGIC_1ST [0, 0, 0, 0, 0, 0, 0, 1] [0, 0, 0, 0, 0, 0, 0, 1] demo_json_bytes) crypt0 None None 0 e0)))))
   \<and> take 2 (fst (snd (snd (snd (luks2_recover_key (demo_env (demo_root [(''0'', demo_keyslot ''2'' ''1'')]) [0x70, 0x77]) (demo_volume LUKS_MAGIC_1ST [0, 0, 0, 0, 0, 0, 0, 1] [0, 0, 0, 0, 0, 0, 0, 1] demo_json_bytes) crypt0 None None 0 e0)))))
     = [0x70, 0x77]
   \<and> fst (luks2_recover_key (demo_env (demo_root [(''0'', demo_keyslot ''2'' ''1'')]) [0x70, 0x77]) (demo_volume LUKS_MAGIC_1ST [0, 0, 0, 0, 0, 0, 0, 1] [0, 0, 0, 0, 0, 0, 0, 1] demo_json_bytes) crypt0 None None 0 e0) = GRUB_ERR_NONE"
  by (simp add: demo_unlock_interactive)

section \<open>When no keyslot opens\<close>

lemma try_keyslot_outcome:
  assumes "luks2_try_keyslot env source hdr_file root pass plen i (v, crypt, e)
             = (b, (v', crypt', e'), evs)"
  shows "(b \<longrightarrow> EvSlot Slot_opened i \<in> set evs)
         \<and> (\<not> b \<longrightarrow> v_candidate_key_len v' = v_candidate_key_len v)
         \<and> (EvSlot Trying i \<notin> set evs \<longrightarrow> crypt' = crypt)"
proof -
  obtain ret k d s e1 where g:
    "luks2_get_keyslot (v_keyslot v) (v_digest v) (v_segment v) root i e = (ret, k, d, s, e1)"
    by (cases "luks2_get_keyslot (v_keyslot v) (v_digest v) (v_segment v) root i e") auto
  obtain ret1 ck crypt1 e2 ev2 where dk:
    "luks2_decrypt_key env (v_candidate_key v) source (set_up_disk env source s crypt) hdr_file k
       pass plen e1 = (ret1, ck, crypt1, e2, ev2)"
    by (cases "luks2_decrypt_key env (v_candidate_key v) source (set_up_disk env source s crypt)
       hdr_file k pass plen e1") auto
  obtain ret2 e3 ev3 where vk: "luks2_verify_key env d ck (ks_key_size k) e2 = (ret2, e3, ev3)"
    by (cases "luks2_verify_key env d ck (ks_key_size k) e2") auto
  from assms g dk vk show ?thesis
    by (auto simp: luks2_try_keyslot_def Let_def split: if_splits)
qed

lemma try_keyslots_no_success:
  "luks2_try_keyslots env source hdr_file root pass plen i n (v, crypt, e)
     = ((v', crypt', e'), evs)
   \<Longrightarrow> \<forall>j. EvSlot Slot_opened j \<notin> set evs
   \<Longrightarrow> v_candidate_key_len v' = v_candidate_key_len v
       \<and> ((\<forall>j. EvSlot Trying j \<notin> set evs) \<longrightarrow> crypt' = crypt)"
proof (induction n arbitrary: i v crypt e v' crypt' e' evs)
  case 0
  then show ?case by simp
next
  case (Suc n)
  obtain b v1 crypt1 e1 ev1 where t:
    "luks2_try_keyslot env source hdr_file root pass plen i (v, crypt, e)
       = (b, (v1, crypt1, e1), ev1)"
    by (cases "luks2_try_keyslot env source hdr_file root pass plen i (v, crypt, e)") auto
  obtain v2 crypt2 e2 ev2 where l:
    "luks2_try_keyslots env source hdr_file root pass plen (Suc i) n (v1, crypt1, e1)
       = ((v2, crypt2, e2), ev2)"
    by (cases "luks2_try_keyslots env source hdr_file root pass plen (Suc i) n (v1, crypt1, e1)")
       auto
  note o = try_keyslot_outcome [OF t]
  show ?case
  proof (cases b)
    case True
    with Suc.prems t o show ?thesis by auto
  next
    case False
    with Suc.prems t l have ev: "evs = ev1 @ ev2" and st: "v' = v2" "crypt' = crypt2"
      by auto
    from Suc.prems(2) ev have no2: "\<forall>j. EvSlot Slot_opened j \<notin> set ev2" by auto
    from Suc.IH [OF l no2] o False ev st show ?thesis by auto
  qed
qed

text \<open>
  Claim C5, as the code has it. When the metadata has been read and parsed, the passphrase
  is there (a key file, or a prompt that succeeded), the keyslots have been counted and no
  iteration of the trial loop opens a slot, \<^verbatim>\<open>luks2_recover_key\<close> returns
  \<^verbatim>\<open>GRUB_ERR_ACCESS_DENIED\<close> with the message \<^verbatim>\<open>Invalid passphrase\<close>, and the crypto disk
  is the one the trial loop left. If no keyslot got as far as being tried, that is the
  crypto disk the attempt started with.
\<close>

theorem recover_key_no_slot_opens:
  assumes h: "luks2_read_header source hdr_file [] e = (GRUB_ERR_NONE, header, e1, ev1)"
      and z: "grub_zalloc env (grub_be_to_cpu64 (hdr_hdr_size header) - sizeof_header)"
      and r: "read_block source hdr_file (grub_be_to_cpu64 (hdr_hdr_offset header) + sizeof_header)
                (grub_be_to_cpu64 (hdr_hdr_size header) - sizeof_header) GRUB_ERR_NONE
                (replicate (unat (grub_be_to_cpu64 (hdr_hdr_size header) - sizeof_header)) 0) e1
              = (GRUB_ERR_NONE, json_header, e2, ev2)"
      and n: "0 \<in> set (take (unat (grub_be_to_cpu64 (hdr_hdr_size header) - sizeof_header))
                          json_header)"
      and j: "json_parse env json_header (grub_be_to_cpu64 (hdr_hdr_size header)) = Some root"
      and pw: "key = Some pass \<and> plen = keyfile_size
               \<or> key = None \<and> password_get env = (True, pass) \<and> plen = grub_strlen pass"
      and ks: "grub_json_getvalue (Value root) ''keyslots'' = Some keyslots"
      and sz: "grub_json_getsize keyslots = Some sz"
      and loop: "luks2_try_keyslots env source hdr_file (Value root) pass plen 0 sz
                   (uninit_vars, crypt, e2) = ((v, crypt1, e3), ev3)"
      and no: "\<forall>i. EvSlot Slot_opened i \<notin> set ev3"
  shows "fst (luks2_recover_key env source crypt hdr_file key keyfile_size e)
           = GRUB_ERR_ACCESS_DENIED
         \<and> fst (snd (snd (luks2_recover_key env source crypt hdr_file key keyfile_size e)))
           = e3\<lparr>grub_errno := GRUB_ERR_ACCESS_DENIED, grub_errmsg := ''Invalid passphrase''\<rparr>
         \<and> fst (snd (luks2_recover_key env source crypt hdr_file key keyfile_size e)) = crypt1
         \<and> ((\<forall>i. EvSlot Trying i \<notin> set ev3) \<longrightarrow> crypt1 = crypt)"
proof -
  note ns = try_keyslots_no_success [OF loop no]
  have len: "v_candidate_key_len v = 0"
    using ns by (simp add: uninit_vars_def)
  have slots: "luks2_recover_key_slots env source crypt hdr_file (Value root) pass plen e2
                 = (GRUB_ERR_ACCESS_DENIED, True, crypt1,
                    e3\<lparr>grub_errno := GRUB_ERR_ACCESS_DENIED, grub_errmsg := ''Invalid passphrase''\<rparr>,
                    ev3)"
    by (simp add: luks2_recover_key_slots_def ks sz loop len grub_error_def)
  from pw show ?thesis
  proof (elim disjE conjE)
    assume "key = Some pass" "plen = keyfile_size"
    with h z r n j slots ns show ?thesis
      by (simp add: luks2_recover_key_def Let_def)
  next
    assume "key = None" "password_get env = (True, pass)" "plen = grub_strlen pass"
    with h z r n j slots ns show ?thesis
      by (simp add: luks2_recover_key_def Let_def)
  qed
qed

lemma demo_loop_wrong:
  "luks2_try_keyslots (demo_env (demo_root [(''0'', demo_keyslot ''2'' ''1'')]) [0x70, 0x77]) (demo_volume LUKS_MAGIC_1ST [0, 0, 0, 0, 0, 0, 0, 1] [0, 0, 0, 0, 0, 0, 0, 1] demo_json_bytes) None (Value (demo_root [(''0'', demo_keyslot ''2'' ''1'')]))
      [0x78, 0x77] 2 0 1 (uninit_vars, crypt0, e0)
   = ((\<lparr>v_keyslot = (keyslot_of (v_keyslot uninit_vars) (Value (demo_keyslot ''2'' ''1''))),
        v_digest = digest_of (Value (demo_digest [JString ''0'', JString ''1''])),
        v_segment = segment_of (Value demo_segment),
        v_candidate_key = [0x45, 0x43], v_candidate_key_len = 0\<rparr>,
       \<lparr>offset_sectors = 64, total_sectors = 960, log_sector_size = 9,
        cd_cipher = Some (''aes'', ''xts-plain64''), cd_key = [0x78, 0x77], cd_uuid = []\<rparr>,
       \<lparr>grub_errno = GRUB_ERR_ACCESS_DENIED, grub_errmsg = ''Mismatching digests''\<rparr>),
      [EvSlot Trying 0, EvPbkdf2 [0x78, 0x77] 2, EvSetCipher ''aes'' ''xts-plain64'',
       EvSetKey [0x78, 0x77] 2, EvMalloc 4, EvDiskRead 32768 4,
       EvDecrypt [0x3D, 0x3B, 0x99, 0x11] 4 0 9, EvAFMerge [0x45, 0x43, 0xE1, 0x69] 2 2,
       EvFree [0x45, 0x43, 0xE1, 0x69], EvPbkdf2 [0x45, 0x43] 2, EvSlot Could_not_open 0])"
  by code_simp

lemma demo_keyslots:
  "grub_json_getvalue (Value (demo_root ks)) ''keyslots'' = Some (Value (JObject ks))"
  "grub_json_getsize (Value (JObject ks)) = Some (length ks)"
  by (simp_all add: grub_json_getvalue_def demo_root_def)

lemma demo_loop_ignored:
  "luks2_try_keyslots (demo_env (demo_root [(''0'', demo_keyslot ''2'' ''0'')]) []) (demo_volume LUKS_MAGIC_1ST [0, 0, 0, 0, 0, 0, 0, 1] [0, 0, 0, 0, 0, 0, 0, 1] demo_json_bytes) None (Value (demo_root [(''0'', demo_keyslot ''2'' ''0'')]))
      [0x70, 0x77] 2 0 1 (uninit_vars, crypt0, e0)
   = ((uninit_vars\<lparr>v_keyslot := (keyslot_of (v_keyslot uninit_vars)
                                   (Value (demo_keyslot ''2'' ''0''))),
                    v_digest := digest_of (Value (demo_digest [JString ''0'', JString ''1''])),
                    v_segment := segment_of (Value demo_segment)\<rparr>,
       crypt0, e0),
      [EvSlot Ignoring 0])"
  by code_simp

theorem recover_key_no_slot_opens_witness:
  "fst (luks2_recover_key (demo_env (demo_root [(''0'', demo_keyslot ''2'' ''1'')]) [0x70, 0x77]) (demo_volume LUKS_MAGIC_1ST [0, 0, 0, 0, 0, 0, 0, 1] [0, 0, 0, 0, 0, 0, 0, 1] demo_json_bytes) crypt0 None (Some [0x78, 0x77]) 2 e0) = GRUB_ERR_ACCESS_DENIED
   \<and> fst (snd (snd (luks2_recover_key (demo_env (demo_root [(''0'', demo_keyslot ''2'' ''1'')]) [0x70, 0x77]) (demo_volume LUKS_MAGIC_1ST [0, 0, 0, 0, 0, 0, 0, 1] [0, 0, 0, 0, 0, 0, 0, 1] demo_json_bytes) crypt0 None (Some [0x78, 0x77]) 2 e0)))
     = \<lparr>grub_errno = GRUB_ERR_ACCESS_DENIED, grub_errmsg = ''Invalid passphrase''\<rparr>
   \<and> fst (snd (luks2_recover_key (demo_env (demo_root [(''0'', demo_keyslot ''2'' ''1'')]) [0x70, 0x77]) (demo_volume LUKS_MAGIC_1ST [0, 0, 0, 0, 0, 0, 0, 1] [0, 0, 0, 0, 0, 0, 0, 1] demo_json_bytes) crypt0 None (Some [0x78, 0x77]) 2 e0))
     = \<lparr>offset_sectors = 64, total_sectors = 960, log_sector_size = 9,
        cd_cipher = Some (''aes'', ''xts-plain64''), cd_key = [0x78, 0x77], cd_uuid = []\<rparr>
   \<and> EvSlot Trying 0 \<in> set [EvSlot Trying 0, EvPbkdf2 [0x78, 0x77] 2]
   \<and> fst (luks2_recover_key (demo_env (demo_root [(''0'', demo_keyslot ''2'' ''0'')]) []) (demo_volume LUKS_MAGIC_1ST [0, 0, 0, 0, 0, 0, 0, 1] [0, 0, 0, 0, 0, 0, 0, 1] demo_json_bytes) crypt0 None (Some [0x70, 0x77]) 2 e0)
     = GRUB_ERR_ACCESS_DENIED
   \<and> fst (snd (luks2_recover_key (demo_env (demo_root [(''0'', demo_keyslot ''2'' ''0'')]) []) (demo_volume LUKS_MAGIC_1ST [0, 0, 0, 0, 0, 0, 0, 1] [0, 0, 0, 0, 0, 0, 0, 1] demo_json_bytes) crypt0 None (Some [0x70, 0x77]) 2 e0)) = crypt0"
proof -
  have z: "grub_zalloc (demo_env (demo_root [(''0'', demo_keyslot ''2'' ''1'')]) [0x70, 0x77]) (4104 - sizeof_header)"
    by (simp add: demo_env_def env.defs)
  have jp: "json_parse (demo_env (demo_root [(''0'', demo_keyslot ''2'' ''1'')]) [0x70, 0x77]) demo_json_bytes 4104 = Some (demo_root [(''0'', demo_keyslot ''2'' ''1'')])"
    by (simp add: demo_env_def env.defs)
  have rb: "read_block (demo_volume LUKS_MAGIC_1ST [0, 0, 0, 0, 0, 0, 0, 1] [0, 0, 0, 0, 0, 0, 0, 1] demo_json_bytes) None (0 + sizeof_header) (4104 - sizeof_header) GRUB_ERR_NONE
              (replicate (unat (4104 - sizeof_header :: u64)) 0) e0
            = (GRUB_ERR_NONE, demo_json_bytes, e0, [EvDiskRead 4096 8])"
    using demo_json_read by (simp add: sizeof_header_def)
  have n: "0 \<in> set (take (unat (4104 - sizeof_header :: u64)) demo_json_bytes)"
    by (simp add: sizeof_header_def demo_json_bytes_def)
  have no: "\<forall>i. EvSlot Slot_opened i
      \<notin> set [EvSlot Trying 0, EvPbkdf2 [0x78, 0x77] 2, EvSetCipher ''aes'' ''xts-plain64'',
       EvSetKey [0x78, 0x77] 2, EvMalloc 4, EvDiskRead 32768 4,
       EvDecrypt [0x3D, 0x3B, 0x99, 0x11] 4 0 9, EvAFMerge [0x45, 0x43, 0xE1, 0x69] 2 2,
       EvFree [0x45, 0x43, 0xE1, 0x69], EvPbkdf2 [0x45, 0x43] 2, EvSlot Could_not_open 0]"
    by simp
  have first: "fst (luks2_recover_key (demo_env (demo_root [(''0'', demo_keyslot ''2'' ''1'')]) [0x70, 0x77]) (demo_volume LUKS_MAGIC_1ST [0, 0, 0, 0, 0, 0, 0, 1] [0, 0, 0, 0, 0, 0, 0, 1] demo_json_bytes) crypt0 None (Some [0x78, 0x77]) 2 e0) = GRUB_ERR_ACCESS_DENIED
       \<and> fst (snd (snd (luks2_recover_key (demo_env (demo_root [(''0'', demo_keyslot ''2'' ''1'')]) [0x70, 0x77]) (demo_volume LUKS_MAGIC_1ST [0, 0, 0, 0, 0, 0, 0, 1] [0, 0, 0, 0, 0, 0, 0, 1] demo_json_bytes) crypt0 None (Some [0x78, 0x77]) 2 e0)))
         = \<lparr>grub_errno = GRUB_ERR_ACCESS_DENIED, grub_errmsg = ''Invalid passphrase''\<rparr>
       \<and> fst (snd (luks2_recover_key (demo_env (demo_root [(''0'', demo_keyslot ''2'' ''1'')]) [0x70, 0x77]) (demo_volume LUKS_MAGIC_1ST [0, 0, 0, 0, 0, 0, 0, 1] [0, 0, 0, 0, 0, 0, 0, 1] demo_json_bytes) crypt0 None (Some [0x78, 0x77]) 2 e0))
         = \<lparr>offset_sectors = 64, total_sectors = 960, log_sector_size = 9,
            cd_cipher = Some (''aes'', ''xts-plain64''), cd_key = [0x78, 0x77], cd_uuid = []\<rparr>
       \<and> EvSlot Trying 0 \<in> set [EvSlot Trying 0, EvPbkdf2 [0x78, 0x77] 2]"
    using recover_key_no_slot_opens [OF demo_read_header, where env = "demo_env (demo_root [(''0'', demo_keyslot ''2'' ''1'')]) [0x70, 0x77]"
            and json_header = demo_json_bytes and ?e2.0 = e0 and ?ev2.0 = "[EvDiskRead 4096 8]"
            and root = "demo_root [(''0'', demo_keyslot ''2'' ''1'')]"
            and key = "Some [0x78, 0x77]" and pass = "[0x78, 0x77]" and plen = 2
            and keyfile_size = 2 and keyslots = "Value (JObject [(''0'', demo_keyslot ''2'' ''1'')])"
            and sz = 1 and crypt = crypt0, OF _ _ _ _ _ _ _ demo_loop_wrong [simplified One_nat_def [symmetric]] no]
          z jp rb n
    by (simp add: demo_header_fields demo_keyslots e0_def)
  have z2: "grub_zalloc (demo_env (demo_root [(''0'', demo_keyslot ''2'' ''0'')]) []) (4104 - sizeof_header)"
    by (simp add: demo_env_def env.defs)
  have jp2: "json_parse (demo_env (demo_root [(''0'', demo_keyslot ''2'' ''0'')]) []) demo_json_bytes 4104 = Some (demo_root [(''0'', demo_keyslot ''2'' ''0'')])"
    by (simp add: demo_env_def env.defs)
  have no2: "\<forall>i. EvSlot Slot_opened i \<notin> set [EvSlot Ignoring 0]"
    by simp
  have nt2: "\<forall>i. EvSlot Trying i \<notin> set [EvSlot Ignoring 0]"
    by simp
  have second: "fst (luks2_recover_key (demo_env (demo_root [(''0'', demo_keyslot ''2'' ''0'')]) []) (demo_volume LUKS_MAGIC_1ST [0, 0, 0, 0, 0, 0, 0, 1] [0, 0, 0, 0, 0, 0, 0, 1] demo_json_bytes) crypt0 None (Some [0x70, 0x77]) 2 e0)
     = GRUB_ERR_ACCESS_DENIED
   \<and> fst (snd (luks2_recover_key (demo_env (demo_root [(''0'', demo_keyslot ''2'' ''0'')]) []) (demo_volume LUKS_MAGIC_1ST [0, 0, 0, 0, 0, 0, 0, 1] [0, 0, 0, 0, 0, 0, 0, 1] demo_json_bytes) crypt0 None (Some [0x70, 0x77]) 2 e0)) = crypt0"
    using recover_key_no_slot_opens [OF demo_read_header, where env = "demo_env (demo_root [(''0'', demo_keyslot ''2'' ''0'')]) []"
            and json_header = demo_json_bytes and ?e2.0 = e0 and ?ev2.0 = "[EvDiskRead 4096 8]"
            and root = "demo_root [(''0'', demo_keyslot ''2'' ''0'')]"
            and key = "Some [0x70, 0x77]" and pass = "[0x70, 0x77]" and plen = 2
            and keyfile_size = 2 and keyslots = "Value (JObject [(''0'', demo_keyslot ''2'' ''0'')])"
            and sz = 1 and crypt = crypt0, OF _ _ _ _ _ _ _ demo_loop_ignored [simplified One_nat_def [symmetric]] no2]
          z2 jp2 rb n nt2
    by (simp add: demo_header_fields demo_keyslots)
  from first second show ?thesis by simp
qed

text \<open>
  Claim C5, as the spec states it, fails in its second half: a wrong passphrase on the
  demonstration volume is refused with \<^verbatim>\<open>GRUB_ERR_ACCESS_DENIED\<close>, and the crypto disk, which
  had no cipher and no key before, is left with the cipher and the area key of the keyslot
  that was tried.
\<close>

theorem recover_key_denied_leaves_cipher_counterexample:
  "luks2_recover_key (demo_env (demo_root [(''0'', demo_keyslot ''2'' ''1'')]) [0x70, 0x77]) (demo_volume LUKS_MAGIC_1ST [0, 0, 0, 0, 0, 0, 0, 1] [0, 0, 0, 0, 0, 0, 0, 1] demo_json_bytes) crypt0 None (Some [0x78, 0x77]) 2 e0
   = (GRUB_ERR_ACCESS_DENIED,
      \<lparr>offset_sectors = 64, total_sectors = 960, log_sector_size = 9,
       cd_cipher = Some (''aes'', ''xts-plain64''), cd_key = [0x78, 0x77], cd_uuid = []\<rparr>,
      \<lparr>grub_errno = GRUB_ERR_ACCESS_DENIED, grub_errmsg = ''Invalid passphrase''\<rparr>,
      replicate 256 0,
      [EvDiskRead 0 4096, EvDiskRead 4104 4096, EvZalloc 8, EvDiskRead 4096 8,
       EvJsonParse [0x7B, 0x7D, 0, 0, 0, 0, 0, 0] 4104,
       EvSlot Trying 0, EvPbkdf2 [0x78, 0x77] 2, EvSetCipher ''aes'' ''xts-plain64'',
       EvSetKey [0x78, 0x77] 2, EvMalloc 4, EvDiskRead 32768 4,
       EvDecrypt [0x3D, 0x3B, 0x99, 0x11] 4 0 9, EvAFMerge [0x45, 0x43, 0xE1, 0x69] 2 2,
       EvFree [0x45, 0x43, 0xE1, 0x69], EvPbkdf2 [0x45, 0x43] 2, EvSlot Could_not_open 0,
       EvFree [0x7B, 0x7D, 0, 0, 0, 0, 0, 0], EvJsonFree])
   \<and> cd_cipher crypt0 = None \<and> cd_key crypt0 = []"
proof -
  have z: "grub_zalloc (demo_env r p) n" and jp: "json_parse (demo_env r p) b l = Some r" for r p n b l
    by (simp_all add: demo_env_def env.defs)
  have slots: "luks2_recover_key_slots (demo_env (demo_root [(''0'', demo_keyslot ''2'' ''1'')]) [0x70, 0x77]) (demo_volume LUKS_MAGIC_1ST [0, 0, 0, 0, 0, 0, 0, 1] [0, 0, 0, 0, 0, 0, 0, 1] demo_json_bytes) crypt0 None
                 (Value (demo_root [(''0'', demo_keyslot ''2'' ''1'')])) [0x78, 0x77] 2 e0
               = (GRUB_ERR_ACCESS_DENIED, True,
      \<lparr>offset_sectors = 64, total_sectors = 960, log_sector_size = 9,
       cd_cipher = Some (''aes'', ''xts-plain64''), cd_key = [0x78, 0x77], cd_uuid = []\<rparr>,
      \<lparr>grub_errno = GRUB_ERR_ACCESS_DENIED, grub_errmsg = ''Invalid passphrase''\<rparr>,
      [EvSlot Trying 0, EvPbkdf2 [0x78, 0x77] 2, EvSetCipher ''aes'' ''xts-plain64'',
       EvSetKey [0x78, 0x77] 2, EvMalloc 4, EvDiskRead 32768 4,
       EvDecrypt [0x3D, 0x3B, 0x99, 0x11] 4 0 9, EvAFMerge [0x45, 0x43, 0xE1, 0x69] 2 2,
       EvFree [0x45, 0x43, 0xE1, 0x69], EvPbkdf2 [0x45, 0x43] 2, EvSlot Could_not_open 0])"
    by code_simp
  show ?thesis
    by (simp add: luks2_recover_key_def demo_read_header demo_header_fields z jp demo_json_read
          slots sizeof_header_def MAX_PASSPHRASE_def Let_def)
       (simp add: demo_json_bytes_def crypt0_def)
qed

section \<open>The order of the trials\<close>



lemma slot_indices_no_slot: "\<forall>ev\<in>set evs. \<not> is_slot ev \<Longrightarrow> slot_indices evs = []"
  by (induction evs rule: slot_indices.induct) auto


















lemma demo_first_ignored:
  "luks2_try_keyslots (demo_env (demo_root []) []) (demo_volume LUKS_MAGIC_1ST [0, 0, 0, 0, 0, 0, 0, 1] [0, 0, 0, 0, 0, 0, 0, 1] demo_json_bytes) None (Value (demo_root_salted [(''0'', demo_keyslot ''2'' ''0''), (''1'', demo_keyslot ''2'' ''1''), (''2'', demo_keyslot ''3'' ''1'')])) [0x70, 0x77] 2 0 0 (uninit_vars, crypt0, e0)
     = ((uninit_vars, crypt0, e0), [])"
  "\<not> fst (luks2_try_keyslot (demo_env (demo_root []) []) (demo_volume LUKS_MAGIC_1ST [0, 0, 0, 0, 0, 0, 0, 1] [0, 0, 0, 0, 0, 0, 0, 1] demo_json_bytes) None (Value (demo_root_salted [(''0'', demo_keyslot ''2'' ''0''), (''1'', demo_keyslot ''2'' ''1''), (''2'', demo_keyslot ''3'' ''1'')])) [0x70, 0x77] 2 0 (uninit_vars, crypt0, e0))"
  by code_simp+






section \<open>A keyslot of priority 0\<close>

subsection \<open>What an iteration takes from the locals\<close>

lemma keyslot_of_clear: "clear_word2 (keyslot_of x j) = clear_word2 (keyslot_of y j)"
  by (simp add: clear_word2_def keyslot_of_def Let_def)

lemma clear_word2_fields:
  "ks_priority (clear_word2 k) = ks_priority k"
  "ks_key_size (clear_word2 k) = ks_key_size k"
  by (simp_all add: clear_word2_def)

lemma decrypt_key_area_word2:
  "luks2_decrypt_key_area env ok src c hf (clear_word2 k) r e evs
     = luks2_decrypt_key_area env ok src c hf k r e evs"
  by (simp add: luks2_decrypt_key_area_def clear_word2_def
        cong del: option.case_cong_weak prod.case_cong_weak if_weak_cong)

lemma decrypt_key_word2:
  "luks2_decrypt_key env ok src c hf (clear_word2 k) p n e
     = luks2_decrypt_key env ok src c hf k p n e"
  unfolding luks2_decrypt_key_def decrypt_key_area_word2
  by (simp add: clear_word2_def pbkdf2_hash_def pbkdf2_iterations_def
        cong del: option.case_cong_weak prod.case_cong_weak if_weak_cong
                  grub_luks2_kdf_type.case_cong_weak)

lemma find_digest_locals:
  "find_digest d ds kk i n e = (r, d1, e1) \<Longrightarrow> find_digest d' ds kk i n e' = (r', d1', e1')
   \<Longrightarrow> r = r' \<and> (e = e' \<longrightarrow> e1 = e1') \<and> (r = Scan_found \<longrightarrow> d1 = d1' \<and> e1 = e \<and> e1' = e')"
proof (induction n arbitrary: i d d' e e')
  case 0
  then show ?case by auto
next
  case (Suc n)
  show ?case
  proof (cases "keyed_child ds i")
    case None
    with Suc.prems show ?thesis by auto
  next
    case (Some a)
    obtain dk j where a: "a = (dk, j)" by (cases a)
    show ?thesis
    proof (cases "digest_ok j")
      case ok: True
      note p = parse_digest_ok [OF ok]
      show ?thesis
      proof (cases "dg_keyslots (digest_of j) AND shl_int_1 kk \<noteq> 0")
        case True
        with Suc.prems Some a p show ?thesis by simp
      next
        case False
        with Suc.prems Some a p
        have "find_digest (digest_of j) ds kk (Suc i) n e = (r, d1, e1)"
             "find_digest (digest_of j) ds kk (Suc i) n e' = (r', d1', e1')"
          by simp_all
        from Suc.IH [OF this] show ?thesis .
      qed
    next
      case False
      note b = parse_digest_bad [OF False]
      obtain q x y where p1: "luks2_parse_digest d j e = (q, x, y)"
        by (cases "luks2_parse_digest d j e") auto
      obtain q' x' y' where p2: "luks2_parse_digest d' j e' = (q', x', y')"
        by (cases "luks2_parse_digest d' j e'") auto
      from b [of d e d'] p1 have q: "q = GRUB_ERR_BAD_ARGUMENT"
        and y: "y = snd (snd (luks2_parse_digest d' j e))" by simp_all
      from b [of d' e' d'] p2 have q': "q' = GRUB_ERR_BAD_ARGUMENT" by simp
      from Suc.prems Some a p1 p2 q q' y show ?thesis by auto
    qed
  qed
qed

lemma find_segment_locals:
  "find_segment s d segs i n e = (r, s1, e1) \<Longrightarrow> find_segment s' d segs i n e' = (r', s1', e1')
   \<Longrightarrow> r = r' \<and> (e = e' \<longrightarrow> e1 = e1') \<and> (r = Scan_found \<longrightarrow> s1 = s1' \<and> e1 = e \<and> e1' = e')"
proof (induction n arbitrary: i s s' e e')
  case 0
  then show ?case by auto
next
  case (Suc n)
  show ?case
  proof (cases "keyed_child segs i")
    case None
    with Suc.prems show ?thesis by auto
  next
    case (Some a)
    obtain sk j where a: "a = (sk, j)" by (cases a)
    show ?thesis
    proof (cases "segment_ok j")
      case ok: True
      note p = parse_segment_ok [OF ok]
      show ?thesis
      proof (cases "dg_segments d AND shl_int_1 sk \<noteq> 0")
        case True
        with Suc.prems Some a p show ?thesis by simp
      next
        case False
        with Suc.prems Some a p
        have "find_segment (segment_of j) d segs (Suc i) n e = (r, s1, e1)"
             "find_segment (segment_of j) d segs (Suc i) n e' = (r', s1', e1')"
          by simp_all
        from Suc.IH [OF this] show ?thesis .
      qed
    next
      case False
      note b = parse_segment_bad [OF False]
      obtain q x y where p1: "luks2_parse_segment s j e = (q, x, y)"
        by (cases "luks2_parse_segment s j e") auto
      obtain q' x' y' where p2: "luks2_parse_segment s' j e' = (q', x', y')"
        by (cases "luks2_parse_segment s' j e'") auto
      from b [of s e s'] p1 have q: "q = GRUB_ERR_BAD_ARGUMENT"
        and y: "y = snd (snd (luks2_parse_segment s' j e))" by simp_all
      from b [of s' e' s'] p2 have q': "q' = GRUB_ERR_BAD_ARGUMENT" by simp
      from Suc.prems Some a p1 p2 q q' y show ?thesis by auto
    qed
  qed
qed

lemma get_keyslot_segment_locals:
  assumes "luks2_get_keyslot_segment k d s root e = (r, k1, d1, s1, e1)"
      and "luks2_get_keyslot_segment k' d s' root e' = (r', k1', d1', s1', e1')"
  shows "r = r' \<and> (e = e' \<longrightarrow> e1 = e1')
         \<and> (r = GRUB_ERR_NONE \<longrightarrow> k1 = k \<and> k1' = k' \<and> d1 = d \<and> d1' = d \<and> s1 = s1'
                                  \<and> e1 = e \<and> e1' = e')"
proof (cases "case grub_json_getvalue root ''segments'' of None \<Rightarrow> None
                | Some segments \<Rightarrow> map_option (\<lambda>n. (segments, n)) (grub_json_getsize segments)")
  case None
  with assms show ?thesis
    by (auto simp: luks2_get_keyslot_segment_def return_derror3_def luks2_derror_def grub_error_def
          split: option.splits)
next
  case (Some a)
  obtain segs sz where a: "a = (segs, sz)" by (cases a)
  with Some have g: "grub_json_getvalue root ''segments'' = Some segs"
      "grub_json_getsize segs = Some sz"
    by (auto split: option.splits)
  obtain q x y where f1: "find_segment s d segs 0 sz e = (q, x, y)"
    by (cases "find_segment s d segs 0 sz e") auto
  obtain q' x' y' where f2: "find_segment s' d segs 0 sz e' = (q', x', y')"
    by (cases "find_segment s' d segs 0 sz e'") auto
  note l = find_segment_locals [OF f1 f2]
  from assms g f1 f2 l show ?thesis
    by (cases q)
       (auto simp: luks2_get_keyslot_segment_def return_derror3_def luks2_derror_def grub_error_def)
qed

lemma get_keyslot_digest_locals:
  assumes "luks2_get_keyslot_digest k d s root kk e = (r, k1, d1, s1, e1)"
      and "luks2_get_keyslot_digest k' d' s' root kk e' = (r', k1', d1', s1', e1')"
  shows "r = r' \<and> (e = e' \<longrightarrow> e1 = e1')
         \<and> (r = GRUB_ERR_NONE \<longrightarrow> k1 = k \<and> k1' = k' \<and> d1 = d1' \<and> s1 = s1'
                                  \<and> e1 = e \<and> e1' = e')"
proof (cases "case grub_json_getvalue root ''digests'' of None \<Rightarrow> None
                | Some digests \<Rightarrow> map_option (\<lambda>n. (digests, n)) (grub_json_getsize digests)")
  case None
  with assms show ?thesis
    by (auto simp: luks2_get_keyslot_digest_def return_derror3_def luks2_derror_def grub_error_def
          split: option.splits)
next
  case (Some a)
  obtain ds sz where a: "a = (ds, sz)" by (cases a)
  with Some have g: "grub_json_getvalue root ''digests'' = Some ds"
      "grub_json_getsize ds = Some sz"
    by (auto split: option.splits)
  obtain q x y where f1: "find_digest d ds kk 0 sz e = (q, x, y)"
    by (cases "find_digest d ds kk 0 sz e") auto
  obtain q' x' y' where f2: "find_digest d' ds kk 0 sz e' = (q', x', y')"
    by (cases "find_digest d' ds kk 0 sz e'") auto
  note l = find_digest_locals [OF f1 f2]
  show ?thesis
  proof (cases q)
    case Scan_found
    with l have eq: "q' = Scan_found" "x' = x" "y = e" "y' = e'" by simp_all
    from assms g f1 f2 Scan_found eq
    have "luks2_get_keyslot_segment k x s root e = (r, k1, d1, s1, e1)"
         "luks2_get_keyslot_segment k' x s' root e' = (r', k1', d1', s1', e1')"
      by (simp_all add: luks2_get_keyslot_digest_def)
    from get_keyslot_segment_locals [OF this] show ?thesis by simp
  next
    case Scan_error
    with assms g f1 f2 l show ?thesis
      by (auto simp: luks2_get_keyslot_digest_def return_derror3_def luks2_derror_def grub_error_def)
  next
    case Scan_end
    with assms g f1 f2 l show ?thesis
      by (auto simp: luks2_get_keyslot_digest_def return_derror3_def luks2_derror_def grub_error_def)
  qed
qed

lemma get_keyslot_locals:
  assumes "luks2_get_keyslot k d s root i e = (r, k1, d1, s1, e1)"
      and "luks2_get_keyslot k' d' s' root i e' = (r', k1', d1', s1', e1')"
  shows "r = r' \<and> (e = e' \<longrightarrow> e1 = e1')
         \<and> (r = GRUB_ERR_NONE \<longrightarrow> clear_word2 k1 = clear_word2 k1' \<and> d1 = d1' \<and> s1 = s1'
                                  \<and> e1 = e \<and> e1' = e')"
proof (cases "case grub_json_getvalue root ''keyslots'' of None \<Rightarrow> None
                | Some keyslots \<Rightarrow> keyed_child keyslots i")
  case None
  with assms show ?thesis
    by (auto simp: luks2_get_keyslot_def return_derror3_def luks2_derror_def grub_error_def
          split: option.splits)
next
  case (Some a)
  obtain kk j where a: "a = (kk, j)" by (cases a)
  with Some obtain kss where g: "grub_json_getvalue root ''keyslots'' = Some kss"
      "keyed_child kss i = Some (kk, j)"
    by (auto split: option.splits)
  show ?thesis
  proof (cases "keyslot_ok j")
    case True
    note p = parse_keyslot_ok [OF True]
    from assms g p
    have "luks2_get_keyslot_digest (keyslot_of k j) d s root kk e = (r, k1, d1, s1, e1)"
         "luks2_get_keyslot_digest (keyslot_of k' j) d' s' root kk e' = (r', k1', d1', s1', e1')"
      by (simp_all add: luks2_get_keyslot_def)
    from get_keyslot_digest_locals [OF this] keyslot_of_clear [of k j k'] show ?thesis
      by auto
  next
    case False
    note b = parse_keyslot_bad [OF False]
    obtain q x y where p1: "luks2_parse_keyslot k j e = (q, x, y)"
      by (cases "luks2_parse_keyslot k j e") auto
    obtain q' x' y' where p2: "luks2_parse_keyslot k' j e' = (q', x', y')"
      by (cases "luks2_parse_keyslot k' j e'") auto
    from b [of k e k'] p1 have q: "q = GRUB_ERR_BAD_ARGUMENT"
      and y: "y = snd (snd (luks2_parse_keyslot k' j e))" by simp_all
    from b [of k' e' k'] p2 have q': "q' = GRUB_ERR_BAD_ARGUMENT" by simp
    from assms g p1 p2 q q' y show ?thesis
      by (auto simp: luks2_get_keyslot_def return_derror3_def luks2_derror_def grub_error_def)
  qed
qed


lemma try_keyslot_unfold:
  assumes "luks2_get_keyslot (v_keyslot v) (v_digest v) (v_segment v) root i e
             = (GRUB_ERR_NONE, k, d, s, ea)"
      and "luks2_decrypt_key env (v_candidate_key v) source (set_up_disk env source s crypt)
             hdr_file k pass plen ea = (ret1, ck, crypt1, e2, ev2)"
      and "luks2_verify_key env d ck (ks_key_size k) e2 = (ret2, e3, ev3)"
  shows "luks2_try_keyslot env source hdr_file root pass plen i (v, crypt, e)
        = (if ks_priority k = 0
           then (False, (v\<lparr>v_keyslot := k, v_digest := d, v_segment := s\<rparr>, crypt, ea),
                 [EvSlot Ignoring i])
           else if ret1 \<noteq> GRUB_ERR_NONE
           then (False, (v\<lparr>v_keyslot := k, v_digest := d, v_segment := s,
                           v_candidate_key := ck\<rparr>, crypt1, e2),
                 [EvSlot Trying i] @ ev2 @ [EvSlot Decryption_failed i])
           else if ret2 \<noteq> GRUB_ERR_NONE
           then (False, (v\<lparr>v_keyslot := k, v_digest := d, v_segment := s,
                           v_candidate_key := ck\<rparr>, crypt1, e3),
                 [EvSlot Trying i] @ ev2 @ ev3 @ [EvSlot Could_not_open i])
           else (True, (v\<lparr>v_keyslot := k, v_digest := d, v_segment := s,
                          v_candidate_key := ck, v_candidate_key_len := ks_key_size k\<rparr>,
                        crypt1, e3),
                 [EvSlot Trying i] @ ev2 @ ev3 @ [EvSlot Slot_opened i]))"
  using assms
  by (simp add: luks2_try_keyslot_def Let_def cong del: if_weak_cong)

lemma try_keyslot_locals:
  assumes t1: "luks2_try_keyslot env source hdr_file root pass plen i (v, crypt, e)
                 = (b, (v1, c1, e1), ev)"
      and t2: "luks2_try_keyslot env source hdr_file root pass plen i (v', crypt, e)
                 = (b', (v1', c1', e1'), ev')"
      and key: "v_candidate_key v = v_candidate_key v'"
      and len: "v_candidate_key_len v = v_candidate_key_len v'"
  shows "b = b' \<and> c1 = c1' \<and> e1 = e1' \<and> ev = ev'
         \<and> v_candidate_key v1 = v_candidate_key v1'
         \<and> v_candidate_key_len v1 = v_candidate_key_len v1'
         \<and> (b \<longrightarrow> v_segment v1 = v_segment v1')"
proof -
  obtain r k d s ea where g1:
    "luks2_get_keyslot (v_keyslot v) (v_digest v) (v_segment v) root i e = (r, k, d, s, ea)"
    by (cases "luks2_get_keyslot (v_keyslot v) (v_digest v) (v_segment v) root i e") auto
  obtain r' k' d' s' ea' where g2:
    "luks2_get_keyslot (v_keyslot v') (v_digest v') (v_segment v') root i e = (r', k', d', s', ea')"
    by (cases "luks2_get_keyslot (v_keyslot v') (v_digest v') (v_segment v') root i e") auto
  note l = get_keyslot_locals [OF g1 g2]
  from l have r: "r' = r" and ea: "ea' = ea" by simp_all
  show ?thesis
  proof (cases "r = GRUB_ERR_NONE")
    case False
    with t1 t2 g1 g2 r ea key len show ?thesis
      by (auto simp: luks2_try_keyslot_def)
  next
    case True
    with l have c: "clear_word2 k = clear_word2 k'" and d: "d' = d" and s: "s' = s" by simp_all
    from c have pr: "ks_priority k' = ks_priority k" and sz: "ks_key_size k' = ks_key_size k"
      using clear_word2_fields [of k] clear_word2_fields [of k'] by simp_all
    have dk: "luks2_decrypt_key env ok source cr hdr_file k' pass plen ea
                = luks2_decrypt_key env ok source cr hdr_file k pass plen ea" for ok cr
      using decrypt_key_word2 [of env ok source cr hdr_file k pass plen ea]
            decrypt_key_word2 [of env ok source cr hdr_file k' pass plen ea] c
      by simp
    obtain ret1 ck crypt1 e2 ev2 where dk1:
      "luks2_decrypt_key env (v_candidate_key v) source (set_up_disk env source s crypt) hdr_file k
         pass plen ea = (ret1, ck, crypt1, e2, ev2)"
      by (cases "luks2_decrypt_key env (v_candidate_key v) source (set_up_disk env source s crypt)
         hdr_file k pass plen ea") auto
    obtain ret2 e3 ev3 where vk: "luks2_verify_key env d ck (ks_key_size k) e2 = (ret2, e3, ev3)"
      by (cases "luks2_verify_key env d ck (ks_key_size k) e2") auto
    from g1 True have g1': "luks2_get_keyslot (v_keyslot v) (v_digest v) (v_segment v) root i e
             = (GRUB_ERR_NONE, k, d, s, ea)" by simp
    from g2 r ea True d s
    have g2': "luks2_get_keyslot (v_keyslot v') (v_digest v') (v_segment v') root i e
             = (GRUB_ERR_NONE, k', d, s, ea)" by simp
    from dk1 key dk
    have dk2: "luks2_decrypt_key env (v_candidate_key v') source (set_up_disk env source s crypt)
         hdr_file k' pass plen ea = (ret1, ck, crypt1, e2, ev2)" by simp
    from vk sz have vk2: "luks2_verify_key env d ck (ks_key_size k') e2 = (ret2, e3, ev3)" by simp
    note a1 = t1 [unfolded try_keyslot_unfold [OF g1' dk1 vk]]
    note a2 = t2 [unfolded try_keyslot_unfold [OF g2' dk2 vk2]]
    from a1 a2 key len pr sz show ?thesis
      by (auto split: if_splits)
  qed
qed

lemma try_keyslot_ignored:
  assumes g: "fst (luks2_get_keyslot k0 d0 s0 root p ea) = GRUB_ERR_NONE"
      and z: "ks_priority (fst (snd (luks2_get_keyslot k0 d0 s0 root p ea))) = 0"
  shows "\<exists>v1. luks2_try_keyslot env source hdr_file root pass plen p (v, crypt, e)
                 = (False, (v1, crypt, e), [EvSlot Ignoring p])
              \<and> v_candidate_key v1 = v_candidate_key v
              \<and> v_candidate_key_len v1 = v_candidate_key_len v"
proof -
  obtain r0 k0' d0' s0' ea' where g0:
    "luks2_get_keyslot k0 d0 s0 root p ea = (r0, k0', d0', s0', ea')"
    by (cases "luks2_get_keyslot k0 d0 s0 root p ea") auto
  obtain r k d s e1 where g1:
    "luks2_get_keyslot (v_keyslot v) (v_digest v) (v_segment v) root p e = (r, k, d, s, e1)"
    by (cases "luks2_get_keyslot (v_keyslot v) (v_digest v) (v_segment v) root p e") auto
  note l = get_keyslot_locals [OF g0 g1]
  from g g0 l have r: "r = GRUB_ERR_NONE" and c: "clear_word2 k0' = clear_word2 k" and e1: "e1 = e"
    by simp_all
  from c z g0 have pr: "ks_priority k = 0"
    using clear_word2_fields [of k] clear_word2_fields [of k0'] by simp
  from g1 r e1 pr show ?thesis
    by (simp add: luks2_try_keyslot_def)
qed

subsection \<open>The document without the entry\<close>

lemma map_of_without:
  "map_of (map (\<lambda>kv. if fst kv = ''keyslots'' then (fst kv, drop_member p (snd kv)) else kv) kvs) key
     = (if key = ''keyslots'' then map_option (drop_member p) (map_of kvs key) else map_of kvs key)"
  by (induction kvs) auto

lemma getvalue_without_other:
  "key \<noteq> ''keyslots'' \<Longrightarrow>
   grub_json_getvalue (Value (without_keyslot p root)) key = grub_json_getvalue (Value root) key"
  by (cases root) (simp_all add: grub_json_getvalue_def without_keyslot_def map_of_without)

lemma getvalue_without_keyslots:
  "grub_json_getvalue (Value root) ''keyslots'' = Some (Value ks) \<Longrightarrow>
   grub_json_getvalue (Value (without_keyslot p root)) ''keyslots''
     = Some (Value (drop_member p ks))"
  by (cases root) (auto simp add: grub_json_getvalue_def without_keyslot_def map_of_without)

lemma getvalue_is_value:
  "grub_json_getvalue parent key = Some c \<Longrightarrow> \<exists>j. c = Value j"
  by (auto simp: grub_json_getvalue_def split: grub_json.splits json.splits)

lemma getchild_drop_member:
  assumes "grub_json_getsize (Value ks) = Some n" and "p < n"
  shows "grub_json_getchild (Value (drop_member p ks)) i
           = grub_json_getchild (Value ks) (if i < p then i else Suc i)"
        "grub_json_getsize (Value (drop_member p ks)) = Some (n - 1)"
  using assms by (cases ks; auto simp: nth_append min_def)+

lemma keyed_child_drop_member:
  assumes "grub_json_getsize (Value ks) = Some n" and "p < n"
  shows "keyed_child (Value (drop_member p ks)) i
           = keyed_child (Value ks) (if i < p then i else Suc i)"
  unfolding keyed_child_def getchild_drop_member(1) [OF assms] ..

lemma keyed_child_in_range:
  "keyed_child (Value ks) p = Some x \<Longrightarrow> \<exists>n. grub_json_getsize (Value ks) = Some n \<and> p < n"
  by (cases ks) (auto simp: keyed_child_def split: option.splits if_splits)

lemma get_keyslot_segment_without:
  "luks2_get_keyslot_segment k d s (Value (without_keyslot p root)) e
     = luks2_get_keyslot_segment k d s (Value root) e"
  by (simp add: luks2_get_keyslot_segment_def getvalue_without_other)

lemma get_keyslot_digest_without:
  "luks2_get_keyslot_digest k d s (Value (without_keyslot p root)) kk e
     = luks2_get_keyslot_digest k d s (Value root) kk e"
  by (simp add: luks2_get_keyslot_digest_def getvalue_without_other get_keyslot_segment_without
        cong del: option.case_cong_weak prod.case_cong_weak scan.case_cong_weak)

lemma get_keyslot_without:
  assumes "grub_json_getvalue (Value root) ''keyslots'' = Some (Value ks)"
      and "grub_json_getsize (Value ks) = Some n" and "p < n"
  shows "luks2_get_keyslot k d s (Value (without_keyslot p root)) i e
           = luks2_get_keyslot k d s (Value root) (if i < p then i else Suc i) e"
  by (simp add: luks2_get_keyslot_def getvalue_without_keyslots [OF assms(1)] assms(1)
        keyed_child_drop_member [OF assms(2,3)] get_keyslot_digest_without
        cong del: option.case_cong_weak prod.case_cong_weak if_weak_cong)

lemma try_keyslot_without:
  assumes "grub_json_getvalue (Value root) ''keyslots'' = Some (Value ks)"
      and "grub_json_getsize (Value ks) = Some n" and "p < n"
  shows "fst (luks2_try_keyslot env source hdr_file (Value (without_keyslot p root)) pass plen i st)
           = fst (luks2_try_keyslot env source hdr_file (Value root) pass plen
                    (if i < p then i else Suc i) st)"
        "fst (snd (luks2_try_keyslot env source hdr_file (Value (without_keyslot p root)) pass plen
                     i st))
           = fst (snd (luks2_try_keyslot env source hdr_file (Value root) pass plen
                         (if i < p then i else Suc i) st))"
  by (simp_all add: luks2_try_keyslot_def get_keyslot_without [OF assms] Let_def
        split: prod.split)


subsection \<open>The two trial loops\<close>

lemma try_keyslots_without_after:
  assumes ks: "grub_json_getvalue (Value root) ''keyslots'' = Some (Value kss)"
      and sz: "grub_json_getsize (Value kss) = Some n0" and p: "p < n0"
  shows "p \<le> i \<Longrightarrow> v_candidate_key v = v_candidate_key v'
    \<Longrightarrow> v_candidate_key_len v = v_candidate_key_len v'
    \<Longrightarrow> luks2_try_keyslots env source hdr_file (Value (without_keyslot p root)) pass plen i n (v', crypt, e) = ((w', c', f'), ev')
    \<Longrightarrow> luks2_try_keyslots env source hdr_file (Value root) pass plen (Suc i) n (v, crypt, e) = ((w, c, f), ev)
    \<Longrightarrow> c = c' \<and> f = f' \<and> v_candidate_key w = v_candidate_key w'
        \<and> v_candidate_key_len w = v_candidate_key_len w'
        \<and> (v_segment w = v_segment w' \<or> v_candidate_key_len w = v_candidate_key_len v)"
proof (induction n arbitrary: i v v' crypt e ev ev')
  case 0
  then show ?case by simp
next
  case (Suc n)
  obtain b' v1' c1' e1' x' where t':
    "luks2_try_keyslot env source hdr_file (Value (without_keyslot p root)) pass plen i (v', crypt, e) = (b', (v1', c1', e1'), x')"
    by (cases "luks2_try_keyslot env source hdr_file (Value (without_keyslot p root)) pass plen i (v', crypt, e)") auto
  obtain b2 v2 c2 e2 x2 where t2:
    "luks2_try_keyslot env source hdr_file (Value root) pass plen (Suc i) (v', crypt, e) = (b2, (v2, c2, e2), x2)"
    by (cases "luks2_try_keyslot env source hdr_file (Value root) pass plen (Suc i) (v', crypt, e)") auto
  obtain b v1 c1 e1 x where t:
    "luks2_try_keyslot env source hdr_file (Value root) pass plen (Suc i) (v, crypt, e) = (b, (v1, c1, e1), x)"
    by (cases "luks2_try_keyslot env source hdr_file (Value root) pass plen (Suc i) (v, crypt, e)") auto
  from try_keyslot_without [OF ks sz p, of env source hdr_file pass plen i "(v', crypt, e)"]
       Suc.prems(1) t' t2
  have sh: "b' = b2" "v1' = v2" "c1' = c2" "e1' = e2" by simp_all
  note l = try_keyslot_locals [OF t t2 Suc.prems(2,3)]
  show ?case
  proof (cases b)
    case True
    with l sh have "b'" by simp
    with Suc.prems(4) t' have r': "w' = v1'" "c' = c1'" "f' = e1'" by simp_all
    from True Suc.prems(5) t have r: "w = v1" "c = c1" "f = e1" by simp_all
    from l sh True r r' show ?thesis by simp
  next
    case False
    with l sh have nb: "\<not> b'" by simp
    from nb Suc.prems(4) t' obtain y' where
      l': "luks2_try_keyslots env source hdr_file (Value (without_keyslot p root)) pass plen (Suc i) n (v1', c1', e1')
             = ((w', c', f'), y')"
      by (auto split: prod.splits)
    from False Suc.prems(5) t obtain y where
      l2: "luks2_try_keyslots env source hdr_file (Value root) pass plen (Suc (Suc i)) n (v1, c1, e1) = ((w, c, f), y)"
      by (auto split: prod.splits)
    from l sh have eq: "c1' = c1" "e1' = e1" "v_candidate_key v1 = v_candidate_key v1'"
        "v_candidate_key_len v1 = v_candidate_key_len v1'" by simp_all
    from Suc.prems(1) have pi: "p \<le> Suc i" by simp
    note ih = Suc.IH [OF pi eq(3,4) l' [unfolded eq(1,2)] l2]
    from try_keyslot_outcome [OF t] False have "v_candidate_key_len v1 = v_candidate_key_len v"
      by simp
    with ih show ?thesis by auto
  qed
qed

lemma try_keyslots_without_before:
  assumes ks: "grub_json_getvalue (Value root) ''keyslots'' = Some (Value kss)"
      and sz: "grub_json_getsize (Value kss) = Some n0" and p: "p < n0"
      and g: "fst (luks2_get_keyslot k0 d0 s0 (Value root) p ea) = GRUB_ERR_NONE"
      and z: "ks_priority (fst (snd (luks2_get_keyslot k0 d0 s0 (Value root) p ea))) = 0"
  shows "i \<le> p \<Longrightarrow> p < i + n \<Longrightarrow> v_candidate_key v = v_candidate_key v'
    \<Longrightarrow> v_candidate_key_len v = v_candidate_key_len v'
    \<Longrightarrow> luks2_try_keyslots env source hdr_file (Value (without_keyslot p root)) pass plen i (n - 1) (v', crypt, e)
          = ((w', c', f'), ev')
    \<Longrightarrow> luks2_try_keyslots env source hdr_file (Value root) pass plen i n (v, crypt, e) = ((w, c, f), ev)
    \<Longrightarrow> c = c' \<and> f = f' \<and> v_candidate_key w = v_candidate_key w'
        \<and> v_candidate_key_len w = v_candidate_key_len w'
        \<and> (v_segment w = v_segment w' \<or> v_candidate_key_len w = v_candidate_key_len v)"
proof (induction n arbitrary: i v v' crypt e ev ev')
  case 0
  then show ?case by simp
next
  case (Suc n)
  show ?case
  proof (cases "i = p")
    case True
    from try_keyslot_ignored [OF g z, of env source hdr_file pass plen v crypt e]
    obtain v1 where ig:
      "luks2_try_keyslot env source hdr_file (Value root) pass plen p (v, crypt, e) = (False, (v1, crypt, e), [EvSlot Ignoring p])"
      "v_candidate_key v1 = v_candidate_key v" "v_candidate_key_len v1 = v_candidate_key_len v"
      by blast
    from Suc.prems(6) True ig(1) obtain y where
      l2: "luks2_try_keyslots env source hdr_file (Value root) pass plen (Suc p) n (v1, crypt, e) = ((w, c, f), y)"
      by (auto split: prod.splits)
    from Suc.prems(5) True
    have l': "luks2_try_keyslots env source hdr_file (Value (without_keyslot p root)) pass plen p n (v', crypt, e)
                = ((w', c', f'), ev')" by simp
    from Suc.prems(3,4) ig have eq: "v_candidate_key v1 = v_candidate_key v'"
        "v_candidate_key_len v1 = v_candidate_key_len v'" by simp_all
    from try_keyslots_without_after [OF ks sz p le_refl eq l' l2] ig(3) show ?thesis by auto
  next
    case False
    with Suc.prems(1,2) have ip: "i < p" and n: "0 < n" by simp_all
    then obtain m where m: "n = Suc m" by (cases n) auto
    obtain b' v1' c1' e1' x' where t':
      "luks2_try_keyslot env source hdr_file (Value (without_keyslot p root)) pass plen i (v', crypt, e) = (b', (v1', c1', e1'), x')"
      by (cases "luks2_try_keyslot env source hdr_file (Value (without_keyslot p root)) pass plen i (v', crypt, e)") auto
    obtain b2 v2 c2 e2 x2 where t2:
      "luks2_try_keyslot env source hdr_file (Value root) pass plen i (v', crypt, e) = (b2, (v2, c2, e2), x2)"
      by (cases "luks2_try_keyslot env source hdr_file (Value root) pass plen i (v', crypt, e)") auto
    obtain b v1 c1 e1 x where t:
      "luks2_try_keyslot env source hdr_file (Value root) pass plen i (v, crypt, e) = (b, (v1, c1, e1), x)"
      by (cases "luks2_try_keyslot env source hdr_file (Value root) pass plen i (v, crypt, e)") auto
    from try_keyslot_without [OF ks sz p, of env source hdr_file pass plen i "(v', crypt, e)"]
         ip t' t2
    have sh: "b' = b2" "v1' = v2" "c1' = c2" "e1' = e2" by simp_all
    note l = try_keyslot_locals [OF t t2 Suc.prems(3,4)]
    from Suc.prems(5) m
    have p5: "luks2_try_keyslots env source hdr_file (Value (without_keyslot p root)) pass plen i (Suc m) (v', crypt, e)
                = ((w', c', f'), ev')" by simp
    show ?thesis
    proof (cases b)
      case True
      with l sh have "b'" by simp
      with p5 t' have r': "w' = v1'" "c' = c1'" "f' = e1'" by simp_all
      from True Suc.prems(6) t have r: "w = v1" "c = c1" "f = e1" by simp_all
      from l sh True r r' show ?thesis by simp
    next
      case nb: False
      with l sh have nb': "\<not> b'" by simp
      from nb' p5 t' m obtain y' where
        l': "luks2_try_keyslots env source hdr_file (Value (without_keyslot p root)) pass plen (Suc i) (n - 1) (v1', c1', e1')
               = ((w', c', f'), y')"
        by (auto split: prod.splits)
      from nb Suc.prems(6) t obtain y where
        l2: "luks2_try_keyslots env source hdr_file (Value root) pass plen (Suc i) n (v1, c1, e1) = ((w, c, f), y)"
        by (auto split: prod.splits)
      from l sh have eq: "c1' = c1" "e1' = e1" "v_candidate_key v1 = v_candidate_key v1'"
          "v_candidate_key_len v1 = v_candidate_key_len v1'" by simp_all
      from ip Suc.prems(2) have pi: "Suc i \<le> p" "p < Suc i + n" by simp_all
      note ih = Suc.IH [OF pi eq(3,4) l' [unfolded eq(1,2)] l2]
      from try_keyslot_outcome [OF t] nb have "v_candidate_key_len v1 = v_candidate_key_len v"
        by simp
      with ih show ?thesis by auto
    qed
  qed
qed

lemma fst_return_derror3: "fst (return_derror3 n msg k d s e) = n"
  by (simp add: return_derror3_def luks2_derror_def grub_error_def)

lemma get_keyslot_success_range:
  assumes "fst (luks2_get_keyslot k d s (Value root) p e) = GRUB_ERR_NONE"
  shows "\<exists>kss n. grub_json_getvalue (Value root) ''keyslots'' = Some (Value kss)
                 \<and> grub_json_getsize (Value kss) = Some n \<and> p < n"
proof (cases "grub_json_getvalue (Value root) ''keyslots''")
  case None
  with assms show ?thesis by (simp add: luks2_get_keyslot_def fst_return_derror3)
next
  case (Some c)
  with getvalue_is_value obtain kss where c: "c = Value kss" by blast
  show ?thesis
  proof (cases "keyed_child (Value kss) p")
    case None
    with assms Some c show ?thesis by (simp add: luks2_get_keyslot_def fst_return_derror3)
  next
    case (Some x)
    from keyed_child_in_range [OF Some] \<open>grub_json_getvalue (Value root) ''keyslots'' = Some c\<close> c
    show ?thesis by simp
  qed
qed


text \<open>
  Claim C7. Let entry \<open>p\<close> of the keyslots resolve (\<^verbatim>\<open>luks2_get_keyslot\<close> returns
  \<^verbatim>\<open>GRUB_ERR_NONE\<close>) to a keyslot whose priority is 0. Then in whatever state the trial loop
  reaches index \<open>p\<close>, the iteration prints that it ignores the keyslot and does nothing
  else: it makes no call, ends in \<^verbatim>\<open>continue\<close> and leaves the crypto disk, the error state,
  the candidate key and its length as they were. And the unlock attempt on the document
  without that entry takes the same way out, returns the same code and leaves the same
  crypto disk and the same \<^verbatim>\<open>grub_errno\<close> as the attempt on the document with it. (The
  message texts are not compared: those of \<^verbatim>\<open>luks2_get_keyslot\<close> carry the keyslot's
  index, which the removal shifts.)
\<close>

theorem priority_zero_keyslot_skipped:
  assumes g: "fst (luks2_get_keyslot (v_keyslot uninit_vars) (v_digest uninit_vars) (v_segment uninit_vars) (Value root) p e) = GRUB_ERR_NONE"
      and z: "ks_priority (fst (snd (luks2_get_keyslot (v_keyslot uninit_vars) (v_digest uninit_vars) (v_segment uninit_vars) (Value root) p e))) = 0"
  shows "(\<forall>v c ea. \<exists>v1.
            luks2_try_keyslot env source hdr_file (Value root) pass plen p (v, c, ea) = (False, (v1, c, ea), [EvSlot Ignoring p])
            \<and> v_candidate_key v1 = v_candidate_key v
            \<and> v_candidate_key_len v1 = v_candidate_key_len v)
         \<and> fst (luks2_recover_key_slots env source crypt hdr_file (Value (without_keyslot p root)) pass plen e) = fst (luks2_recover_key_slots env source crypt hdr_file (Value root) pass plen e)
         \<and> fst (snd (luks2_recover_key_slots env source crypt hdr_file (Value (without_keyslot p root)) pass plen e)) = fst (snd (luks2_recover_key_slots env source crypt hdr_file (Value root) pass plen e))
         \<and> fst (snd (snd (luks2_recover_key_slots env source crypt hdr_file (Value (without_keyslot p root)) pass plen e))) = fst (snd (snd (luks2_recover_key_slots env source crypt hdr_file (Value root) pass plen e)))
         \<and> grub_errno (fst (snd (snd (snd (luks2_recover_key_slots env source crypt hdr_file (Value (without_keyslot p root)) pass plen e))))) = grub_errno (fst (snd (snd (snd (luks2_recover_key_slots env source crypt hdr_file (Value root) pass plen e)))))"
proof -
  from get_keyslot_success_range [OF g] obtain kss n where
    ks: "grub_json_getvalue (Value root) ''keyslots'' = Some (Value kss)"
    and sz: "grub_json_getsize (Value kss) = Some n" and p: "p < n"
    by blast
  note ks' = getvalue_without_keyslots [OF ks, of p]
  note sz' = getchild_drop_member(2) [OF sz p]
  obtain w c f ev where l:
    "luks2_try_keyslots env source hdr_file (Value root) pass plen 0 n (uninit_vars, crypt, e) = ((w, c, f), ev)"
    by (cases "luks2_try_keyslots env source hdr_file (Value root) pass plen 0 n (uninit_vars, crypt, e)") auto
  obtain w' c' f' ev' where l':
    "luks2_try_keyslots env source hdr_file (Value (without_keyslot p root)) pass plen 0 (n - 1) (uninit_vars, crypt, e)
       = ((w', c', f'), ev')"
    by (cases "luks2_try_keyslots env source hdr_file (Value (without_keyslot p root)) pass plen 0 (n - 1) (uninit_vars, crypt, e)")
       auto
  from p have p0: "p < 0 + n" by simp
  note b = try_keyslots_without_before [OF ks sz p g z le0 p0 refl refl l' l]
  note l'' = l' [unfolded One_nat_def]
  have ign: "\<forall>v c ea. \<exists>v1.
            luks2_try_keyslot env source hdr_file (Value root) pass plen p (v, c, ea) = (False, (v1, c, ea), [EvSlot Ignoring p])
            \<and> v_candidate_key v1 = v_candidate_key v
            \<and> v_candidate_key_len v1 = v_candidate_key_len v"
    using try_keyslot_ignored [OF g z] by blast
  have same: "fst (luks2_recover_key_slots env source crypt hdr_file (Value (without_keyslot p root)) pass plen e) = fst (luks2_recover_key_slots env source crypt hdr_file (Value root) pass plen e)
         \<and> fst (snd (luks2_recover_key_slots env source crypt hdr_file (Value (without_keyslot p root)) pass plen e)) = fst (snd (luks2_recover_key_slots env source crypt hdr_file (Value root) pass plen e))
         \<and> fst (snd (snd (luks2_recover_key_slots env source crypt hdr_file (Value (without_keyslot p root)) pass plen e))) = fst (snd (snd (luks2_recover_key_slots env source crypt hdr_file (Value root) pass plen e)))
         \<and> grub_errno (fst (snd (snd (snd (luks2_recover_key_slots env source crypt hdr_file (Value (without_keyslot p root)) pass plen e))))) = grub_errno (fst (snd (snd (snd (luks2_recover_key_slots env source crypt hdr_file (Value root) pass plen e)))))"
  proof (cases "v_candidate_key_len w = 0")
    case True
    with b have "v_candidate_key_len w' = 0" by simp
    with True b show ?thesis
      by (simp add: luks2_recover_key_slots_def ks sz ks' sz' l l'' grub_error_def)
  next
    case False
    with b have seg: "v_segment w' = v_segment w" and len: "v_candidate_key_len w' \<noteq> 0"
      by (auto simp: uninit_vars_def)
    from False len seg b show ?thesis
      by (simp add: luks2_recover_key_slots_def ks sz ks' sz' l l'' grub_error_def
            split: option.split prod.split)
  qed
  from ign same show ?thesis by blast
qed

lemma demo_without_first:
  "without_keyslot 0 (demo_root_salted [(''0'', demo_keyslot ''2'' ''0''), (''1'', demo_keyslot ''2'' ''1''), (''2'', demo_keyslot ''3'' ''1'')]) = demo_root_salted [(''1'', demo_keyslot ''2'' ''1''), (''2'', demo_keyslot ''3'' ''1'')]"
  by (simp add: without_keyslot_def demo_root_salted_def)

lemma demo_first_priority:
  "fst (luks2_get_keyslot (v_keyslot uninit_vars) (v_digest uninit_vars) (v_segment uninit_vars)
          (Value (demo_root_salted [(''0'', demo_keyslot ''2'' ''0''), (''1'', demo_keyslot ''2'' ''1''), (''2'', demo_keyslot ''3'' ''1'')])) 0 e0) = GRUB_ERR_NONE"
  "ks_priority (fst (snd (luks2_get_keyslot (v_keyslot uninit_vars) (v_digest uninit_vars)
                            (v_segment uninit_vars) (Value (demo_root_salted [(''0'', demo_keyslot ''2'' ''0''), (''1'', demo_keyslot ''2'' ''1''), (''2'', demo_keyslot ''3'' ''1'')])) 0 e0))) = 0"
  by code_simp+

lemma demo_slots_three:
  "luks2_recover_key_slots (demo_env (demo_root []) []) (demo_volume LUKS_MAGIC_1ST [0, 0, 0, 0, 0, 0, 0, 1] [0, 0, 0, 0, 0, 0, 0, 1] demo_json_bytes) crypt0 None (Value (demo_root_salted [(''0'', demo_keyslot ''2'' ''0''), (''1'', demo_keyslot ''2'' ''1''), (''2'', demo_keyslot ''3'' ''1'')])) [0x70, 0x77] 2 e0
   = (GRUB_ERR_NONE, True,
      \<lparr>offset_sectors = 64, total_sectors = 960, log_sector_size = 9,
       cd_cipher = Some (''aes'', ''xts-plain64''), cd_key = [0x4D, 0x4B], cd_uuid = []\<rparr>,
      e0,
      [EvSlot Ignoring 0, EvSlot Trying 1, EvPbkdf2 [0x70, 0x77] 2,
       EvSetCipher ''aes'' ''xts-plain64'', EvSetKey [0x70, 0x77] 2, EvMalloc 4,
       EvDiskRead 32768 4, EvDecrypt [0x3D, 0x3B, 0x99, 0x11] 4 0 9,
       EvAFMerge [0x4D, 0x4B, 0xE9, 0x61] 2 2, EvFree [0x4D, 0x4B, 0xE9, 0x61],
       EvPbkdf2 [0x4D, 0x4B] 2, EvSlot Slot_opened 1,
       EvSetCipher ''aes'' ''xts-plain64'', EvSetKey [0x4D, 0x4B] 2])"
  by code_simp

theorem priority_zero_keyslot_skipped_witness:
  "fst (luks2_get_keyslot (v_keyslot uninit_vars) (v_digest uninit_vars) (v_segment uninit_vars)
          (Value (demo_root_salted [(''0'', demo_keyslot ''2'' ''0''), (''1'', demo_keyslot ''2'' ''1''), (''2'', demo_keyslot ''3'' ''1'')])) 0 e0) = GRUB_ERR_NONE
   \<and> ks_priority (fst (snd (luks2_get_keyslot (v_keyslot uninit_vars) (v_digest uninit_vars)
                            (v_segment uninit_vars) (Value (demo_root_salted [(''0'', demo_keyslot ''2'' ''0''), (''1'', demo_keyslot ''2'' ''1''), (''2'', demo_keyslot ''3'' ''1'')])) 0 e0))) = 0
   \<and> snd (snd (luks2_try_keyslot (demo_env (demo_root []) []) (demo_volume LUKS_MAGIC_1ST [0, 0, 0, 0, 0, 0, 0, 1] [0, 0, 0, 0, 0, 0, 0, 1] demo_json_bytes) None (Value (demo_root_salted [(''0'', demo_keyslot ''2'' ''0''), (''1'', demo_keyslot ''2'' ''1''), (''2'', demo_keyslot ''3'' ''1'')])) [0x70, 0x77] 2 0
                 (uninit_vars, crypt0, e0))) = [EvSlot Ignoring 0]
   \<and> fst (luks2_recover_key_slots (demo_env (demo_root []) []) (demo_volume LUKS_MAGIC_1ST [0, 0, 0, 0, 0, 0, 0, 1] [0, 0, 0, 0, 0, 0, 0, 1] demo_json_bytes) crypt0 None (Value (demo_root_salted [(''1'', demo_keyslot ''2'' ''1''), (''2'', demo_keyslot ''3'' ''1'')]))
            [0x70, 0x77] 2 e0) = GRUB_ERR_NONE
   \<and> fst (snd (snd (luks2_recover_key_slots (demo_env (demo_root []) []) (demo_volume LUKS_MAGIC_1ST [0, 0, 0, 0, 0, 0, 0, 1] [0, 0, 0, 0, 0, 0, 0, 1] demo_json_bytes) crypt0 None (Value (demo_root_salted [(''1'', demo_keyslot ''2'' ''1''), (''2'', demo_keyslot ''3'' ''1'')]))
                       [0x70, 0x77] 2 e0)))
     = \<lparr>offset_sectors = 64, total_sectors = 960, log_sector_size = 9,
        cd_cipher = Some (''aes'', ''xts-plain64''), cd_key = [0x4D, 0x4B], cd_uuid = []\<rparr>
   \<and> grub_errno (fst (snd (snd (snd (luks2_recover_key_slots (demo_env (demo_root []) []) (demo_volume LUKS_MAGIC_1ST [0, 0, 0, 0, 0, 0, 0, 1] [0, 0, 0, 0, 0, 0, 0, 1] demo_json_bytes) crypt0 None
                                        (Value (demo_root_salted [(''1'', demo_keyslot ''2'' ''1''), (''2'', demo_keyslot ''3'' ''1'')])) [0x70, 0x77] 2 e0)))))
     = GRUB_ERR_NONE"
proof -
  note t = priority_zero_keyslot_skipped [OF demo_first_priority, where env = "demo_env (demo_root []) []"
             and source = "demo_volume LUKS_MAGIC_1ST [0, 0, 0, 0, 0, 0, 0, 1] [0, 0, 0, 0, 0, 0, 0, 1] demo_json_bytes" and hdr_file = None and pass = "[0x70, 0x77]" and plen = 2
             and crypt = crypt0]
  have e: "grub_errno e0 = GRUB_ERR_NONE" by (simp add: e0_def)
  from t [THEN conjunct1, rule_format, of uninit_vars crypt0 e0]
  have a: "snd (snd (luks2_try_keyslot (demo_env (demo_root []) []) (demo_volume LUKS_MAGIC_1ST [0, 0, 0, 0, 0, 0, 0, 1] [0, 0, 0, 0, 0, 0, 0, 1] demo_json_bytes) None (Value (demo_root_salted [(''0'', demo_keyslot ''2'' ''0''), (''1'', demo_keyslot ''2'' ''1''), (''2'', demo_keyslot ''3'' ''1'')])) [0x70, 0x77] 2 0
                 (uninit_vars, crypt0, e0))) = [EvSlot Ignoring 0]"
    by auto
  from t [THEN conjunct2]
  have b: "fst (luks2_recover_key_slots (demo_env (demo_root []) []) (demo_volume LUKS_MAGIC_1ST [0, 0, 0, 0, 0, 0, 0, 1] [0, 0, 0, 0, 0, 0, 0, 1] demo_json_bytes) crypt0 None (Value (demo_root_salted [(''1'', demo_keyslot ''2'' ''1''), (''2'', demo_keyslot ''3'' ''1'')]))
            [0x70, 0x77] 2 e0) = GRUB_ERR_NONE
   \<and> fst (snd (snd (luks2_recover_key_slots (demo_env (demo_root []) []) (demo_volume LUKS_MAGIC_1ST [0, 0, 0, 0, 0, 0, 0, 1] [0, 0, 0, 0, 0, 0, 0, 1] demo_json_bytes) crypt0 None (Value (demo_root_salted [(''1'', demo_keyslot ''2'' ''1''), (''2'', demo_keyslot ''3'' ''1'')]))
                       [0x70, 0x77] 2 e0)))
     = \<lparr>offset_sectors = 64, total_sectors = 960, log_sector_size = 9,
        cd_cipher = Some (''aes'', ''xts-plain64''), cd_key = [0x4D, 0x4B], cd_uuid = []\<rparr>
   \<and> grub_errno (fst (snd (snd (snd (luks2_recover_key_slots (demo_env (demo_root []) []) (demo_volume LUKS_MAGIC_1ST [0, 0, 0, 0, 0, 0, 0, 1] [0, 0, 0, 0, 0, 0, 0, 1] demo_json_bytes) crypt0 None
                                        (Value (demo_root_salted [(''1'', demo_keyslot ''2'' ''1''), (''2'', demo_keyslot ''3'' ''1'')])) [0x70, 0x77] 2 e0)))))
     = GRUB_ERR_NONE"
    by (simp add: demo_without_first demo_slots_three e)
  from a b demo_first_priority show ?thesis by simp
qed

end
